(* ===== verification/Prelude.thy ===== *)
theory Prelude
  imports Complex_Main
begin

text \<open>
  Shared vocabulary of the development: Python dictionaries as association
  lists (insertion order kept, because the code zips \<open>.values()\<close>),
  exceptions as the left side of a sum, the chat-history entries the agents
  keep, and the handful of Python string primitives the protocol code uses
  (\<open>str.strip\<close>, \<open>startswith\<close>, \<open>in\<close>, \<open>find\<close>, \<open>split\<close>
  with and without a separator, \<open>re.findall(r"\d+")\<close>, \<open>int\<close>, \<open>str\<close>,
  list indexing). Characters are Isabelle's 8-bit \<open>char\<close>, so the model is
  exact for ASCII text. The lemmas include the round trip \<open>int(str(i)) = i\<close>.
\<close>

named_theorems py_simps "evaluation rules of the Python primitives"

section \<open>Exceptions and the error monad\<close>

text \<open>
  The exceptions the code raises or meets. \<open>InvalidObjective\<close> and
  \<open>InvalidFilter\<close> are the bare \<open>Exception\<close> raised for an unknown objective
  and an unknown dataset filter; \<open>FileExistsError\<close> is \<open>open(name, "x")\<close> on an
  existing file, \<open>OSError\<close> any other failure to open a file.
\<close>

datatype py_error = KeyError | IndexError | AssertionError | InvalidObjective
  | AttributeError | TypeError | ValueError | ZeroDivisionError | OSError
  | InvalidFilter | FileExistsError | StopIteration | UnboundLocalError

type_synonym 'a result = "py_error + 'a"

definition ebind :: "'a result \<Rightarrow> ('a \<Rightarrow> 'b result) \<Rightarrow> 'b result" where
  "ebind r f = (case r of Inl e \<Rightarrow> Inl e | Inr x \<Rightarrow> f x)"

lemma ebind_Inl [simp]: "ebind (Inl e) f = Inl e"
  and ebind_Inr [simp]: "ebind (Inr x) f = f x"
  by (simp_all add: ebind_def)

lemma ebind_cong [fundef_cong]:
  "r = r' \<Longrightarrow> (\<And>x. r' = Inr x \<Longrightarrow> f x = g x) \<Longrightarrow> ebind r f = ebind r' g"
  by (cases r') simp_all

lemma ebind_eq_Inr: "ebind r f = Inr y \<longleftrightarrow> (\<exists>x. r = Inr x \<and> f x = Inr y)"
  by (cases r) simp_all

section \<open>Dictionaries\<close>

text \<open>
  A Python \<open>dict\<close> from strings to ints, in insertion order. Every dictionary of
  the game has the three keys of \<open>item_keys\<close>, built by the literal
  \<open>{"book": b, "hat": h, "ball": l}\<close>, which is \<open>mk_items b h l\<close>.
\<close>

type_synonym pydict = "(string \<times> int) list"

definition dict_get :: "pydict \<Rightarrow> string \<Rightarrow> int result" where
  "dict_get d k = (case map_of d k of None \<Rightarrow> Inl KeyError | Some v \<Rightarrow> Inr v)"

definition item_keys :: "string list" where
  "item_keys = [''book'', ''hat'', ''ball'']"

definition mk_items :: "int \<Rightarrow> int \<Rightarrow> int \<Rightarrow> pydict" where
  "mk_items b h l = [(''book'', b), (''hat'', h), (''ball'', l)]"

section \<open>Chat histories\<close>

text \<open>
  The entries \<open>{"role": ..., "content": ...}\<close> of \<open>messages_json\<close> and
  \<open>messages_log\<close>. The web variant also stores a timestamp, which no decision reads.
\<close>

datatype role = System | Assistant | User

type_synonym chat = "(role \<times> string) list"

section \<open>String primitives\<close>

definition py_space :: "char \<Rightarrow> bool" where
  "py_space c \<longleftrightarrow> of_char c \<in> {9, 10, 11, 12, 13, 28, 29, 30, 31, 32 :: nat}"

definition py_strip :: "string \<Rightarrow> string" where
  "py_strip s = rev (dropWhile py_space (rev (dropWhile py_space s)))"

definition startswith :: "string \<Rightarrow> string \<Rightarrow> bool" where
  "startswith s p \<longleftrightarrow> take (length p) s = p"

fun contains :: "string \<Rightarrow> string \<Rightarrow> bool" where
  "contains p [] \<longleftrightarrow> p = []"
| "contains p (c # s) \<longleftrightarrow> startswith (c # s) p \<or> contains p s"

text \<open>\<open>s.find(p)\<close>: the index of the first occurrence, or \<open>-1\<close>.\<close>

fun str_find :: "string \<Rightarrow> string \<Rightarrow> int" where
  "str_find p [] = (if p = [] then 0 else -1)"
| "str_find p (c # s) =
     (if startswith (c # s) p then 0
      else (let r = str_find p s in if r = -1 then -1 else r + 1))"

text \<open>\<open>s.split(sep)\<close> for a non-empty separator; \<open>cur\<close> is the reversed current piece.\<close>

function split_acc :: "string \<Rightarrow> string \<Rightarrow> string \<Rightarrow> string list" where
  "split_acc sep cur s =
     (if sep \<noteq> [] \<and> startswith s sep then rev cur # split_acc sep [] (drop (length sep) s)
      else (case s of [] \<Rightarrow> [rev cur] | c # t \<Rightarrow> split_acc sep (c # cur) t))"
  by pat_completeness auto
termination
  by (relation "measure (\<lambda>(sep, cur, s). length s)") (auto simp: startswith_def min_def dest!: arg_cong[where f = length] intro!: diff_less split: if_splits)

definition py_split :: "string \<Rightarrow> string \<Rightarrow> string list" where
  "py_split s sep = split_acc sep [] s"

definition is_digit :: "char \<Rightarrow> bool" where
  "is_digit c \<longleftrightarrow> 48 \<le> (of_char c :: nat) \<and> (of_char c :: nat) \<le> 57"

text \<open>\<open>re.findall(r"\d+", s)\<close>: the maximal runs of digits, left to right.\<close>

fun digit_runs_acc :: "string \<Rightarrow> string \<Rightarrow> string list" where
  "digit_runs_acc cur [] = (if cur = [] then [] else [rev cur])"
| "digit_runs_acc cur (c # s) =
     (if is_digit c then digit_runs_acc (c # cur) s
      else if cur = [] then digit_runs_acc [] s
      else rev cur # digit_runs_acc [] s)"

definition findall_digits :: "string \<Rightarrow> string list" where
  "findall_digits s = digit_runs_acc [] s"

text \<open>\<open>int(x)\<close> on a run of decimal digits.\<close>

definition digit_val :: "char \<Rightarrow> int" where
  "digit_val c = int (of_char c) - 48"

definition py_int :: "string \<Rightarrow> int" where
  "py_int ds = foldl (\<lambda>n c. 10 * n + digit_val c) 0 ds"

text \<open>\<open>str(n)\<close> of a non-negative integer, the inverse direction.\<close>

fun show_nat :: "nat \<Rightarrow> string" where
  "show_nat n = (if n < 10 then [char_of (48 + n)]
                 else show_nat (n div 10) @ [char_of (48 + n mod 10)])"

text \<open>\<open>xs[i]\<close> for \<open>i \<ge> 0\<close>: \<open>IndexError\<close> past the end.\<close>

definition list_get :: "'a list \<Rightarrow> nat \<Rightarrow> 'a result" where
  "list_get xs i = (if i < length xs then Inr (xs ! i) else Inl IndexError)"

text \<open>\<open>xs[i]\<close> for any integer \<open>i\<close>: negative indices count from the end.\<close>

definition py_index :: "'a list \<Rightarrow> int \<Rightarrow> 'a result" where
  "py_index xs i =
     (if 0 \<le> i then list_get xs (nat i)
      else if nat (- i) \<le> length xs then Inr (xs ! (length xs - nat (- i))) else Inl IndexError)"

text \<open>A list comprehension whose element expression may raise: the first error wins.\<close>

fun map_result :: "('a \<Rightarrow> 'b result) \<Rightarrow> 'a list \<Rightarrow> 'b list result" where
  "map_result f [] = Inr []"
| "map_result f (x # xs) = ebind (f x) (\<lambda>y. ebind (map_result f xs) (\<lambda>ys. Inr (y # ys)))"

text \<open>\<open>s.split()\<close> without a separator: the maximal runs of non-whitespace.\<close>

fun split_ws_acc :: "string \<Rightarrow> string \<Rightarrow> string list" where
  "split_ws_acc cur [] = (if cur = [] then [] else [rev cur])"
| "split_ws_acc cur (c # s) =
     (if py_space c then (if cur = [] then split_ws_acc [] s else rev cur # split_ws_acc [] s)
      else split_ws_acc (c # cur) s)"

definition py_split_ws :: "string \<Rightarrow> string list" where
  "py_split_ws s = split_ws_acc [] s"

text \<open>
  \<open>int(s)\<close> on a string: surrounding whitespace, an optional sign, then decimal
  digits with single underscores allowed between them; anything else raises
  \<open>ValueError\<close>.
\<close>

definition int_digits_ok :: "string \<Rightarrow> bool" where
  "int_digits_ok ds \<longleftrightarrow> ds \<noteq> [] \<and> is_digit (hd ds) \<and> is_digit (last ds)
     \<and> list_all (\<lambda>c. is_digit c \<or> c = CHR ''_'') ds \<and> \<not> contains ''__'' ds"

definition py_int_str :: "string \<Rightarrow> int result" where
  "py_int_str s =
     (let t = py_strip s;
          (sg, ds) = (case t of
                        [] \<Rightarrow> (1, [])
                      | c # r \<Rightarrow> if c = CHR ''-'' then (-1, r) else if c = CHR ''+'' then (1, r) else (1, t))
      in if int_digits_ok ds then Inr (sg * py_int (filter is_digit ds)) else Inl ValueError)"

text \<open>\<open>str(i)\<close> of an integer.\<close>

definition show_int :: "int \<Rightarrow> string" where
  "show_int i = (if i < 0 then CHR ''-'' # show_nat (nat (- i)) else show_nat (nat i))"

text \<open>\<open>d[k] = v\<close>: an existing key keeps its position, a new key goes last.\<close>

definition dict_set :: "pydict \<Rightarrow> string \<Rightarrow> int \<Rightarrow> pydict" where
  "dict_set d k v =
     (if k \<in> set (map fst d) then map (\<lambda>(k', v'). if k' = k then (k', v) else (k', v')) d else d @ [(k, v)])"

definition endswith :: "string \<Rightarrow> string \<Rightarrow> bool" where
  "endswith s p \<longleftrightarrow> startswith (rev s) (rev p)"

text \<open>The lines a text file yields when iterated: each keeps its newline, the last may lack one.\<close>

fun py_lines_acc :: "string \<Rightarrow> string \<Rightarrow> string list" where
  "py_lines_acc cur [] = (if cur = [] then [] else [rev cur])"
| "py_lines_acc cur (c # s) =
     (if c = CHR ''\<newline>'' then rev (c # cur) # py_lines_acc [] s else py_lines_acc (c # cur) s)"

definition py_lines :: "string \<Rightarrow> string list" where
  "py_lines s = py_lines_acc [] s"

section \<open>Regular expressions\<close>

text \<open>
  The patterns of the \<open>re\<close> calls of the code are sequences of literals,
  one-digit groups \<open>(\d)\<close>, digit-run groups \<open>(\d+)\<close>, groups of a run of
  a character class such as \<open>(\w+)\<close> or \<open>([\w\s,]+)\<close>, and the wildcard
  \<open>.\<close> (any character but a newline). \<open>rx_match\<close> matches at the start
  of a string and returns the groups and the rest. Runs are greedy, which for the
  patterns of the code (a run is always followed by a literal whose first
  character is outside its class, or ends the pattern) is the only way the
  backtracking matcher can match. \<open>re.findall\<close> scans left to right and
  resumes after each match; \<open>re.search\<close> returns the first match. \<open>\d\<close>,
  \<open>\w\<close> and \<open>\s\<close> are their ASCII parts here.
\<close>

datatype rx = Lit string | Dig | Digs | Run "char \<Rightarrow> bool" | Dot

fun rx_match :: "rx list \<Rightarrow> string \<Rightarrow> (string list \<times> string) option" where
  "rx_match [] s = Some ([], s)"
| "rx_match (Lit w # p) s = (if startswith s w then rx_match p (drop (length w) s) else None)"
| "rx_match (Dig # p) [] = None"
| "rx_match (Dig # p) (c # s) =
     (if is_digit c then map_option (\<lambda>(gs, r). ([c] # gs, r)) (rx_match p s) else None)"
| "rx_match (Digs # p) s =
     (if takeWhile is_digit s = [] then None
      else map_option (\<lambda>(gs, r). (takeWhile is_digit s # gs, r)) (rx_match p (dropWhile is_digit s)))"
| "rx_match (Run P # p) s =
     (if takeWhile P s = [] then None
      else map_option (\<lambda>(gs, r). (takeWhile P s # gs, r)) (rx_match p (dropWhile P s)))"
| "rx_match (Dot # p) [] = None"
| "rx_match (Dot # p) (c # s) = (if c = CHR ''\<newline>'' then None else rx_match p s)"

function rx_findall :: "rx list \<Rightarrow> string \<Rightarrow> string list list" where
  "rx_findall p [] = (case rx_match p [] of Some (gs, r) \<Rightarrow> [gs] | None \<Rightarrow> [])"
| "rx_findall p (c # s) =
     (case rx_match p (c # s) of
        None \<Rightarrow> rx_findall p s
      | Some (gs, r) \<Rightarrow> gs # rx_findall p (if length r < Suc (length s) then r else s))"
  by pat_completeness auto
termination
  by (relation "measure (\<lambda>(p, s). length s)") auto

fun rx_search :: "rx list \<Rightarrow> string \<Rightarrow> string list option" where
  "rx_search p [] = map_option fst (rx_match p [])"
| "rx_search p (c # s) = (case rx_match p (c # s) of Some (gs, r) \<Rightarrow> Some gs | None \<Rightarrow> rx_search p s)"

text \<open>A pattern none of whose literals contains a newline.\<close>

fun nl_free :: "rx list \<Rightarrow> bool" where
  "nl_free [] = True"
| "nl_free (Lit w # p) = (CHR ''\<newline>'' \<notin> set w \<and> nl_free p)"
| "nl_free (Run P # p) = (\<not> P CHR ''\<newline>'' \<and> nl_free p)"
| "nl_free (_ # p) = nl_free p"

text \<open>The elements that are groups, and the class of the characters each group captures.\<close>

fun rx_captures :: "rx \<Rightarrow> bool" where
  "rx_captures (Lit w) = False"
| "rx_captures Dot = False"
| "rx_captures _ = True"

fun rx_class :: "rx \<Rightarrow> char \<Rightarrow> bool" where
  "rx_class Dig = is_digit"
| "rx_class Digs = is_digit"
| "rx_class (Run P) = P"
| "rx_class _ = (\<lambda>_. True)"

text \<open>\<open>\w\<close>: letters, digits and the underscore.\<close>

definition is_word :: "char \<Rightarrow> bool" where
  "is_word c \<longleftrightarrow> is_digit c \<or> c = CHR ''_''
     \<or> (65 \<le> (of_char c :: nat) \<and> (of_char c :: nat) \<le> 90) \<or> (97 \<le> (of_char c :: nat) \<and> (of_char c :: nat) \<le> 122)"

section \<open>Lemmas\<close>

lemma mk_items_get [simp, py_simps]:
  "dict_get (mk_items b h l) ''book'' = Inr b"
  "dict_get (mk_items b h l) ''hat'' = Inr h"
  "dict_get (mk_items b h l) ''ball'' = Inr l"
  by (simp_all add: dict_get_def mk_items_def)

lemma mk_items_keys [simp]: "map fst (mk_items b h l) = item_keys"
  by (simp add: mk_items_def item_keys_def)

lemma mk_items_values [simp]: "map snd (mk_items b h l) = [b, h, l]"
  by (simp add: mk_items_def)

lemma mk_items_nth [simp]:
  "mk_items b h l ! 0 = (''book'', b)" "mk_items b h l ! 1 = (''hat'', h)"
  "mk_items b h l ! Suc 0 = (''hat'', h)"
  "mk_items b h l ! 2 = (''ball'', l)"
  by (simp_all add: mk_items_def)

lemma mk_items_inject [simp]:
  "mk_items b h l = mk_items b' h' l' \<longleftrightarrow> b = b' \<and> h = h' \<and> l = l'"
  by (simp add: mk_items_def)

lemma item_dict_cases:
  assumes "map fst d = item_keys"
  obtains b h l where "d = mk_items b h l"
proof -
  from assms obtain x y z where "d = [x, y, z]"
    by (cases d rule: list.exhaust[case_product list.exhaust list.exhaust list.exhaust])
       (auto simp: item_keys_def)
  with assms that show ?thesis
    by (cases x, cases y, cases z) (simp add: item_keys_def mk_items_def)
qed

lemma startswith_length: "startswith s p \<Longrightarrow> length p \<le> length s"
proof -
  assume "startswith s p"
  then have "length (take (length p) s) = length p" by (simp add: startswith_def)
  then show ?thesis by (simp add: min_def split: if_splits)
qed

declare show_nat.simps [simp del]

lemma show_nat_small: "n < 10 \<Longrightarrow> show_nat n = [char_of (48 + n)]"
  and show_nat_big: "\<not> n < 10 \<Longrightarrow> show_nat n = show_nat (n div 10) @ [char_of (48 + n mod 10)]"
  by (simp_all add: show_nat.simps)

lemma contains_set: "contains p s \<Longrightarrow> set p \<subseteq> set s"
proof (induction s)
  case Nil then show ?case by simp
next
  case (Cons c s)
  show ?case
  proof (cases "startswith (c # s) p")
    case True
    then have eq: "take (length p) (c # s) = p" unfolding startswith_def .
    have "set (take (length p) (c # s)) \<subseteq> set (c # s)" by (rule set_take_subset)
    then show ?thesis unfolding eq .
  next
    case False
    with Cons.prems have "contains p s" by simp
    with Cons.IH show ?thesis by auto
  qed
qed

lemma py_strip_id: "\<forall>c \<in> set s. \<not> py_space c \<Longrightarrow> py_strip s = s"
proof -
  assume a: "\<forall>c \<in> set s. \<not> py_space c"
  then have "dropWhile py_space s = s" by (cases s) auto
  moreover from a have "\<forall>c \<in> set (rev s). \<not> py_space c" by simp
  then have "dropWhile py_space (rev s) = rev s" by (cases "rev s") auto
  ultimately show ?thesis by (simp add: py_strip_def)
qed

lemma digit_char [simp]: "(n::nat) < 10 \<Longrightarrow> is_digit (char_of (48 + n))"
  by (simp add: is_digit_def)

lemma digit_val_char [simp]: "(n::nat) < 10 \<Longrightarrow> digit_val (char_of (48 + n)) = int n"
  by (simp add: digit_val_def)

lemma show_nat_digits: "list_all is_digit (show_nat n)"
proof (induction n rule: show_nat.induct)
  case (1 n) then show ?case by (cases "n < 10") (simp_all add: show_nat_small show_nat_big)
qed

lemma show_nat_ne [simp]: "show_nat n \<noteq> []"
  by (cases "n < 10") (simp_all add: show_nat_small show_nat_big)

lemma py_int_snoc: "py_int (xs @ [c]) = 10 * py_int xs + digit_val c"
  by (simp add: py_int_def)

lemma py_int_show_nat: "py_int (show_nat n) = int n"
proof (induction n rule: show_nat.induct)
  case (1 n)
  show ?case
  proof (cases "n < 10")
    case True
    then show ?thesis by (simp add: show_nat_small py_int_def)
  next
    case False
    with "1.IH" have "py_int (show_nat (n div 10)) = int (n div 10)" by simp
    then have "py_int (show_nat n) = 10 * int (n div 10) + int (n mod 10)"
      using False by (simp add: show_nat_big py_int_snoc)
    also have "\<dots> = int n" using div_mult_mod_eq[of n 10] by presburger
    finally show ?thesis .
  qed
qed

lemma digit_not_space: "is_digit c \<Longrightarrow> \<not> py_space c"
  by (auto simp: is_digit_def py_space_def)

lemma show_nat_facts:
  "\<forall>c \<in> set (show_nat n). is_digit c" "filter is_digit (show_nat n) = show_nat n"
  "int_digits_ok (show_nat n)"
proof -
  have d: "list_all is_digit (show_nat n)" by (rule show_nat_digits)
  then show a: "\<forall>c \<in> set (show_nat n). is_digit c" by (simp add: list_all_iff)
  then show "filter is_digit (show_nat n) = show_nat n" by simp
  have "CHR ''_'' \<notin> set (show_nat n)" using a by (auto simp: is_digit_def)
  then have "\<not> contains ''__'' (show_nat n)" by (auto dest: contains_set)
  with a d show "int_digits_ok (show_nat n)"
    by (auto simp: int_digits_ok_def list_all_iff)
qed

lemma py_int_str_show_int: "py_int_str (show_int i) = Inr i"
proof -
  have nd: "\<forall>c \<in> set (show_nat n). \<not> py_space c" for n
    using show_nat_facts(1) digit_not_space by blast
  have hd: "hd (show_nat n) \<noteq> CHR ''-'' \<and> hd (show_nat n) \<noteq> CHR ''+''" for n
  proof -
    have "is_digit (hd (show_nat n))" using show_nat_facts(1) hd_in_set[OF show_nat_ne] by blast
    then show ?thesis by (auto simp: is_digit_def)
  qed
  show ?thesis
  proof (cases "i < 0")
    case True
    then have "py_strip (show_int i) = CHR ''-'' # show_nat (nat (- i))"
      using nd by (simp add: show_int_def py_strip_id py_space_def)
    with True show ?thesis
      by (simp add: py_int_str_def show_nat_facts py_int_show_nat)
  next
    case False
    then have "py_strip (show_int i) = show_nat (nat i)"
      using nd by (simp add: show_int_def py_strip_id)
    moreover obtain c r where "show_nat (nat i) = c # r" by (cases "show_nat (nat i)") auto
    ultimately show ?thesis using False hd[of "nat i"] show_nat_facts[of "nat i"] py_int_show_nat[of "nat i"]
      by (simp add: py_int_str_def)
  qed
qed

lemma startswith_nl:
  "CHR ''\<newline>'' \<notin> set w \<Longrightarrow> startswith (x @ CHR ''\<newline>'' # b) w \<longleftrightarrow> startswith x w \<and> length w \<le> length x"
proof (induction w arbitrary: x)
  case Nil
  then show ?case by (simp add: startswith_def)
next
  case (Cons a w)
  then show ?case by (cases x) (auto simp: startswith_def)
qed

lemma takeWhile_nl:
  "\<not> P CHR ''\<newline>'' \<Longrightarrow> takeWhile P (x @ CHR ''\<newline>'' # b) = takeWhile P x"
  "\<not> P CHR ''\<newline>'' \<Longrightarrow> dropWhile P (x @ CHR ''\<newline>'' # b) = dropWhile P x @ CHR ''\<newline>'' # b"
  by (induction x) auto

lemma digit_not_nl: "\<not> is_digit CHR ''\<newline>''"
  by (simp add: is_digit_def)

lemma rx_match_nl:
  "nl_free p \<Longrightarrow>
   rx_match p (x @ CHR ''\<newline>'' # b) = map_option (\<lambda>(gs, r). (gs, r @ CHR ''\<newline>'' # b)) (rx_match p x)"
proof (induction p x rule: rx_match.induct)
  case (2 w p s)
  then show ?case
    by (auto simp: startswith_nl dest: startswith_length)
next
  case (3 p)
  then show ?case by (simp add: is_digit_def)
next
  case (4 p c s)
  then show ?case by (cases "rx_match p s") auto
next
  case (5 p s)
  then show ?case
    by (cases "rx_match p (dropWhile is_digit s)") (auto simp: takeWhile_nl[where P = is_digit, OF digit_not_nl])
next
  case (6 P p s)
  then show ?case by (cases "rx_match p (dropWhile P s)") (auto simp: takeWhile_nl)
next
  case (7 p)
  then show ?case by simp
qed simp_all

lemma rx_findall_nl:
  assumes "nl_free p" and "rx_match p [] = None"
  shows "rx_findall p (x @ CHR ''\<newline>'' # b) = rx_findall p x @ rx_findall p (CHR ''\<newline>'' # b)"
proof (induction "length x" arbitrary: x rule: less_induct)
  case less
  show ?case
  proof (cases x)
    case Nil
    with assms(2) show ?thesis by simp
  next
    case (Cons c x')
    have m: "rx_match p (c # x' @ CHR ''\<newline>'' # b)
             = map_option (\<lambda>(gs, r). (gs, r @ CHR ''\<newline>'' # b)) (rx_match p (c # x'))"
      using rx_match_nl[OF assms(1), of "c # x'" b] by simp
    show ?thesis
    proof (cases "rx_match p (c # x')")
      case None
      with m Cons less[of x'] show ?thesis by simp
    next
      case (Some a)
      obtain gs r where a: "a = (gs, r)" by (cases a)
      show ?thesis
      proof (cases "length r < Suc (length x')")
        case True
        with m Some a Cons less[of r] show ?thesis by simp
      next
        case False
        with m Some a Cons less[of x'] show ?thesis by simp
      qed
    qed
  qed
qed

lemma rx_match_Lit_start: "rx_match (Lit w # p) s = Some m \<Longrightarrow> startswith s w"
  by (simp split: if_splits)


lemma rx_match_groups:
  "rx_match p s = Some (gs, r) \<Longrightarrow> list_all2 (\<lambda>e g. list_all (rx_class e) g) (filter rx_captures p) gs"
proof (induction p s arbitrary: gs r rule: rx_match.induct)
  case (5 p s)
  then show ?case by (auto simp: list_all_iff dest: set_takeWhileD split: if_splits)
next
  case (6 P p s)
  then show ?case by (auto simp: list_all_iff dest: set_takeWhileD split: if_splits)
qed (auto split: if_splits)

lemma rx_findall_groups:
  "gs \<in> set (rx_findall p s) \<Longrightarrow> list_all2 (\<lambda>e g. list_all (rx_class e) g) (filter rx_captures p) gs"
  by (induction p s rule: rx_findall.induct)
     (auto dest: rx_match_groups rx_match_groups[OF sym] split: option.splits if_splits)

lemma rx_findall_first:
  "rx_match p s = Some (gs, r) \<Longrightarrow> length r < length s \<Longrightarrow> rx_findall p s = gs # rx_findall p r"
  by (cases s) auto

lemma takeWhile_show_nat_gen:
  "list_all P (show_nat n) \<Longrightarrow> takeWhile P (show_nat n @ r) = show_nat n @ takeWhile P r"
  "list_all P (show_nat n) \<Longrightarrow> dropWhile P (show_nat n @ r) = dropWhile P r"
  by (auto simp: takeWhile_append2 dropWhile_append2 list_all_iff)

lemma show_nat_not_word_end:
  "\<not> is_digit c \<Longrightarrow> takeWhile is_digit (show_nat n @ c # r) = show_nat n"
  "\<not> is_digit c \<Longrightarrow> dropWhile is_digit (show_nat n @ c # r) = c # r"
  "takeWhile is_digit (show_nat n) = show_nat n" "dropWhile is_digit (show_nat n) = []"
  using show_nat_facts(1)[of n] by (auto simp: takeWhile_append2 dropWhile_append2)

lemma word_run:
  "list_all is_word w \<Longrightarrow> (r = [] \<or> \<not> is_word (hd r)) \<Longrightarrow> takeWhile is_word (w @ r) = w \<and> dropWhile is_word (w @ r) = r"
  by (cases r) (auto simp: takeWhile_append2 dropWhile_append2 list_all_iff)

lemma rx_search_skip:
  "\<forall>c \<in> set x. c \<noteq> a \<Longrightarrow> rx_search (Lit (a # w) # q) (x @ y) = rx_search (Lit (a # w) # q) y"
  by (induction x) (auto simp: startswith_def)

lemma show_nat_01 [simp]: "show_nat 0 = ''0''" "show_nat 1 = ''1''" "show_nat (Suc 0) = ''1''"
  by code_simp+

lemma py_lines_acc_nonl:
  "x \<noteq> [] \<Longrightarrow> CHR ''\<newline>'' \<notin> set x \<Longrightarrow> py_lines_acc cur (x @ y) = py_lines_acc (rev x @ cur) y"
proof (induction x arbitrary: cur)
  case Nil
  then show ?case by simp
next
  case (Cons c x)
  then show ?case by (cases "x = []") auto
qed

lemma show_nat_no_nl [simp]: "CHR ''\<newline>'' \<notin> set (show_nat n)"
  using show_nat_facts(1)[of n] digit_not_nl by blast

lemma show_nat_no_P: "\<forall>c \<in> set (show_nat n). c \<noteq> CHR ''P''"
proof -
  have "\<not> is_digit (CHR ''P'')" by code_simp
  then show ?thesis using show_nat_facts(1)[of n] by blast
qed

lemma map_result_Inr_all2: "map_result f xs = Inr ys \<longleftrightarrow> list_all2 (\<lambda>x y. f x = Inr y) xs ys"
proof (induction xs arbitrary: ys)
  case Nil
  then show ?case by auto
next
  case (Cons x xs)
  then show ?case by (cases ys) (auto simp: ebind_eq_Inr)
qed

lemma list_all2_transfer_all:
  "list_all2 P xs ys \<Longrightarrow> list_all R xs \<Longrightarrow> (\<And>x y. P x y \<Longrightarrow> R x \<Longrightarrow> Q y) \<Longrightarrow> list_all Q ys"
  by (induction rule: list_all2_induct) auto

end
