(* ===== verification/Scoring.thy ===== *)
theory Scoring
  imports Prelude
begin

text \<open>
  Allocation and scoring: \<open>NegotiationGame.calculateScore\<close>,
  \<open>isValidDeal\<close> and \<open>calculateFinalScores\<close> of \<open>src/games/negotiation.py\<close>
  (duplicated verbatim in \<open>src/web_interface/games/web_negotiation.py\<close>), the
  objective check of the constructor, and the free-standing
  \<open>calculateScore\<close>/\<open>calculateFinalScore\<close> of \<open>src/utils.py\<close>.
\<close>

section \<open>Objectives\<close>

datatype objective = Self | Coop | Comp

text \<open>The constructor's \<open>if self.objective == "self" ... else raise Exception\<close>.\<close>

definition objective_of_string :: "string \<Rightarrow> objective result" where
  "objective_of_string s =
     (if s = ''self'' then Inr Self
      else if s = ''coop'' then Inr Coop
      else if s = ''comp'' then Inr Comp
      else Inl InvalidObjective)"

section \<open>Scores\<close>

text \<open>
  \<open>sum(x * y for x, y in zip(player_values.values(), player_cnts.values()))\<close>:
  positional, not by key, and \<open>zip\<close> stops at the shorter dictionary.
\<close>

definition calculateScore :: "pydict \<Rightarrow> pydict \<Rightarrow> int" where
  "calculateScore vals cnts = sum_list (map2 (*) (map snd vals) (map snd cnts))"

text \<open>The loop \<open>for k in p1_cnts.keys()\<close> of \<open>isValidDeal\<close>.\<close>

fun deal_keys_ok :: "pydict \<Rightarrow> pydict \<Rightarrow> pydict \<Rightarrow> string list \<Rightarrow> bool result" where
  "deal_keys_ok counts p1 p2 [] = Inr True"
| "deal_keys_ok counts p1 p2 (k # ks) =
     ebind (dict_get p1 k) (\<lambda>a. ebind (dict_get p2 k) (\<lambda>b. ebind (dict_get counts k) (\<lambda>c.
       if a + b \<noteq> c then Inr False else deal_keys_ok counts p1 p2 ks)))"

definition isValidDeal :: "pydict \<Rightarrow> pydict option list \<Rightarrow> bool result" where
  "isValidDeal counts props =
     (case (props ! 0, props ! 1) of
        (Some p1, Some p2) \<Rightarrow> deal_keys_ok counts p1 p2 (map fst p1)
      | _ \<Rightarrow> Inr False)"

text \<open>
  \<open>calculateFinalScores\<close>: both entries of \<open>final_scores\<close> are written on every
  branch, so the result is a pair.
\<close>

definition calculateFinalScores ::
  "objective \<Rightarrow> pydict \<Rightarrow> pydict list \<Rightarrow> pydict option list \<Rightarrow> (int \<times> int) result" where
  "calculateFinalScores obj counts vals props =
     ebind (isValidDeal counts props) (\<lambda>ok.
       if \<not> ok then Inr (0, 0)
       else (let p0 = calculateScore (vals ! 0) (the (props ! 0));
                 p1 = calculateScore (vals ! 1) (the (props ! 1))
             in Inr (case obj of
                       Self \<Rightarrow> (p0, p1)
                     | Coop \<Rightarrow> (p0 + p1, p0 + p1)
                     | Comp \<Rightarrow> (p0 - p1, p1 - p0))))"

text \<open>\<open>utils.calculateFinalScore\<close>: one player's score; the objective is a string.\<close>

definition calculateFinalScore ::
  "pydict \<Rightarrow> pydict \<Rightarrow> pydict \<Rightarrow> pydict \<Rightarrow> string \<Rightarrow> int result" where
  "calculateFinalScore pv pc ov oc obj =
     (let ps = calculateScore pv pc; os = calculateScore ov oc in
      if obj = ''self'' then Inr ps
      else if obj = ''coop'' then Inr (ps + os)
      else if obj = ''comp'' then Inr (ps - os)
      else Inl InvalidObjective)"

section \<open>Reference semantics\<close>

text \<open>The spec's \<open>final_scores(objective, scoreA, scoreB)\<close>.\<close>

fun spec_final :: "objective \<Rightarrow> int \<Rightarrow> int \<Rightarrow> int \<times> int" where
  "spec_final Self a b = (a, b)"
| "spec_final Coop a b = (a + b, a + b)"
| "spec_final Comp a b = (a - b, b - a)"

text \<open>What the spec asks of \<open>score\<close>: the sum over the item kinds of value times count.\<close>

definition keyed_score :: "string list \<Rightarrow> pydict \<Rightarrow> pydict \<Rightarrow> int" where
  "keyed_score ks vals cnts = sum_list (map (\<lambda>k. the (map_of vals k) * the (map_of cnts k)) ks)"

section \<open>Lemmas\<close>

lemma calculateScore_mk_items [simp]:
  "calculateScore (mk_items vb vh vl) (mk_items b h l) = vb * b + vh * h + vl * l"
  by (simp add: calculateScore_def)

lemma calculateScore_Cons [simp]:
  "calculateScore ((k, v) # vs) ((k', c) # cs) = v * c + calculateScore vs cs"
  by (simp add: calculateScore_def)

lemma calculateScore_Nil [simp]:
  "calculateScore [] cs = 0" "calculateScore vs [] = 0"
  by (simp_all add: calculateScore_def)

lemma map_of_the_get: "map_of d k = Some v \<Longrightarrow> dict_get d k = Inr v"
  by (simp add: dict_get_def)

lemma dict_get_Inr: "dict_get d k = Inr v \<longleftrightarrow> map_of d k = Some v"
  by (simp add: dict_get_def split: option.splits)

lemma dict_get_Inl: "dict_get d k = Inl e \<longleftrightarrow> map_of d k = None \<and> e = KeyError"
  by (auto simp: dict_get_def split: option.splits)

lemma deal_keys_ok_Inr_iff:
  "deal_keys_ok counts p1 p2 ks = Inr True \<longleftrightarrow>
     (\<forall>k \<in> set ks. map_of p1 k \<noteq> None \<and> map_of p2 k \<noteq> None \<and> map_of counts k \<noteq> None
        \<and> the (map_of p1 k) + the (map_of p2 k) = the (map_of counts k))"
  by (induction ks) (auto simp: dict_get_def split: option.splits)

lemma deal_keys_ok_total:
  assumes "\<forall>k \<in> set ks. map_of p1 k \<noteq> None \<and> map_of p2 k \<noteq> None \<and> map_of counts k \<noteq> None"
  shows "\<exists>b. deal_keys_ok counts p1 p2 ks = Inr b"
  using assms by (induction ks) (auto simp: dict_get_def split: option.splits)

lemma deal_keys_ok_items [simp]:
  "deal_keys_ok (mk_items cb ch cl) (mk_items b h l) (mk_items b' h' l') item_keys =
     Inr (b + b' = cb \<and> h + h' = ch \<and> l + l' = cl)"
  by (simp add: item_keys_def)

lemma objective_of_string_Inr:
  "objective_of_string s = Inr obj \<longleftrightarrow>
     (s = ''self'' \<and> obj = Self) \<or> (s = ''coop'' \<and> obj = Coop) \<or> (s = ''comp'' \<and> obj = Comp)"
  by (auto simp: objective_of_string_def)

lemma calculateFinalScore_spec:
  assumes "objective_of_string s = Inr obj"
  shows "calculateFinalScore pv pc ov oc s =
           Inr (fst (spec_final obj (calculateScore pv pc) (calculateScore ov oc)))"
  using assms by (cases obj) (auto simp: calculateFinalScore_def objective_of_string_Inr)

lemma calculateFinalScore_swap:
  assumes "objective_of_string s = Inr obj"
  shows "calculateFinalScore ov oc pv pc s =
           Inr (snd (spec_final obj (calculateScore pv pc) (calculateScore ov oc)))"
  using assms by (cases obj) (auto simp: calculateFinalScore_def objective_of_string_Inr)

lemmas score_simps = calculateScore_def calculateFinalScores_def isValidDeal_def

lemma calculateScore_add:
  "length c1 = length c2 \<Longrightarrow>
   calculateScore v (map2 (\<lambda>a b. (fst a, snd a + snd b)) c1 c2) = calculateScore v c1 + calculateScore v c2"
proof (induction v arbitrary: c1 c2)
  case Nil
  then show ?case by simp
next
  case (Cons x v)
  then show ?case
    by (cases c1; cases c2) (auto simp: calculateScore_def algebra_simps)
qed

text \<open>\<open>calculateScore\<close> is linear in the allocation: scoring the item-wise sum of two allocations gives the sum of their scores, for any value dictionary.\<close>

theorem calculateScore_linear:
  "calculateScore v (mk_items (b1 + b2) (h1 + h2) (l1 + l2)) =
     calculateScore v (mk_items b1 h1 l1) + calculateScore v (mk_items b2 h2 l2)"
  using calculateScore_add[of "mk_items b1 h1 l1" "mk_items b2 h2 l2" v] by (simp add: mk_items_def)

lemma keyed_score_cong:
  "\<forall>k \<in> set ks. map_of v k = map_of v' k \<and> map_of c k = map_of c' k \<Longrightarrow> keyed_score ks v c = keyed_score ks v' c'"
  unfolding keyed_score_def by (induction ks) auto

text \<open>C15: When the value and count dictionaries list the same distinct keys in the same order, the positional \<open>calculateScore\<close> equals the keyed dot product the spec defines.\<close>

theorem calculateScore_keyed:
  assumes "map fst vals = ks" and "map fst cnts = ks" and "distinct ks"
  shows "calculateScore vals cnts = keyed_score ks vals cnts"
  using assms
proof (induction ks arbitrary: vals cnts)
  case Nil
  then show ?case by (simp add: keyed_score_def)
next
  case (Cons k ks)
  from Cons.prems obtain x vs y cs where v: "vals = (k, x) # vs" and c: "cnts = (k, y) # cs"
    and vk: "map fst vs = ks" and ck: "map fst cs = ks"
    by (cases vals; cases cnts) auto
  from Cons.prems(3) vk ck have "keyed_score ks vals cnts = keyed_score ks vs cs"
    by (intro keyed_score_cong) (auto simp: v c)
  with Cons.IH[OF vk ck] Cons.prems(3) show ?case
    by (simp add: v c keyed_score_def)
qed

theorem calculateScore_keyed_witness:
  "map fst (mk_items 1 3 1) = item_keys \<and> map fst (mk_items 1 0 0) = item_keys \<and> distinct item_keys
   \<and> calculateScore (mk_items 1 3 1) (mk_items 1 0 0) = keyed_score item_keys (mk_items 1 3 1) (mk_items 1 0 0)"
  using calculateScore_keyed[of "mk_items 1 3 1" item_keys "mk_items 1 0 0"]
  by (simp add: item_keys_def)

text \<open>\<open>calculateScore\<close> pairs values and counts by position, not by key: the same counts inserted in another key order give a different score than the keyed dot product.\<close>

theorem calculateScore_positional:
  "calculateScore (mk_items 1 3 1) [(''hat'', 2), (''book'', 0), (''ball'', 0)] = 2
   \<and> keyed_score item_keys (mk_items 1 3 1) [(''hat'', 2), (''book'', 0), (''ball'', 0)] = 6"
  by (simp add: calculateScore_def keyed_score_def item_keys_def mk_items_def)

text \<open>For the game's three-item dictionaries a deal is valid exactly when the two proposals add up item-wise to the item counts, and it is never valid while a proposal is missing.\<close>

theorem isValidDeal_items:
  "isValidDeal (mk_items cb ch cl) [Some (mk_items b h l), Some (mk_items b' h' l')] =
     Inr (b + b' = cb \<and> h + h' = ch \<and> l + l' = cl)
   \<and> isValidDeal counts [None, q] = Inr False \<and> isValidDeal counts [p, None] = Inr False"
  by (simp add: isValidDeal_def split: option.splits)

text \<open>If the deal is not valid, both final scores are 0, whatever the objective.\<close>

theorem invalid_deal_scores_zero:
  "isValidDeal counts props = Inr False \<Longrightarrow> calculateFinalScores obj counts vals props = Inr (0, 0)"
  by (simp add: calculateFinalScores_def)

theorem invalid_deal_scores_zero_witness:
  "isValidDeal (mk_items 1 2 3) [Some (mk_items 1 1 1), Some (mk_items 1 1 1)] = Inr False
   \<and> calculateFinalScores Comp (mk_items 1 2 3) [mk_items 1 3 1, mk_items 2 1 2]
         [Some (mk_items 1 1 1), Some (mk_items 1 1 1)] = Inr (0, 0)"
  using invalid_deal_scores_zero[of "mk_items 1 2 3" "[Some (mk_items 1 1 1), Some (mk_items 1 1 1)]"
                                    Comp "[mk_items 1 3 1, mk_items 2 1 2]"]
  by (simp add: isValidDeal_def)

text \<open>C12: For a valid deal, \<open>calculateFinalScores\<close> returns the spec's combination of the two players' scores under the objective: unchanged, their sum for both, or their differences.\<close>

theorem valid_deal_scores:
  "isValidDeal counts props = Inr True \<Longrightarrow>
   calculateFinalScores obj counts vals props =
     Inr (spec_final obj (calculateScore (vals ! 0) (the (props ! 0))) (calculateScore (vals ! 1) (the (props ! 1))))"
  by (cases obj) (simp_all add: calculateFinalScores_def Let_def)

theorem valid_deal_scores_witness:
  "isValidDeal (mk_items 1 2 3) [Some (mk_items 1 0 0), Some (mk_items 0 2 3)] = Inr True
   \<and> calculateFinalScores Self (mk_items 1 2 3) [mk_items 1 3 1, mk_items 2 1 2]
         [Some (mk_items 1 0 0), Some (mk_items 0 2 3)] = Inr (1, 8)"
  using valid_deal_scores[of "mk_items 1 2 3" "[Some (mk_items 1 0 0), Some (mk_items 0 2 3)]"
                             Self "[mk_items 1 3 1, mk_items 2 1 2]"]
  by (simp add: isValidDeal_def)

text \<open>Under the cooperative objective both final scores are equal, and under the competitive objective they are opposite, valid deal or not.\<close>

theorem final_scores_coop_comp:
  "calculateFinalScores obj counts vals props = Inr (a, b) \<Longrightarrow>
     (obj = Coop \<longrightarrow> a = b) \<and> (obj = Comp \<longrightarrow> a = - b)"
  by (cases obj) (auto simp: calculateFinalScores_def ebind_eq_Inr Let_def split: if_splits)

theorem final_scores_coop_comp_witness:
  "calculateFinalScores Comp (mk_items 1 2 3) [mk_items 1 3 1, mk_items 2 1 2]
      [Some (mk_items 1 0 0), Some (mk_items 0 2 3)] = Inr (-7, 7)
   \<and> (-7::int) = - 7"
proof -
  have run: "calculateFinalScores Comp (mk_items 1 2 3) [mk_items 1 3 1, mk_items 2 1 2]
      [Some (mk_items 1 0 0), Some (mk_items 0 2 3)] = Inr (-7, 7)"
    by (simp add: calculateFinalScores_def isValidDeal_def)
  from final_scores_coop_comp[OF run] run show ?thesis by simp
qed

end
