(* ===== verification/Validator.thy ===== *)
theory Validator
  imports Prelude
begin

text \<open>
  The response validator and the retry loop of \<open>LLMPlayer\<close>
  (\<open>src/players.py\<close>): \<open>is_valid_message\<close>, \<open>is_valid_proposal\<close>,
  \<open>is_valid_output\<close>, \<open>respond\<close>, the output post-processing of
  \<open>ClosedSourceChatPlayer.generate_response\<close>, and \<open>parse_proposal\<close> of
  \<open>src/games/negotiation.py\<close> (identical in the web game), which turns an
  accepted proposal into counts. The validator reads three things of the game:
  \<open>deal_proposed\<close>, \<open>item_counts\<close>, and the length of the player's own
  \<open>messages_log\<close>; these are its parameters here.
\<close>

section \<open>Verdicts\<close>

text \<open>One constructor per \<open>return (False, "...")\<close> of the validator, in source order.\<close>

datatype feedback =
    RedundantPrefix | MessagePrefix | OweProposal
  | NoDiscussion | ProposalPrefix | ItemOrder | ThreeCounts | CountRange
  | OutputPrefix

datatype verdict = Accept | Reject feedback

fun feedback_text :: "feedback \<Rightarrow> string" where
  "feedback_text RedundantPrefix = ''Do not include any mentions of [message] or [propose] after the initial prefix. Please just send a single message, beginning with [message].''"
| "feedback_text MessagePrefix = ''Messages must begin with [message].''"
| "feedback_text OweProposal = ''Opponent's proposal must be followed by a proposal of your own. Please send a proposal, beginning with [propose].''"
| "feedback_text NoDiscussion = ''Please begin the dialogue by discussing how you'll divide the items before submitting a private proposal.''"
| "feedback_text ProposalPrefix = ''Proposals must begin with [propose]. You may resubmit the exact same proposal but with [propose] as a prefix.''"
| "feedback_text ItemOrder = ''Item counts must be sequenced in the following order: books, hats, and then balls.''"
| "feedback_text ThreeCounts = ''There should only be counts for three items in your proposal: books, hats, and balls.''"
| "feedback_text CountRange = ''Item counts suggested are invalid based on game context; some of your proposal's item counts are greater than total items available.''"
| "feedback_text OutputPrefix = ''Your output should either begin with [message] or a [propose].''"

text \<open>The Python pair \<open>(is_valid, error_msg)\<close>.\<close>

fun verdict_pair :: "verdict \<Rightarrow> bool \<times> string" where
  "verdict_pair Accept = (True, '''')"
| "verdict_pair (Reject f) = (False, feedback_text f)"

section \<open>The validator\<close>

definition is_valid_message :: "bool \<Rightarrow> string \<Rightarrow> verdict" where
  "is_valid_message deal_proposed msg =
     (if contains ''[message]'' (drop 10 msg) \<or> contains ''[propose]'' (drop 10 msg)
      then Reject RedundantPrefix
      else if \<not> startswith (py_strip msg) ''[message]'' then Reject MessagePrefix
      else if deal_proposed then Reject OweProposal
      else Accept)"

text \<open>
  The range test \<open>0 <= q0 <= cnt["book"] and 0 <= q1 <= cnt["hat"] and ...\<close>,
  with Python's short-circuit order of evaluation.
\<close>

definition counts_in_range :: "pydict \<Rightarrow> int list \<Rightarrow> bool result" where
  "counts_in_range counts qs =
     (if \<not> 0 \<le> qs ! 0 then Inr False else
      ebind (dict_get counts ''book'') (\<lambda>cb. if \<not> qs ! 0 \<le> cb then Inr False else
      if \<not> 0 \<le> qs ! 1 then Inr False else
      ebind (dict_get counts ''hat'') (\<lambda>ch. if \<not> qs ! 1 \<le> ch then Inr False else
      if \<not> 0 \<le> qs ! 2 then Inr False else
      ebind (dict_get counts ''ball'') (\<lambda>cl. Inr (qs ! 2 \<le> cl)))))"

definition proposal_body :: "string \<Rightarrow> string" where
  "proposal_body msg = py_strip (last (py_split msg ''[propose]''))"

definition is_valid_proposal :: "pydict \<Rightarrow> nat \<Rightarrow> string \<Rightarrow> verdict result" where
  "is_valid_proposal counts log_len msg =
     (if log_len = 1 then Inr (Reject NoDiscussion)
      else if \<not> startswith (py_strip msg) ''[propose]'' then Inr (Reject ProposalPrefix)
      else
        (let proposal = proposal_body msg;
             book_idx = str_find ''book'' proposal;
             hat_idx = str_find ''hat'' proposal;
             ball_idx = str_find ''ball'' proposal
         in if \<not> (-1 < book_idx \<and> book_idx < hat_idx \<and> hat_idx < ball_idx)
            then Inr (Reject ItemOrder)
            else
              (let quantities = map py_int (findall_digits proposal) in
               if length quantities \<noteq> 3 then Inr (Reject ThreeCounts)
               else ebind (counts_in_range counts quantities) (\<lambda>ok.
                      Inr (if ok then Accept else Reject CountRange)))))"

definition is_valid_output :: "pydict \<Rightarrow> bool \<Rightarrow> nat \<Rightarrow> string \<Rightarrow> verdict result" where
  "is_valid_output counts deal_proposed log_len r =
     (if startswith (py_strip r) ''[propose]'' then is_valid_proposal counts log_len r
      else if startswith (py_strip r) ''[message]'' then Inr (is_valid_message deal_proposed r)
      else Inr (Reject OutputPrefix))"

section \<open>The retry loop\<close>

text \<open>
  \<open>LLMPlayer.respond\<close>: a rejected attempt is appended to \<open>messages_json\<close> with
  the feedback, and the fifth rejection returns the sentinel \<open>"[ABORT]"\<close>. The
  generator \<open>gen\<close> reads the current \<open>messages_json\<close>; \<open>valid\<close> is
  \<open>is_valid_output\<close> for the game state, which the loop does not change.
\<close>

definition retry_prompt :: "feedback \<Rightarrow> string" where
  "retry_prompt f = ''An error occurred. Please resend the previous message with the following correction, without indicating in any way that you have made a correction to a prior message: \<newline> \"'' @ feedback_text f @ ''\" ''"

definition abort_marker :: string where
  "abort_marker = ''[ABORT]''"

function respond_loop ::
  "(chat \<Rightarrow> string) \<Rightarrow> (string \<Rightarrow> verdict result) \<Rightarrow> nat \<Rightarrow> chat \<Rightarrow> string \<Rightarrow> (string \<times> chat) result" where
  "respond_loop gen valid err_cnt json resp =
     ebind (valid resp) (\<lambda>v. case v of
        Accept \<Rightarrow> Inr (resp, json)
      | Reject f \<Rightarrow>
          (let json' = json @ [(Assistant, resp), (User, retry_prompt f)] in
           if 5 \<le> Suc err_cnt then Inr (abort_marker, json')
           else respond_loop gen valid (Suc err_cnt) json' (gen json')))"
  by pat_completeness auto
termination
  by (relation "measure (\<lambda>(gen, valid, err_cnt, json, resp). 5 - err_cnt)") auto

definition respond :: "(chat \<Rightarrow> string) \<Rightarrow> (string \<Rightarrow> verdict result) \<Rightarrow> chat \<Rightarrow> (string \<times> chat) result" where
  "respond gen valid json = respond_loop gen valid 0 json (gen json)"

section \<open>Model output post-processing\<close>

text \<open>
  \<open>generate_response\<close> after the API call: strip, cut at the first \<open>[END]\<close>
  (else \<open>[end]\<close>), and keep only the first line of a proposal.
\<close>

definition truncate_output :: "string \<Rightarrow> string" where
  "truncate_output full_output =
     (let response_text =
        (if contains ''[END]'' full_output then py_strip (hd (py_split full_output ''[END]''))
         else if contains ''[end]'' full_output then py_strip (hd (py_split full_output ''[end]''))
         else py_strip full_output)
      in if startswith (py_strip response_text) ''[propose]''
         then hd (py_split response_text ''\<newline>'') else response_text)"

definition generate_response :: "(chat \<Rightarrow> string) \<Rightarrow> chat \<Rightarrow> string" where
  "generate_response llm json = truncate_output (py_strip (llm json))"

section \<open>Parsing an accepted proposal\<close>

text \<open>\<open>counts = re.findall(r"\d+", text)\<close>, then the first three, or \<open>IndexError\<close>.\<close>

definition parse_proposal :: "string \<Rightarrow> pydict result" where
  "parse_proposal text =
     (let counts = findall_digits text in
      if length counts < 3 then Inl IndexError
      else Inr (mk_items (py_int (counts ! 0)) (py_int (counts ! 1)) (py_int (counts ! 2))))"

text \<open>The proposal format the prompts ask for: \<open>[propose] (b books, h hats, l balls)\<close>.\<close>

definition canonical_proposal :: "nat \<Rightarrow> nat \<Rightarrow> nat \<Rightarrow> string" where
  "canonical_proposal b h l =
     ''[propose] ('' @ show_nat b @ '' books, '' @ show_nat h @ '' hats, '' @ show_nat l @ '' balls)''"

section \<open>Lemmas\<close>

declare split_acc.simps [simp del] respond_loop.simps [simp del]

lemma respond_loop_Accept:
  "valid resp = Inr Accept \<Longrightarrow> respond_loop gen valid err json resp = Inr (resp, json)"
  by (simp add: respond_loop.simps)

lemma respond_loop_Inl:
  "valid resp = Inl e \<Longrightarrow> respond_loop gen valid err json resp = Inl e"
  by (simp add: respond_loop.simps)

lemma respond_loop_Reject:
  "valid resp = Inr (Reject f) \<Longrightarrow> respond_loop gen valid err json resp =
     (let json' = json @ [(Assistant, resp), (User, retry_prompt f)] in
      if 5 \<le> Suc err then Inr (abort_marker, json')
      else respond_loop gen valid (Suc err) json' (gen json'))"
  by (simp add: respond_loop.simps)

lemma prefixes_disjoint:
  "startswith s ''[message]'' \<Longrightarrow> \<not> startswith s ''[propose]''"
  by (auto simp: startswith_def)

lemma py_space_not_digit: "py_space c \<Longrightarrow> \<not> is_digit c"
  by (auto simp: py_space_def is_digit_def)

text \<open>C5: A message-tagged response is never accepted once a proposal is on the table (\<open>deal_proposed\<close>): the player owes a counter-proposal.\<close>

theorem message_rejected_after_proposal:
  assumes "startswith (py_strip r) ''[message]''"
  shows "\<exists>f. is_valid_output counts True n r = Inr (Reject f)"
  using assms by (auto simp: is_valid_output_def is_valid_message_def prefixes_disjoint)

theorem message_rejected_after_proposal_witness:
  "startswith (py_strip ''[message] I want the hats.'') ''[message]''
   \<and> (\<exists>f. is_valid_output (mk_items 1 2 3) True 3 ''[message] I want the hats.'' = Inr (Reject f))"
proof -
  have h: "startswith (py_strip ''[message] I want the hats.'') ''[message]''"
    by (simp add: py_strip_def py_space_def startswith_def)
  from message_rejected_after_proposal[OF h] h show ?thesis by blast
qed

text \<open>C6: A proposal-tagged response is rejected with the discussion feedback while the player's log holds only the system prompt, i.e. before any message has been exchanged.\<close>

theorem proposal_rejected_before_discussion:
  "startswith (py_strip r) ''[propose]'' \<Longrightarrow> is_valid_output counts d 1 r = Inr (Reject NoDiscussion)"
  by (simp add: is_valid_output_def is_valid_proposal_def)

theorem proposal_rejected_before_discussion_witness:
  "startswith (py_strip ''[propose] (1 books, 0 hats, 0 balls)'') ''[propose]''
   \<and> is_valid_output (mk_items 1 2 3) False 1 ''[propose] (1 books, 0 hats, 0 balls)'' = Inr (Reject NoDiscussion)"
proof -
  have h: "startswith (py_strip ''[propose] (1 books, 0 hats, 0 balls)'') ''[propose]''"
    by (simp add: py_strip_def py_space_def startswith_def)
  from proposal_rejected_before_discussion[OF h] h show ?thesis by blast
qed

lemma is_valid_output_Accept:
  assumes "is_valid_output counts d n r = Inr Accept"
  shows "(startswith (py_strip r) ''[propose]'' \<and> n \<noteq> 1)
       \<or> (startswith (py_strip r) ''[message]'' \<and> \<not> d)"
  using assms
  by (auto simp: is_valid_output_def is_valid_proposal_def is_valid_message_def Let_def
           split: if_splits)

lemma abort_marker_rejected:
  "is_valid_output counts d n abort_marker = Inr (Reject OutputPrefix)"
  by (simp add: is_valid_output_def abort_marker_def py_strip_def py_space_def startswith_def)

lemma respond_loop_result:
  "respond_loop gen valid err json resp = Inr (r, json') \<Longrightarrow> err < 5 \<Longrightarrow>
     (valid r = Inr Accept \<or> r = abort_marker) \<and> (\<exists>ext. json' = json @ ext \<and> length ext \<le> 2 * (5 - err))"
proof (induction gen valid err json resp rule: respond_loop.induct)
  case (1 gen valid err json resp)
  show ?case
  proof (cases "valid resp")
    case (Inl e)
    with "1.prems" show ?thesis by (simp add: respond_loop_Inl)
  next
    case (Inr v)
    show ?thesis
    proof (cases v)
      case Accept
      with Inr "1.prems" show ?thesis by (simp add: respond_loop_Accept)
    next
      case (Reject f)
      let ?json' = "json @ [(Assistant, resp), (User, retry_prompt f)]"
      from Inr Reject have step: "respond_loop gen valid err json resp =
          (if 5 \<le> Suc err then Inr (abort_marker, ?json')
           else respond_loop gen valid (Suc err) ?json' (gen ?json'))"
        by (simp add: respond_loop_Reject Let_def)
      show ?thesis
      proof (cases "5 \<le> Suc err")
        case True
        with step "1.prems" show ?thesis by auto
      next
        case False
        with step "1.prems" have "respond_loop gen valid (Suc err) ?json' (gen ?json') = Inr (r, json')"
          by simp
        with "1.IH"[OF Inr Reject refl False] False have
          "(valid r = Inr Accept \<or> r = abort_marker) \<and> (\<exists>ext. json' = ?json' @ ext \<and> length ext \<le> 2 * (5 - Suc err))"
          by simp
        with False show ?thesis by fastforce
      qed
    qed
  qed
qed

lemma respond_kind:
  assumes "respond gen (is_valid_output counts d n) json = Inr (r, json')"
  shows "r = abort_marker
       \<or> (startswith (py_strip r) ''[message]'' \<and> \<not> d)
       \<or> (startswith (py_strip r) ''[propose]'' \<and> n \<noteq> 1)"
proof -
  from assms have "is_valid_output counts d n r = Inr Accept \<or> r = abort_marker"
    using respond_loop_result[of gen _ 0 json] by (fastforce simp: respond_def)
  then show ?thesis using is_valid_output_Accept by blast
qed

text \<open>C8: \<open>respond\<close> returns either a response the validator accepts or the sentinel \<open>"[ABORT]"\<close>, and only appends to the prompt history, at most ten entries.\<close>

theorem respond_result:
  assumes "respond gen valid json = Inr (r, json')"
  shows "(valid r = Inr Accept \<or> r = abort_marker) \<and> (\<exists>ext. json' = json @ ext \<and> length ext \<le> 10)"
  using respond_loop_result[of gen valid 0 json "gen json" r json'] assms by (simp add: respond_def)

theorem respond_result_witness:
  "respond (\<lambda>_. ''[message] hi'') (is_valid_output (mk_items 1 2 3) False 3) [] = Inr (''[message] hi'', [])
   \<and> (is_valid_output (mk_items 1 2 3) False 3 ''[message] hi'' = Inr Accept \<or> ''[message] hi'' = abort_marker)
   \<and> (\<exists>ext. ([] :: chat) = [] @ ext \<and> length ext \<le> 10)"
proof -
  have run: "respond (\<lambda>_. ''[message] hi'') (is_valid_output (mk_items 1 2 3) False 3) [] = Inr (''[message] hi'', [])"
    by code_simp
  from respond_result[OF run] run show ?thesis by blast
qed

lemma respond_loop_all_rejected:
  "\<forall>j. \<exists>f. valid (gen j) = Inr (Reject f) \<Longrightarrow> \<exists>f. valid resp = Inr (Reject f) \<Longrightarrow> err < 5 \<Longrightarrow>
   \<exists>ext. respond_loop gen valid err json resp = Inr (abort_marker, json @ ext) \<and> length ext = 2 * (5 - err)"
proof (induction gen valid err json resp rule: respond_loop.induct)
  case (1 gen valid err json resp)
  from "1.prems"(2) obtain f where f: "valid resp = Inr (Reject f)" by blast
  let ?json' = "json @ [(Assistant, resp), (User, retry_prompt f)]"
  show ?case
  proof (cases "5 \<le> Suc err")
    case True
    with f "1.prems" show ?thesis by (simp add: respond_loop_Reject)
  next
    case False
    from "1.prems"(1) have "\<exists>f. valid (gen ?json') = Inr (Reject f)" by blast
    from "1.IH"[OF f refl refl False "1.prems"(1) this] False obtain ext where
      "respond_loop gen valid (Suc err) ?json' (gen ?json') = Inr (abort_marker, ?json' @ ext)"
      "length ext = 2 * (5 - Suc err)" by auto
    with f False show ?thesis
      by (auto simp: respond_loop_Reject intro!: exI[of _ "[(Assistant, resp), (User, retry_prompt f)] @ ext"])
  qed
qed

text \<open>C7: When every response the generator produces is rejected, \<open>respond\<close> gives up after exactly five attempts: it returns \<open>"[ABORT]"\<close> and has appended five rejected responses with their feedback (ten entries) to the prompt history.\<close>

theorem five_rejections_abort:
  assumes "\<forall>j. \<exists>f. valid (gen j) = Inr (Reject f)"
  shows "\<exists>ext. respond gen valid json = Inr (abort_marker, json @ ext) \<and> length ext = 10"
proof -
  from assms have "\<exists>f. valid (gen json) = Inr (Reject f)" by blast
  from respond_loop_all_rejected[OF assms this, of 0 json] show ?thesis by (simp add: respond_def)
qed

theorem five_rejections_abort_witness:
  "(\<forall>j. \<exists>f. is_valid_output (mk_items 1 2 3) False 3 ((\<lambda>_. ''hello'') j) = Inr (Reject f))
   \<and> (\<exists>ext. respond (\<lambda>_. ''hello'') (is_valid_output (mk_items 1 2 3) False 3) []
            = Inr (abort_marker, [] @ ext) \<and> length ext = 10)"
proof -
  have h: "\<forall>j. \<exists>f. is_valid_output (mk_items 1 2 3) False 3 ((\<lambda>_. ''hello'') j) = Inr (Reject f)"
    by (simp add: is_valid_output_def py_strip_def py_space_def startswith_def)
  have "\<exists>ext. respond (\<lambda>_. ''hello'') (is_valid_output (mk_items 1 2 3) False 3) []
            = Inr (abort_marker, [] @ ext) \<and> length ext = 10"
    using five_rejections_abort[where valid = "is_valid_output (mk_items 1 2 3) False 3"
                                  and gen = "\<lambda>_. ''hello''" and json = "[]"] h by simp
  with h show ?thesis by blast
qed

lemma respond_first_accepted:
  "valid (gen json) = Inr Accept \<Longrightarrow> respond gen valid json = Inr (gen json, json)"
  by (simp add: respond_def respond_loop_Accept)

lemma digit_runs_nondigit_prefix:
  "\<forall>c \<in> set w. \<not> is_digit c \<Longrightarrow> digit_runs_acc [] (w @ s) = digit_runs_acc [] s"
  by (induction w) auto

lemma digit_runs_nondigit_only:
  "\<forall>c \<in> set w. \<not> is_digit c \<Longrightarrow> digit_runs_acc cur w = (if cur = [] then [] else [rev cur])"
  by (induction w arbitrary: cur) (auto simp: digit_runs_nondigit_prefix[of "[]"])

lemma digit_runs_nondigit_suffix:
  "\<forall>c \<in> set w. \<not> is_digit c \<Longrightarrow> digit_runs_acc cur (s @ w) = digit_runs_acc cur s"
  by (induction s arbitrary: cur) (auto simp: digit_runs_nondigit_only)

lemma findall_digits_strip: "findall_digits (py_strip s) = findall_digits s"
proof -
  let ?t = "dropWhile py_space s"
  have nd: "\<forall>c \<in> set (takeWhile py_space xs). \<not> is_digit c" for xs
    by (auto dest: set_takeWhileD py_space_not_digit)
  then have nd': "\<forall>c \<in> set (rev (takeWhile py_space xs)). \<not> is_digit c" for xs
    by simp
  have t: "?t = rev (dropWhile py_space (rev ?t)) @ rev (takeWhile py_space (rev ?t))"
    by (metis rev_append rev_rev_ident takeWhile_dropWhile_id)
  have "findall_digits (takeWhile py_space s @ ?t) = findall_digits ?t"
    unfolding findall_digits_def by (rule digit_runs_nondigit_prefix[OF nd])
  then have "findall_digits s = findall_digits ?t" by simp
  also have "findall_digits (rev (dropWhile py_space (rev ?t)) @ rev (takeWhile py_space (rev ?t)))
      = findall_digits (rev (dropWhile py_space (rev ?t)))"
    unfolding findall_digits_def by (rule digit_runs_nondigit_suffix[OF nd'])
  then have "findall_digits ?t = findall_digits (rev (dropWhile py_space (rev ?t)))"
    using t by simp
  finally show ?thesis by (simp add: py_strip_def)
qed

lemma split_acc_skip:
  "sep \<noteq> [] \<Longrightarrow> \<forall>c \<in> set w. c \<noteq> hd sep \<Longrightarrow> split_acc sep cur (w @ s) = split_acc sep (rev w @ cur) s"
proof (induction w arbitrary: cur)
  case Nil
  then show ?case by simp
next
  case (Cons c w)
  have "\<not> startswith (c # w @ s) sep"
    using Cons.prems by (cases sep) (auto simp: startswith_def)
  then have "split_acc sep cur (c # w @ s) = split_acc sep (c # cur) (w @ s)"
    by (subst split_acc.simps) simp
  with Cons show ?case by simp
qed

lemma split_acc_sep:
  "sep \<noteq> [] \<Longrightarrow> split_acc sep cur (sep @ x) = rev cur # split_acc sep [] x"
  by (subst split_acc.simps) (simp add: startswith_def)

lemma split_acc_no_sep:
  "sep \<noteq> [] \<Longrightarrow> \<not> contains sep x \<Longrightarrow> split_acc sep cur x = [rev cur @ x]"
proof (induction x arbitrary: cur)
  case Nil
  then show ?case by (subst split_acc.simps) (simp add: startswith_def)
next
  case (Cons c x)
  then have "split_acc sep cur (c # x) = split_acc sep (c # cur) x"
    by (subst split_acc.simps) simp
  with Cons show ?case by simp
qed

lemma py_space_not_bracket: "py_space c \<Longrightarrow> c \<noteq> CHR ''[''"
  by (auto simp: py_space_def)

lemma startswith_append: "startswith a p \<Longrightarrow> startswith (a @ b) p"
  by (simp add: startswith_def startswith_length[unfolded startswith_def])

lemma rstrip_prefix: "t = rev (dropWhile P (rev t)) @ rev (takeWhile P (rev t))"
  by (metis rev_append rev_rev_ident takeWhile_dropWhile_id)

lemma marker_decompose:
  assumes "startswith (py_strip r) ''[propose]''"
  shows "r = takeWhile py_space r @ ''[propose]'' @ drop 9 (dropWhile py_space r)"
proof -
  let ?t = "dropWhile py_space r"
  have "py_strip r = rev (dropWhile py_space (rev ?t))" by (simp add: py_strip_def)
  with assms have "startswith (rev (dropWhile py_space (rev ?t)) @ rev (takeWhile py_space (rev ?t))) ''[propose]''"
    by (simp add: startswith_append)
  then have "startswith ?t ''[propose]''" by (simp flip: rstrip_prefix)
  then have "take 9 ?t = ''[propose]''" by (simp add: startswith_def eval_nat_numeral)
  then have "?t = ''[propose]'' @ drop 9 ?t" by (metis append_take_drop_id)
  then show ?thesis by (metis takeWhile_dropWhile_id)
qed

lemma is_valid_proposal_Accept:
  assumes "is_valid_proposal (mk_items cb ch cl) n r = Inr Accept"
  shows "length (findall_digits (proposal_body r)) = 3 \<and>
         (let qs = map py_int (findall_digits (proposal_body r)) in
            0 \<le> qs ! 0 \<and> qs ! 0 \<le> cb \<and> 0 \<le> qs ! 1 \<and> qs ! 1 \<le> ch \<and> 0 \<le> qs ! 2 \<and> qs ! 2 \<le> cl)"
  using assms
  by (auto simp: is_valid_proposal_def counts_in_range_def Let_def split: if_splits)

text \<open>C9: A validated proposal with a single \<open>[propose]\<close> marker never makes \<open>parse_proposal\<close> raise, and the counts it records lie within the item counts.\<close>

theorem accepted_proposal_parses:
  assumes acc: "is_valid_output (mk_items cb ch cl) d n r = Inr Accept"
    and tag: "startswith (py_strip r) ''[propose]''"
    and single: "\<not> contains ''[propose]'' (drop 9 (dropWhile py_space r))"
  shows "\<exists>b h l. parse_proposal r = Inr (mk_items b h l)
            \<and> 0 \<le> b \<and> b \<le> cb \<and> 0 \<le> h \<and> h \<le> ch \<and> 0 \<le> l \<and> l \<le> cl"
proof -
  let ?w = "takeWhile py_space r" and ?x = "drop 9 (dropWhile py_space r)"
  have r: "r = ?w @ ''[propose]'' @ ?x" by (rule marker_decompose[OF tag])
  have w_sep: "\<forall>c \<in> set ?w. c \<noteq> hd ''[propose]''"
    by (auto dest: set_takeWhileD py_space_not_bracket)
  have "py_split r ''[propose]'' = split_acc ''[propose]'' [] (?w @ ''[propose]'' @ ?x)"
    by (subst r) (simp add: py_split_def)
  also have "\<dots> = split_acc ''[propose]'' (rev ?w) (''[propose]'' @ ?x)"
    using split_acc_skip[of "''[propose]''" ?w "[]"] w_sep by simp
  also have "\<dots> = ?w # split_acc ''[propose]'' [] ?x"
    using split_acc_sep[of "''[propose]''" "rev ?w" ?x] by simp
  also have "\<dots> = [?w, ?x]"
    using split_acc_no_sep[of "''[propose]''" ?x "[]"] single by simp
  finally have body: "proposal_body r = py_strip ?x" by (simp add: proposal_body_def)
  have "\<forall>c \<in> set ?w. \<not> is_digit c"
    by (auto dest: set_takeWhileD py_space_not_digit)
  moreover have "\<forall>c \<in> set ''[propose]''. \<not> is_digit c" by (simp add: is_digit_def)
  ultimately have w_nd: "\<forall>c \<in> set (?w @ ''[propose]''). \<not> is_digit c" by simp
  have "findall_digits r = findall_digits ((?w @ ''[propose]'') @ ?x)" using r by simp
  also have "\<dots> = findall_digits ?x"
    unfolding findall_digits_def by (rule digit_runs_nondigit_prefix[OF w_nd])
  also have "\<dots> = findall_digits (proposal_body r)" by (simp add: body findall_digits_strip)
  finally have fd: "findall_digits r = findall_digits (proposal_body r)" .
  from acc tag have "is_valid_proposal (mk_items cb ch cl) n r = Inr Accept"
    by (simp add: is_valid_output_def)
  then have "length (findall_digits (proposal_body r)) = 3 \<and>
         (let qs = map py_int (findall_digits (proposal_body r)) in
            0 \<le> qs ! 0 \<and> qs ! 0 \<le> cb \<and> 0 \<le> qs ! 1 \<and> qs ! 1 \<le> ch \<and> 0 \<le> qs ! 2 \<and> qs ! 2 \<le> cl)"
    by (rule is_valid_proposal_Accept)
  with fd show ?thesis by (auto simp: parse_proposal_def Let_def)
qed

theorem accepted_proposal_parses_witness:
  "is_valid_output (mk_items 1 2 3) False 3 ''[propose] (1 books, 0 hats, 2 balls)'' = Inr Accept
   \<and> startswith (py_strip ''[propose] (1 books, 0 hats, 2 balls)'') ''[propose]''
   \<and> \<not> contains ''[propose]'' (drop 9 (dropWhile py_space ''[propose] (1 books, 0 hats, 2 balls)''))
   \<and> (\<exists>b h l. parse_proposal ''[propose] (1 books, 0 hats, 2 balls)'' = Inr (mk_items b h l)
         \<and> 0 \<le> b \<and> b \<le> 1 \<and> 0 \<le> h \<and> h \<le> 2 \<and> 0 \<le> l \<and> l \<le> 3)"
proof -
  have a: "is_valid_output (mk_items 1 2 3) False 3 ''[propose] (1 books, 0 hats, 2 balls)'' = Inr Accept"
    by code_simp
  have t: "startswith (py_strip ''[propose] (1 books, 0 hats, 2 balls)'') ''[propose]''"
    by code_simp
  have n: "\<not> contains ''[propose]'' (drop 9 (dropWhile py_space ''[propose] (1 books, 0 hats, 2 balls)''))"
    by code_simp
  from accepted_proposal_parses[OF a t n] a t n show ?thesis by blast
qed

lemma digit_runs_run:
  "list_all is_digit ds \<Longrightarrow> \<not> is_digit c \<Longrightarrow> ds \<noteq> [] \<or> cur \<noteq> [] \<Longrightarrow>
   digit_runs_acc cur (ds @ c # s) = (rev cur @ ds) # digit_runs_acc [] s"
  by (induction ds arbitrary: cur) auto

lemma show_nat_no_bracket: "CHR ''['' \<notin> set (show_nat n)"
  using show_nat_digits[of n] by (auto simp: list_all_iff is_digit_def)

lemma canonical_findall:
  "findall_digits (canonical_proposal a b c @ s)
     = show_nat a # show_nat b # show_nat c # findall_digits s"
proof -
  have d: "list_all is_digit (show_nat n)" for n by (rule show_nat_digits)
  show ?thesis
    unfolding canonical_proposal_def findall_digits_def
    by (simp add: digit_runs_nondigit_prefix is_digit_def digit_runs_run[OF d])
qed

lemma canonical_split:
  "py_split (canonical_proposal a b c @ s) ''[propose]''
     = [] # split_acc ''[propose]'' [] (drop 9 (canonical_proposal a b c) @ s)"
  unfolding canonical_proposal_def py_split_def
  by (simp add: split_acc_sep[of "''[propose]''" "[]", simplified])

lemma canonical_tail:
  "drop 9 (canonical_proposal a b c) =
     '' ('' @ show_nat a @ '' books, '' @ show_nat b @ '' hats, '' @ show_nat c @ '' balls)''"
  by (simp add: canonical_proposal_def)

lemma canonical_tail_no_bracket: "CHR ''['' \<notin> set (drop 9 (canonical_proposal a b c))"
  unfolding canonical_tail by (simp add: show_nat_no_bracket)

lemma no_bracket_no_marker: "CHR ''['' \<notin> set x \<Longrightarrow> \<not> contains ''[propose]'' x"
  by (auto dest: contains_set)

lemma canonical_split_single:
  "py_split (canonical_proposal x y z) ''[propose]'' = [[], drop 9 (canonical_proposal x y z)]"
  using canonical_split[of x y z "[]"] canonical_tail_no_bracket[of x y z]
  by (simp add: split_acc_no_sep no_bracket_no_marker)

lemma canonical_split_double:
  "py_split (canonical_proposal a b c @ '' '' @ canonical_proposal x y z) ''[propose]''
     = [[], drop 9 (canonical_proposal a b c) @ '' '', drop 9 (canonical_proposal x y z)]"
proof -
  let ?u = "drop 9 (canonical_proposal a b c) @ '' ''"
  have u: "\<forall>c \<in> set ?u. c \<noteq> hd ''[propose]''" using canonical_tail_no_bracket[of a b c] by auto
  have "split_acc ''[propose]'' [] (?u @ canonical_proposal x y z)
      = split_acc ''[propose]'' (rev ?u) (canonical_proposal x y z)"
    using split_acc_skip[OF _ u, of "[]" "canonical_proposal x y z"] by simp
  also have "\<dots> = ?u # split_acc ''[propose]'' [] (drop 9 (canonical_proposal x y z))"
    using split_acc_sep[of "''[propose]''" "rev ?u" "drop 9 (canonical_proposal x y z)"]
    by (simp add: canonical_proposal_def)
  also have "\<dots> = [?u, drop 9 (canonical_proposal x y z)]"
    using canonical_tail_no_bracket[of x y z] by (simp add: split_acc_no_sep no_bracket_no_marker)
  finally show ?thesis using canonical_split[of a b c "'' '' @ canonical_proposal x y z"] by simp
qed

lemma dropWhile_hd_keep: "xs \<noteq> [] \<Longrightarrow> \<not> P (hd xs) \<Longrightarrow> dropWhile P xs = xs"
  by (cases xs) auto

lemma py_strip_id_ends:
  assumes "s \<noteq> []" "\<not> py_space (hd s)" "\<not> py_space (last s)"
  shows "py_strip s = s"
proof -
  from assms(1,2) have "dropWhile py_space s = s" by (rule dropWhile_hd_keep)
  moreover from assms(1,3) have "dropWhile py_space (rev s) = rev s"
    by (intro dropWhile_hd_keep) (simp_all add: hd_rev)
  ultimately show ?thesis by (simp add: py_strip_def)
qed

lemma canonical_head: "canonical_proposal a b c @ t \<noteq> [] \<and> hd (canonical_proposal a b c @ t) = CHR ''[''"
  by (simp add: canonical_proposal_def)

lemma canonical_last: "last (t @ canonical_proposal a b c) = CHR '')''"
  by (simp add: canonical_proposal_def)

lemma canonical_strip:
  "py_strip (canonical_proposal a b c @ t @ canonical_proposal x y z) = canonical_proposal a b c @ t @ canonical_proposal x y z"
  using canonical_head[of a b c "t @ canonical_proposal x y z"] canonical_last[of "canonical_proposal a b c @ t" x y z]
  by (intro py_strip_id_ends) (auto simp: py_space_def)

lemma canonical_strip_single: "py_strip (canonical_proposal x y z) = canonical_proposal x y z"
  using canonical_head[of x y z "[]"] canonical_last[of "[]" x y z]
  by (intro py_strip_id_ends) (auto simp: py_space_def)

lemma canonical_startswith: "startswith (canonical_proposal a b c @ t) ''[propose]''"
  by (simp add: canonical_proposal_def startswith_def)

text \<open>C10: The validator checks only the text after the last \<open>[propose]\<close> marker, while \<open>parse_proposal\<close> reads the first three numbers of the whole response: for all counts, a response holding two proposals in the prompted format is judged exactly as its second proposal alone, and is recorded as its first proposal, which is never range-checked.\<close>

theorem validated_proposal_misparsed:
  "is_valid_output cnts d n (canonical_proposal a b c @ '' '' @ canonical_proposal x y z)
     = is_valid_output cnts d n (canonical_proposal x y z)
   \<and> parse_proposal (canonical_proposal a b c @ '' '' @ canonical_proposal x y z)
     = Inr (mk_items (int a) (int b) (int c))"
proof
  have "proposal_body (canonical_proposal a b c @ '' '' @ canonical_proposal x y z)
      = proposal_body (canonical_proposal x y z)"
    unfolding proposal_body_def canonical_split_double canonical_split_single by simp
  moreover have "startswith (py_strip (canonical_proposal a b c @ '' '' @ canonical_proposal x y z)) ''[propose]''"
    by (simp only: canonical_strip canonical_startswith)
  moreover have "startswith (py_strip (canonical_proposal x y z)) ''[propose]''"
    using canonical_startswith[of x y z "[]"] by (simp add: canonical_strip_single)
  ultimately show "is_valid_output cnts d n (canonical_proposal a b c @ '' '' @ canonical_proposal x y z)
     = is_valid_output cnts d n (canonical_proposal x y z)"
    by (simp add: is_valid_output_def is_valid_proposal_def)
next
  show "parse_proposal (canonical_proposal a b c @ '' '' @ canonical_proposal x y z)
     = Inr (mk_items (int a) (int b) (int c))"
    by (simp add: parse_proposal_def canonical_findall py_int_show_nat)
qed

end
