(* ===== verification/Game.thy ===== *)
theory Game
  imports Scoring Validator
begin

text \<open>
  The batch negotiation game: \<open>NegotiationGame.__init__\<close> and \<open>play_game\<close> of
  \<open>src/games/negotiation.py\<close>, driving the two players of \<open>src/players.py\<close>.
  The game object is a record; the locals of \<open>play_game\<close> (whose turn it is, the
  two prompt histories, the two logs, the list of messages) are a second record,
  and one iteration of its \<open>while not self.game_over\<close> loop is \<open>play_turn\<close>.
  The prompt history of player \<open>i\<close> is the list object
  \<open>player_agents[i].messages_json\<close> itself, so the feedback turns that
  \<open>respond\<close> appends during its retries stay in it; the log is
  \<open>player_agents[i].messages_log\<close>, whose length the validator reads.
\<close>

section \<open>State\<close>

record game =
  item_counts :: pydict
  player_values :: "pydict list"
  proposals :: "pydict option list"
  final_scores :: "(int \<times> int) option"
  deal_proposed :: bool
  game_over :: bool
  objective :: objective

text \<open>
  The constructor: defaults for missing contexts and the objective check; then
  it appends the context to the game log file (\<open>item_context\<close> and two
  \<open>value_context\<close> lines, lines 57-85). Formatting reads
  \<open>item_counts["book"]\<close>, ..., which raises \<open>KeyError\<close> on a dictionary without
  the three item keys. The result is the game and the text written to the log.
\<close>

definition read_item_keys :: "pydict \<Rightarrow> unit result" where
  "read_item_keys d =
     ebind (dict_get d ''book'') (\<lambda>_. ebind (dict_get d ''hat'') (\<lambda>_.
     ebind (dict_get d ''ball'') (\<lambda>_. Inr ())))"

definition item_context :: "pydict \<Rightarrow> string result" where
  "item_context c =
     ebind (dict_get c ''book'') (\<lambda>b. ebind (dict_get c ''hat'') (\<lambda>h. ebind (dict_get c ''ball'') (\<lambda>l.
       Inr (''Item counts: there are '' @ show_int b @ '' books, '' @ show_int h @ '' hats, and ''
            @ show_int l @ '' balls.\<newline>''))))"

definition value_context :: "nat \<Rightarrow> pydict \<Rightarrow> string result" where
  "value_context i v =
     ebind (dict_get v ''book'') (\<lambda>b. ebind (dict_get v ''hat'') (\<lambda>h. ebind (dict_get v ''ball'') (\<lambda>l.
       Inr (''Player '' @ show_nat i @ '' values: books are worth '' @ show_int b @ '' points, hats are worth ''
            @ show_int h @ '' points, and balls are worth '' @ show_int l @ '' points.\<newline>''))))"

definition init_game :: "pydict option \<Rightarrow> pydict option \<Rightarrow> pydict option \<Rightarrow> string \<Rightarrow> (game \<times> string) result" where
  "init_game counts p1_values p2_values obj =
     (let c = (case counts of None \<Rightarrow> mk_items 1 2 3 | Some d \<Rightarrow> d);
          v0 = (case p1_values of None \<Rightarrow> mk_items 1 3 1 | Some d \<Rightarrow> d);
          v1 = (case p2_values of None \<Rightarrow> mk_items 2 1 2 | Some d \<Rightarrow> d)
      in ebind (objective_of_string obj) (\<lambda>ob.
         ebind (item_context c) (\<lambda>ic. ebind (value_context 0 v0) (\<lambda>vc0. ebind (value_context 1 v1) (\<lambda>vc1.
           Inr (\<lparr>item_counts = c, player_values = [v0, v1], proposals = [None, None],
                 final_scores = None, deal_proposed = False, game_over = False, objective = ob\<rparr>,
                ic @ vc0 @ vc1 @ ''\<newline>\<newline>''))))))"

section \<open>Players\<close>

text \<open>
  A player answers from its own prompt history. \<open>LLM llm\<close> is a
  \<open>ClosedSourceChatPlayer\<close> whose completion call is \<open>llm\<close>: its \<open>respond\<close>
  post-processes and validates against the live game. \<open>Human inp\<close> is a
  \<open>HumanPlayer\<close>, whose \<open>input()\<close> is returned unchecked.
\<close>

datatype agent = LLM "chat \<Rightarrow> string" | Human "chat \<Rightarrow> string"

fun agent_respond :: "agent \<Rightarrow> game \<Rightarrow> chat \<Rightarrow> chat \<Rightarrow> (string \<times> chat) result" where
  "agent_respond (LLM llm) g own_log json =
     respond (generate_response llm) (is_valid_output (item_counts g) (deal_proposed g) (length own_log)) json"
| "agent_respond (Human inp) g own_log json = Inr (inp json, json)"

section \<open>One turn\<close>

definition proposal_notice :: string where
  "proposal_notice =
     ''[propose] Proposal made. You must now respond with a proposal of your own. If you've discussed that you should receive a certain combination of items, this proposal should reflect that. Keep in mind that you and your partner's proposals should be complementary ''
     @ [CHR 0xC3, CHR 0xA2, CHR 0xE2, CHR 0x82, CHR 0xAC, CHR 0xE2, CHR 0x80, CHR 0x9C]
     @ '' when added, the elementwise sum should exactly equal the total item counts.\<newline>''"

text \<open>
  The effect of an accepted response on the game: the abort check, then the
  proposal check (first or second proposal). It returns the game and the two texts
  appended to the histories: the turn player's own text, and what the opponent
  sees.
\<close>

definition apply_response :: "nat \<Rightarrow> string \<Rightarrow> game \<Rightarrow> (game \<times> string \<times> string) result" where
  "apply_response t response_text g =
     (let g1 = (if py_strip response_text = abort_marker then g\<lparr>game_over := True\<rparr> else g) in
      if startswith (py_strip response_text) ''[propose]'' then
        ebind (parse_proposal response_text) (\<lambda>p.
          let g2 = (if deal_proposed g1
                    then g1\<lparr>proposals := (proposals g1)[t := Some p], game_over := True\<rparr>
                    else g1\<lparr>proposals := (proposals g1)[t := Some p], deal_proposed := True\<rparr>)
          in Inr (g2, py_strip response_text, proposal_notice))
      else Inr (g1, py_strip response_text, py_strip response_text))"

record play_state =
  game :: game
  turn :: nat
  prompts :: "chat list"
  logs :: "chat list"
  messages :: "string list"
  text_log :: string

text \<open>The line a turn appends to the game log file (line 256), before any check.\<close>

definition turn_line :: "nat \<Rightarrow> string \<Rightarrow> string" where
  "turn_line t response_text = ''Player '' @ show_nat t @ '': '' @ response_text @ ''\<newline>''"

definition max_messages :: nat where
  "max_messages = 50"

definition play_turn :: "agent list \<Rightarrow> play_state \<Rightarrow> play_state result" where
  "play_turn agents st =
     (let t = turn st in
      ebind (agent_respond (agents ! t) (game st) (logs st ! t) (prompts st ! t)) (\<lambda>(resp, json).
      ebind (apply_response t resp (game st)) (\<lambda>(g, a_msg, u_msg).
        let msgs = messages st @ [py_strip resp];
            prompts' = (prompts st)[t := json @ [(Assistant, a_msg)],
                                    1 - t := (prompts st ! (1 - t)) @ [(User, u_msg)]];
            logs' = (logs st)[t := (logs st ! t) @ [(Assistant, a_msg)],
                              1 - t := (logs st ! (1 - t)) @ [(User, u_msg)]];
            g' = (if max_messages \<le> length msgs then g\<lparr>game_over := True\<rparr> else g)
        in Inr (st\<lparr>game := g', turn := 1 - t, prompts := prompts', logs := logs', messages := msgs,
                    text_log := text_log st @ turn_line t resp\<rparr>))))"

section \<open>The loop\<close>

text \<open>
  \<open>while not self.game_over\<close>. Every turn appends one message and the turn that
  reaches \<open>max_messages\<close> ends the game, so the loop stops.
\<close>

function play_loop :: "agent list \<Rightarrow> play_state \<Rightarrow> play_state result" where
  "play_loop agents st =
     (if game_over (game st) then Inr st else ebind (play_turn agents st) (play_loop agents))"
  by pat_completeness auto
termination
proof (relation "measure (\<lambda>(agents, st). if game_over (game st) then 0
                                         else Suc (max_messages - length (messages st)))")
  show "wf (measure (\<lambda>(agents, st). if game_over (game st) then 0
                                   else Suc (max_messages - length (messages st))))"
    by simp
next
  fix agents st x
  assume over: "\<not> game_over (game st)" and step: "play_turn agents st = Inr x"
  from step obtain resp json g a u where
    x: "x = st\<lparr>game := (if max_messages \<le> Suc (length (messages st)) then g\<lparr>game_over := True\<rparr> else g),
              turn := 1 - turn st,
              prompts := (prompts st)[turn st := json @ [(Assistant, a)],
                                      1 - turn st := (prompts st ! (1 - turn st)) @ [(User, u)]],
              logs := (logs st)[turn st := (logs st ! turn st) @ [(Assistant, a)],
                                1 - turn st := (logs st ! (1 - turn st)) @ [(User, u)]],
              messages := messages st @ [py_strip resp],
              text_log := text_log st @ turn_line (turn st) resp\<rparr>"
    by (auto simp: play_turn_def Let_def ebind_eq_Inr split: prod.splits)
  then show "((agents, x), agents, st) \<in> measure (\<lambda>(agents, st). if game_over (game st) then 0
                                         else Suc (max_messages - length (messages st)))"
    using over by (auto simp: max_messages_def)
qed

section \<open>The whole game\<close>

text \<open>
  The players start with empty histories; \<open>play_game\<close> appends to each the
  system prompt, \<open>system_text.format(...)\<close> of the prompt file for the counts and
  that player's values, here the parameter \<open>fmt\<close>. The first turn
  (\<open>0 if np.random.rand() > 0.5 else 1\<close>) is the parameter \<open>first\<close>, and the
  GPT-2 tokenizer's \<open>len(tokenizer.encode(m))\<close> is \<open>tok\<close>.
\<close>

definition init_play_state :: "game \<Rightarrow> nat \<Rightarrow> (pydict \<Rightarrow> pydict \<Rightarrow> string) \<Rightarrow> play_state" where
  "init_play_state g first fmt =
     (let sys0 = [(System, fmt (item_counts g) (player_values g ! 0))];
          sys1 = [(System, fmt (item_counts g) (player_values g ! 1))]
      in \<lparr>game = g, turn = first, prompts = [sys0, sys1], logs = [sys0, sys1], messages = [],
          text_log = []\<rparr>)"

record outcome =
  p0_score :: int
  p1_score :: int
  p0_log :: chat
  p1_log :: chat
  is_valid_deal :: bool
  msg_cnt :: nat
  token_cnt :: nat

text \<open>The two lines written after the loop (lines 300-302).\<close>

definition final_score_lines :: "int \<Rightarrow> int \<Rightarrow> string" where
  "final_score_lines s0 s1 =
     ''Player 0 FINAL SCORE: '' @ show_int s0 @ '' \<newline>'' @ ''Player 1 FINAL SCORE: '' @ show_int s1 @ '' \<newline>''"

text \<open>
  \<open>play_game\<close> returns the game, the \<open>game_outcome\<close> dictionary, and the text
  it appended to the game log file.
\<close>

definition play_game ::
  "agent list \<Rightarrow> nat \<Rightarrow> (pydict \<Rightarrow> pydict \<Rightarrow> string) \<Rightarrow> (string \<Rightarrow> nat) \<Rightarrow> game \<Rightarrow> (game \<times> outcome \<times> string) result" where
  "play_game agents first fmt tok g =
     ebind (play_loop agents (init_play_state g first fmt)) (\<lambda>st.
     let g1 = game st in
     ebind (calculateFinalScores (objective g1) (item_counts g1) (player_values g1) (proposals g1)) (\<lambda>(s0, s1).
     ebind (isValidDeal (item_counts g1) (proposals g1)) (\<lambda>valid.
       Inr (g1\<lparr>final_scores := Some (s0, s1)\<rparr>,
            \<lparr>p0_score = s0, p1_score = s1, p0_log = logs st ! 0, p1_log = logs st ! 1,
             is_valid_deal = valid, msg_cnt = length (messages st),
             token_cnt = sum_list (map tok (messages st))\<rparr>,
            text_log st @ final_score_lines s0 s1))))"

section \<open>Reachable states and the protocol invariant\<close>

definition fresh_game :: "game \<Rightarrow> bool" where
  "fresh_game g \<longleftrightarrow> proposals g = [None, None] \<and> \<not> deal_proposed g \<and> \<not> game_over g"

inductive reachable :: "agent list \<Rightarrow> play_state \<Rightarrow> bool" for agents where
  start: "fresh_game g \<Longrightarrow> first < 2 \<Longrightarrow> reachable agents (init_play_state g first fmt)"
| step: "reachable agents st \<Longrightarrow> \<not> game_over (game st) \<Longrightarrow> play_turn agents st = Inr st'
         \<Longrightarrow> reachable agents st'"

definition llm_agents :: "agent list \<Rightarrow> bool" where
  "llm_agents agents \<longleftrightarrow> length agents = 2 \<and> (\<forall>a \<in> set agents. \<exists>llm. a = LLM llm)"

text \<open>
  What the turn loop keeps true: who owes a proposal, and why a finished game
  finished (both proposals on file, an abort, or the message ceiling).
\<close>

definition both_proposed :: "game \<Rightarrow> bool" where
  "both_proposed g \<longleftrightarrow> proposals g ! 0 \<noteq> None \<and> proposals g ! 1 \<noteq> None"

definition proto_inv :: "play_state \<Rightarrow> bool" where
  "proto_inv st \<longleftrightarrow>
     (let g = game st; t = turn st in
      t < 2 \<and> length (proposals g) = 2 \<and> length (prompts st) = 2 \<and> length (logs st) = 2
      \<and> (\<not> deal_proposed g \<longrightarrow> proposals g = [None, None])
      \<and> (deal_proposed g \<and> \<not> game_over g \<longrightarrow> proposals g ! t = None \<and> proposals g ! (1 - t) \<noteq> None)
      \<and> (game_over g \<longrightarrow> both_proposed g \<or> abort_marker \<in> set (messages st)
                          \<or> max_messages \<le> length (messages st)))"

text \<open>The ceiling: a running game has fewer than \<open>max_messages\<close> messages.\<close>

definition msg_inv :: "play_state \<Rightarrow> bool" where
  "msg_inv st \<longleftrightarrow> length (messages st) \<le> max_messages
     \<and> (\<not> game_over (game st) \<longrightarrow> length (messages st) < max_messages)"

text \<open>
  The type of what the game keeps: two proposal slots, each empty or a
  dictionary with the three item keys in order and non-negative counts.
\<close>

definition well_typed_dict :: "pydict \<Rightarrow> bool" where
  "well_typed_dict d \<longleftrightarrow> map fst d = item_keys \<and> list_all (\<lambda>v. 0 \<le> v) (map snd d)"

definition proposals_typed :: "game \<Rightarrow> bool" where
  "proposals_typed g \<longleftrightarrow> length (proposals g) = 2 \<and> list_all (case_option True well_typed_dict) (proposals g)"

text \<open>
  The turn loop with an explicit bound on the number of turns: \<open>None\<close> when
  the game still runs after \<open>n\<close> turns.
\<close>

fun play_turns :: "nat \<Rightarrow> agent list \<Rightarrow> play_state \<Rightarrow> play_state result option" where
  "play_turns 0 agents st = (if game_over (game st) then Some (Inr st) else None)"
| "play_turns (Suc n) agents st =
     (if game_over (game st) then Some (Inr st)
      else case play_turn agents st of Inl e \<Rightarrow> Some (Inl e) | Inr st' \<Rightarrow> play_turns n agents st')"

section \<open>Lemmas\<close>

declare play_loop.simps [simp del]

lemma strip_abort [simp]: "py_strip abort_marker = abort_marker"
  by (simp add: abort_marker_def py_strip_def py_space_def)

lemma abort_not_tagged [simp]:
  "\<not> startswith abort_marker ''[propose]''" "\<not> startswith abort_marker ''[message]''"
  by (simp_all add: abort_marker_def startswith_def)

lemma tagged_not_abort:
  "startswith s ''[propose]'' \<Longrightarrow> s \<noteq> abort_marker"
  "startswith s ''[message]'' \<Longrightarrow> s \<noteq> abort_marker"
  by (auto simp: abort_marker_def startswith_def)

lemma apply_response_abort:
  "apply_response t abort_marker g = Inr (g\<lparr>game_over := True\<rparr>, abort_marker, abort_marker)"
  by (simp add: apply_response_def)

lemma apply_response_message:
  "startswith (py_strip r) ''[message]'' \<Longrightarrow> apply_response t r g = Inr (g, py_strip r, py_strip r)"
  by (simp add: apply_response_def prefixes_disjoint tagged_not_abort)

lemma apply_response_proposal:
  assumes "startswith (py_strip r) ''[propose]''" and "parse_proposal r = Inr p"
  shows "apply_response t r g =
           Inr (if deal_proposed g
                then g\<lparr>proposals := (proposals g)[t := Some p], game_over := True\<rparr>
                else g\<lparr>proposals := (proposals g)[t := Some p], deal_proposed := True\<rparr>,
                py_strip r, proposal_notice)"
  using assms by (simp add: apply_response_def tagged_not_abort)

lemma play_turn_Inr:
  assumes "play_turn agents st = Inr st'"
  obtains resp json g a u where
    "agent_respond (agents ! turn st) (game st) (logs st ! turn st) (prompts st ! turn st) = Inr (resp, json)"
    "apply_response (turn st) resp (game st) = Inr (g, a, u)"
    "st' = st\<lparr>game := (if max_messages \<le> Suc (length (messages st)) then g\<lparr>game_over := True\<rparr> else g),
              turn := 1 - turn st,
              prompts := (prompts st)[turn st := json @ [(Assistant, a)],
                                      1 - turn st := (prompts st ! (1 - turn st)) @ [(User, u)]],
              logs := (logs st)[turn st := (logs st ! turn st) @ [(Assistant, a)],
                                1 - turn st := (logs st ! (1 - turn st)) @ [(User, u)]],
              messages := messages st @ [py_strip resp],
              text_log := text_log st @ turn_line (turn st) resp\<rparr>"
  using assms by (auto simp: play_turn_def Let_def ebind_eq_Inr split: prod.splits)

lemma llm_response_kind:
  assumes "agent_respond (LLM llm) g lg json = Inr (resp, json')"
  shows "resp = abort_marker
       \<or> (startswith (py_strip resp) ''[message]'' \<and> \<not> deal_proposed g)
       \<or> (startswith (py_strip resp) ''[propose]'' \<and> length lg \<noteq> 1)"
  using respond_kind[of "generate_response llm" "item_counts g" "deal_proposed g" "length lg" json resp json'] assms
  by simp

lemma nth_update_other: "t < 2 \<Longrightarrow> xs[t := a] ! (1 - t) = xs ! (1 - t)"
  by (cases t) auto

lemma proto_inv_step:
  assumes inv: "proto_inv st" and run: "\<not> game_over (game st)" and llm: "llm_agents agents"
    and step: "play_turn agents st = Inr st'"
  shows "proto_inv st'"
proof -
  let ?t = "turn st" and ?g = "game st"
  from inv have t: "?t < 2" and lp: "length (proposals ?g) = 2"
    and lpr: "length (prompts st) = 2" and ll: "length (logs st) = 2"
    and nodeal: "\<not> deal_proposed ?g \<longrightarrow> proposals ?g = [None, None]"
    and owe: "deal_proposed ?g \<longrightarrow> proposals ?g ! ?t = None \<and> proposals ?g ! (1 - ?t) \<noteq> None"
    using run by (auto simp: proto_inv_def Let_def)
  from step obtain resp json g a u where
    resp: "agent_respond (agents ! ?t) ?g (logs st ! ?t) (prompts st ! ?t) = Inr (resp, json)"
    and ap: "apply_response ?t resp ?g = Inr (g, a, u)"
    and st': "st' = st\<lparr>game := (if max_messages \<le> Suc (length (messages st)) then g\<lparr>game_over := True\<rparr> else g),
              turn := 1 - ?t,
              prompts := (prompts st)[?t := json @ [(Assistant, a)],
                                      1 - ?t := (prompts st ! (1 - ?t)) @ [(User, u)]],
              logs := (logs st)[?t := (logs st ! ?t) @ [(Assistant, a)],
                                1 - ?t := (logs st ! (1 - ?t)) @ [(User, u)]],
              messages := messages st @ [py_strip resp],
              text_log := text_log st @ turn_line (turn st) resp\<rparr>"
    by (rule play_turn_Inr)
  from llm t have "agents ! ?t \<in> set agents" by (simp add: llm_agents_def)
  with llm obtain llm_f where "agents ! ?t = LLM llm_f"
    by (auto simp: llm_agents_def)
  with resp have kind: "resp = abort_marker
       \<or> (startswith (py_strip resp) ''[message]'' \<and> \<not> deal_proposed ?g)
       \<or> (startswith (py_strip resp) ''[propose]'' \<and> length (logs st ! ?t) \<noteq> 1)"
    using llm_response_kind by simp
  have lens: "1 - ?t < 2 \<and> 1 - (1 - ?t) = ?t" using t by simp
  show ?thesis
  proof (cases "resp = abort_marker")
    case True
    with ap have "g = ?g\<lparr>game_over := True\<rparr>" by (simp add: apply_response_abort)
    with st' True t lp lpr ll nodeal show ?thesis by (auto simp: proto_inv_def Let_def)
  next
    case notabort: False
    show ?thesis
    proof (cases "startswith (py_strip resp) ''[message]''")
      case True
      with kind notabort have nd: "\<not> deal_proposed ?g" by (auto dest: prefixes_disjoint)
      from True ap have "g = ?g" by (simp add: apply_response_message)
      with st' nd t lp lpr ll nodeal run show ?thesis by (auto simp: proto_inv_def Let_def)
    next
      case False
      with kind notabort have tag: "startswith (py_strip resp) ''[propose]''" by blast
      with ap obtain p where p: "parse_proposal resp = Inr p"
        by (cases "parse_proposal resp") (auto simp: apply_response_def tagged_not_abort)
      from ap apply_response_proposal[OF tag p, of ?t ?g]
      have g: "g = (if deal_proposed ?g
                then ?g\<lparr>proposals := (proposals ?g)[?t := Some p], game_over := True\<rparr>
                else ?g\<lparr>proposals := (proposals ?g)[?t := Some p], deal_proposed := True\<rparr>)"
        by simp
      show ?thesis
      proof (cases "deal_proposed ?g")
        case True
        with owe have "proposals ?g ! (1 - ?t) \<noteq> None" by simp
        then have "both_proposed g" using g True t lp
          by (cases ?t) (auto simp: both_proposed_def)
        with st' g True t lp lpr ll show ?thesis by (auto simp: proto_inv_def Let_def)
      next
        case False
        with nodeal have "proposals ?g = [None, None]" by simp
        with st' g False t lpr ll run show ?thesis
          by (cases ?t) (auto simp: proto_inv_def Let_def both_proposed_def)
      qed
    qed
  qed
qed

lemma proto_inv_init:
  "fresh_game g \<Longrightarrow> first < 2 \<Longrightarrow> proto_inv (init_play_state g first fmt)"
  by (auto simp: proto_inv_def fresh_game_def init_play_state_def Let_def)

lemma proto_inv_reachable:
  assumes "llm_agents agents" and "reachable agents st"
  shows "proto_inv st"
  using assms(2)
proof (induction rule: reachable.induct)
  case (start g first fmt)
  then show ?case by (rule proto_inv_init)
next
  case (step st st')
  then show ?case using assms(1) by (blast intro: proto_inv_step)
qed

lemma reachable_text_log:
  "reachable agents st \<Longrightarrow> text_log st = [] \<or> last (text_log st) = CHR ''\<newline>''"
proof (induction rule: reachable.induct)
  case (start g first fmt)
  then show ?case by (simp add: init_play_state_def Let_def)
next
  case (step st st')
  from step.hyps(3) show ?case by (rule play_turn_Inr) (simp add: turn_line_def)
qed

lemma init_game_Inr:
  "init_game counts v0 v1 obj = Inr (g, hdr) \<Longrightarrow> fresh_game g \<and> hdr \<noteq> [] \<and> last hdr = CHR ''\<newline>''"
  by (auto simp: init_game_def ebind_eq_Inr Let_def fresh_game_def)

lemma apply_response_keeps:
  "apply_response t r g = Inr (g', a, u) \<Longrightarrow>
     item_counts g' = item_counts g \<and> player_values g' = player_values g \<and> objective g' = objective g"
  by (auto simp: apply_response_def Let_def ebind_eq_Inr split: if_splits)

lemma play_loop_keeps:
  "play_loop agents st = Inr st' \<Longrightarrow>
     item_counts (game st') = item_counts (game st) \<and> player_values (game st') = player_values (game st)
     \<and> objective (game st') = objective (game st)"
proof (induction agents st rule: play_loop.induct)
  case (1 agents st)
  show ?case
  proof (cases "game_over (game st)")
    case True
    with "1.prems" show ?thesis by (simp add: play_loop.simps)
  next
    case False
    with "1.prems" obtain x where x: "play_turn agents st = Inr x" and rest: "play_loop agents x = Inr st'"
      by (auto simp: play_loop.simps ebind_eq_Inr)
    from x have "item_counts (game x) = item_counts (game st) \<and> player_values (game x) = player_values (game st)
                 \<and> objective (game x) = objective (game st)"
      by (rule play_turn_Inr) (auto dest: apply_response_keeps)
    with "1.IH"[OF False x rest] show ?thesis by simp
  qed
qed

text \<open>C2: With two validating players, every reachable state of the turn loop satisfies the protocol invariant: no proposal before \<open>deal_proposed\<close>; while a deal is pending, the player to move has no proposal and the other has one; a finished game finished by a deal, an abort or the ceiling.\<close>

theorem reachable_proto_inv:
  assumes "llm_agents agents" and "reachable agents st"
  shows "proto_inv st"
  using assms by (rule proto_inv_reachable)

lemma play_turn_messages:
  "play_turn agents st = Inr st' \<Longrightarrow>
     (\<exists>m. messages st' = messages st @ [m])
     \<and> (max_messages \<le> length (messages st') \<longrightarrow> game_over (game st'))"
  by (erule play_turn_Inr) simp

lemma reachable_msg_inv: "reachable agents st \<Longrightarrow> msg_inv st"
proof (induction rule: reachable.induct)
  case (start g first fmt)
  then show ?case by (simp add: msg_inv_def init_play_state_def Let_def max_messages_def fresh_game_def)
next
  case (step st st')
  from step.hyps(3) obtain m where "messages st' = messages st @ [m]"
    and "max_messages \<le> length (messages st') \<longrightarrow> game_over (game st')"
    using play_turn_messages by blast
  with step.IH step.hyps(2) show ?case
    by (auto simp: msg_inv_def)
qed

lemma play_loop_reachable:
  "reachable agents st \<Longrightarrow> play_loop agents st = Inr st' \<Longrightarrow> reachable agents st' \<and> game_over (game st')"
proof (induction agents st rule: play_loop.induct)
  case (1 agents st)
  show ?case
  proof (cases "game_over (game st)")
    case True
    with "1.prems" show ?thesis by (simp add: play_loop.simps)
  next
    case False
    with "1.prems"(2) obtain x where x: "play_turn agents st = Inr x" and rest: "play_loop agents x = Inr st'"
      by (auto simp: play_loop.simps ebind_eq_Inr)
    from "1.prems"(1) False x have "reachable agents x" by (rule reachable.step)
    with "1.IH"[OF False x] rest show ?thesis by simp
  qed
qed

text \<open>C1: With two validating (LLM) players and a fresh game, the turn loop of \<open>play_game\<close> ends only in a terminal state in which both proposals are on file, or a player aborted, or exactly 50 messages were exchanged.\<close>

theorem game_closes_by_deal_abort_or_limit:
  assumes "llm_agents agents" and "fresh_game g" and "first < 2"
    and "play_loop agents (init_play_state g first fmt) = Inr st"
  shows "game_over (game st) \<and>
         (both_proposed (game st) \<or> abort_marker \<in> set (messages st)
          \<or> length (messages st) = max_messages)"
proof -
  from assms(2,3) have "reachable agents (init_play_state g first fmt)" by (rule reachable.start)
  with assms(4) have r: "reachable agents st" and over: "game_over (game st)"
    using play_loop_reachable by blast+
  from assms(1) r have "proto_inv st" by (rule proto_inv_reachable)
  moreover from r have "msg_inv st" by (rule reachable_msg_inv)
  ultimately show ?thesis using over by (auto simp: proto_inv_def msg_inv_def Let_def)
qed

text \<open>C3: Whatever the players, \<open>play_game\<close> on a fresh game ends with the game over and at most 50 messages exchanged.\<close>

theorem play_game_message_bound:
  assumes "fresh_game g" and "first < 2"
    and "play_game agents first fmt tok g = Inr (g', out, flog)"
  shows "game_over g' \<and> msg_cnt out \<le> max_messages"
proof -
  from assms(3) obtain st where loop: "play_loop agents (init_play_state g first fmt) = Inr st"
    and "msg_cnt out = length (messages st)" and "game_over g' = game_over (game st)"
    by (auto simp: play_game_def ebind_eq_Inr Let_def split: prod.splits)
  moreover from assms(1,2) have "reachable agents (init_play_state g first fmt)" by (rule reachable.start)
  then have "reachable agents st \<and> game_over (game st)" using loop by (rule play_loop_reachable)
  ultimately show ?thesis using reachable_msg_inv by (auto simp: msg_inv_def)
qed

text \<open>A proposal made while a deal is pending records it and ends the game immediately, whether or not the two proposals are compatible.\<close>

theorem second_proposal_closes:
  assumes "deal_proposed g" and "startswith (py_strip r) ''[propose]''" and "parse_proposal r = Inr p"
  shows "apply_response t r g =
           Inr (g\<lparr>proposals := (proposals g)[t := Some p], game_over := True\<rparr>, py_strip r, proposal_notice)"
  using apply_response_proposal[OF assms(2,3)] assms(1) by simp

lemma digit_runs_digits:
  "list_all is_digit cur \<Longrightarrow> r \<in> set (digit_runs_acc cur s) \<Longrightarrow> list_all is_digit r"
  by (induction cur s rule: digit_runs_acc.induct) (auto split: if_splits)

lemma py_int_nonneg: "list_all is_digit ds \<Longrightarrow> 0 \<le> py_int ds"
  by (induction ds rule: rev_induct) (auto simp: py_int_snoc digit_val_def is_digit_def py_int_def[of "[]"])

lemma parse_proposal_typed: "parse_proposal r = Inr p \<Longrightarrow> well_typed_dict p"
proof -
  assume p: "parse_proposal r = Inr p"
  let ?c = "findall_digits r"
  from p have l: "3 \<le> length ?c" and pe: "p = mk_items (py_int (?c ! 0)) (py_int (?c ! 1)) (py_int (?c ! 2))"
    by (auto simp: parse_proposal_def Let_def split: if_splits)
  have "\<And>i. i < length ?c \<Longrightarrow> 0 \<le> py_int (?c ! i)"
    by (rule py_int_nonneg, rule digit_runs_digits[of "[]" _ r]) (auto simp: findall_digits_def)
  note nn = this
  have "0 \<le> py_int (?c ! 0)" "0 \<le> py_int (?c ! 1)" "0 \<le> py_int (?c ! 2)"
    using l by (auto intro: nn)
  with pe show ?thesis by (simp add: well_typed_dict_def)
qed

lemma apply_response_proposals:
  assumes "apply_response t r g = Inr (g', a, u)"
  shows "proposals g' = proposals g \<or> (\<exists>p. proposals g' = (proposals g)[t := Some p] \<and> well_typed_dict p)"
  using assms
  by (cases "parse_proposal r") (auto simp: apply_response_def Let_def dest: parse_proposal_typed split: if_splits)

lemma list_all_update: "list_all P xs \<Longrightarrow> P x \<Longrightarrow> list_all P (xs[i := x])"
  by (induction xs arbitrary: i) (auto split: nat.splits)

lemma play_turn_proposals_typed:
  assumes "proposals_typed (game st)" and "play_turn agents st = Inr st'"
  shows "proposals_typed (game st')"
proof -
  from assms(2) obtain resp json g a u where
    ap: "apply_response (turn st) resp (game st) = Inr (g, a, u)"
    and g': "game st' = (if max_messages \<le> Suc (length (messages st)) then g\<lparr>game_over := True\<rparr> else g)"
    by (rule play_turn_Inr) simp
  from apply_response_proposals[OF ap] have "proposals_typed g"
  proof (elim disjE exE conjE)
    assume "proposals g = proposals (game st)"
    with assms(1) show ?thesis by (simp add: proposals_typed_def)
  next
    fix p assume "proposals g = (proposals (game st))[turn st := Some p]" and "well_typed_dict p"
    with assms(1) show ?thesis by (simp add: proposals_typed_def list_all_update)
  qed
  with g' show ?thesis by (simp add: proposals_typed_def)
qed

text \<open>C13: Whatever the players, every reachable state of the turn loop keeps two proposal slots, and every proposal on file is a dictionary with the keys book, hat and ball in that order and non-negative counts: \<open>parse_proposal\<close> reads only runs of decimal digits.\<close>

theorem reachable_proposals_typed:
  "reachable agents st \<Longrightarrow> proposals_typed (game st)"
proof (induction rule: reachable.induct)
  case (start g first fmt)
  then show ?case by (simp add: proposals_typed_def fresh_game_def init_play_state_def Let_def)
next
  case (step st st')
  from step.IH step.hyps(3) show ?case by (rule play_turn_proposals_typed)
qed

text \<open>C14: The turn loop terminates within its message budget: from every reachable state, running at most as many turns as messages remain below \<open>max_messages\<close> already yields the result of \<open>play_loop\<close>, an exception included.\<close>

theorem play_loop_within_budget:
  "reachable agents st \<Longrightarrow> play_turns (max_messages - length (messages st)) agents st = Some (play_loop agents st)"
proof (induction agents st rule: play_loop.induct)
  case (1 agents st)
  show ?case
  proof (cases "game_over (game st)")
    case True
    then show ?thesis by (cases "max_messages - length (messages st)") (simp_all add: play_loop.simps)
  next
    case False
    from reachable_msg_inv[OF "1.prems"] False have lt: "length (messages st) < max_messages"
      by (simp add: msg_inv_def)
    then obtain k where k: "max_messages - length (messages st) = Suc k" by (cases "max_messages - length (messages st)") auto
    show ?thesis
    proof (cases "play_turn agents st")
      case (Inl e)
      with False k show ?thesis by (simp add: play_loop.simps)
    next
      case (Inr x)
      from "1.prems" False Inr have rx: "reachable agents x" by (rule reachable.step)
      from Inr obtain m where "messages x = messages st @ [m]" using play_turn_messages by blast
      with k have kx: "max_messages - length (messages x) = k" by simp
      from "1.IH"[OF False Inr rx] kx False k Inr show ?thesis by (simp add: play_loop.simps)
    qed
  qed
qed

lemma first_turn_abort:
  assumes fresh: "fresh_game g" and f: "first < 2" and llm: "agents ! first = LLM llm"
    and rej: "\<forall>json. \<exists>fb. is_valid_output (item_counts g) False 1 (generate_response llm json) = Inr (Reject fb)"
  shows "\<exists>json. play_turn agents (init_play_state g first fmt)
     = Inr ((init_play_state g first fmt)\<lparr>game := g\<lparr>game_over := True\<rparr>, turn := 1 - first,
             prompts := (prompts (init_play_state g first fmt))[first := json @ [(Assistant, abort_marker)],
               1 - first := (prompts (init_play_state g first fmt) ! (1 - first)) @ [(User, abort_marker)]],
             logs := (logs (init_play_state g first fmt))[first := (logs (init_play_state g first fmt) ! first) @ [(Assistant, abort_marker)],
               1 - first := (logs (init_play_state g first fmt) ! (1 - first)) @ [(User, abort_marker)]],
             messages := [abort_marker], text_log := turn_line first abort_marker\<rparr>)"
proof -
  let ?st = "init_play_state g first fmt"
  let ?valid = "is_valid_output (item_counts g) (deal_proposed g) (length (logs ?st ! first))"
  have len: "length (logs ?st ! first) = 1" using f by (cases first) (auto simp: init_play_state_def Let_def)
  have nd: "\<not> deal_proposed g" using fresh by (simp add: fresh_game_def)
  have r: "\<forall>j. \<exists>fb. ?valid (generate_response llm j) = Inr (Reject fb)"
    using rej len nd by simp
  from respond_loop_all_rejected[OF r, of "generate_response llm (prompts ?st ! first)" 0 "prompts ?st ! first"] r
  obtain ext where "respond (generate_response llm) ?valid (prompts ?st ! first) = Inr (abort_marker, prompts ?st ! first @ ext)"
    by (auto simp: respond_def)
  then have "agent_respond (agents ! first) g (logs ?st ! first) (prompts ?st ! first)
      = Inr (abort_marker, prompts ?st ! first @ ext)"
    by (simp add: llm)
  then show ?thesis
    by (auto simp: play_turn_def apply_response_abort max_messages_def init_play_state_def Let_def)
qed

text \<open>C26: The spec's abort rule, for every game: when the first player is an LLM player whose every output the validator rejects at the opening turn, the game ends after that turn with the single message \<open>"[ABORT]"\<close> in the log, no proposal on file, no valid deal, both scores 0, and the abort marker as the first player's last history entry.\<close>

theorem first_player_abort:
  assumes fresh: "fresh_game g" and f: "first < 2" and llm: "agents ! first = LLM llm"
    and rej: "\<forall>json. \<exists>fb. is_valid_output (item_counts g) False 1 (generate_response llm json) = Inr (Reject fb)"
  shows "\<exists>g' out. play_game agents first fmt tok g = Inr (g', out, turn_line first abort_marker @ final_score_lines 0 0)
     \<and> game_over g' \<and> proposals g' = [None, None] \<and> p0_score out = 0 \<and> p1_score out = 0
     \<and> \<not> is_valid_deal out \<and> msg_cnt out = 1
     \<and> last (if first = 0 then p0_log out else p1_log out) = (Assistant, abort_marker)"
proof -
  let ?st = "init_play_state g first fmt"
  from first_turn_abort[OF fresh f llm rej, of fmt] obtain json where
    t: "play_turn agents ?st = Inr (?st\<lparr>game := g\<lparr>game_over := True\<rparr>, turn := 1 - first,
             prompts := (prompts ?st)[first := json @ [(Assistant, abort_marker)],
               1 - first := (prompts ?st ! (1 - first)) @ [(User, abort_marker)]],
             logs := (logs ?st)[first := (logs ?st ! first) @ [(Assistant, abort_marker)],
               1 - first := (logs ?st ! (1 - first)) @ [(User, abort_marker)]],
             messages := [abort_marker], text_log := turn_line first abort_marker\<rparr>)"
      (is "_ = Inr ?st1")
    by blast
  have over0: "\<not> game_over (game ?st)" using fresh by (simp add: fresh_game_def init_play_state_def Let_def)
  have stop: "play_loop agents ?st1 = Inr ?st1" by (subst play_loop.simps) simp
  have loop: "play_loop agents ?st = Inr ?st1"
    using over0 t stop by (subst play_loop.simps) simp
  have props: "proposals g = [None, None]" using fresh by (simp add: fresh_game_def)
  from f consider "first = 0" | "first = 1" by linarith
  then show ?thesis
    using loop props
    by cases (auto simp: play_game_def calculateFinalScores_def isValidDeal_def init_play_state_def Let_def)
qed

end
