(* ===== verification/Web.thy ===== *)
theory Web
  imports Game
begin

text \<open>
  The web variant of the game, \<open>WebNegotiationGame\<close> of
  \<open>src/web_interface/games/web_negotiation.py\<close>: a human (player 0, the user)
  plays against one \<open>ClosedSourceChatPlayer\<close> (player 1, the assistant), one HTTP
  request at a time. The game object is the record \<open>game\<close> of the batch model;
  the state the method touches besides it is the assistant's \<open>messages_json\<close>
  and \<open>messages_log\<close>, here the record \<open>web_state\<close>. One call of
  \<open>receive_and_respond\<close> is the user's half (\<open>web_receive_user\<close>), the
  assistant's half (\<open>web_respond\<close>, with its effect on the game in
  \<open>web_apply_assistant\<close>), and the final scoring. The methods
  \<open>isValidDeal\<close>, \<open>calculateFinalScores\<close>, \<open>calculateScore\<close>,
  \<open>parse_proposal\<close> and \<open>isParetoOptimal\<close> of the class are verbatim copies of
  those of \<open>NegotiationGame\<close> and reuse their definitions.
\<close>

section \<open>Construction\<close>

text \<open>
  \<open>__init__\<close>: the defaults, then \<open>player_values[1]\<close> chosen by testing
  \<open>user_values\<close> (line 28) instead of \<open>assistant_values\<close>; the attribute
  \<open>self.assistant_values\<close> is only assigned in that branch. The objective check
  raises before the prompt file is read; then \<open>prompt_message.format(...)\<close>
  evaluates its keyword arguments left to right: the three counts, then
  \<open>self.assistant_values["book"]\<close>, ..., which raise \<open>AttributeError\<close> when the
  attribute was never set and \<open>TypeError\<close> when it is \<open>None\<close>. The prompt
  template is the parameter \<open>fmt\<close>; the result is the game and
  \<open>assistant_system_prompt\<close>.
\<close>

definition init_web_game ::
  "pydict option \<Rightarrow> pydict option \<Rightarrow> pydict option \<Rightarrow> string \<Rightarrow> (pydict \<Rightarrow> pydict \<Rightarrow> string)
     \<Rightarrow> (game \<times> string) result" where
  "init_web_game counts user_values assistant_values obj fmt =
     (let c = (case counts of None \<Rightarrow> mk_items 1 2 3 | Some d \<Rightarrow> d);
          v0 = (case user_values of None \<Rightarrow> mk_items 1 3 1 | Some d \<Rightarrow> d)
      in ebind (objective_of_string obj) (\<lambda>ob.
         ebind (read_item_keys c) (\<lambda>_.
         case user_values of
           None \<Rightarrow> Inl AttributeError
         | Some _ \<Rightarrow>
             (case assistant_values of
                None \<Rightarrow> Inl TypeError
              | Some v1 \<Rightarrow>
                  ebind (read_item_keys v1) (\<lambda>_.
                    Inr (\<lparr>item_counts = c, player_values = [v0, v1], proposals = [None, None],
                          final_scores = None, deal_proposed = False, game_over = False,
                          objective = ob\<rparr>,
                         fmt c v1))))))"

section \<open>One request\<close>

record web_state =
  wgame :: game
  assistant_json :: chat
  assistant_log :: chat

definition web_notice :: string where
  "web_notice = ''[propose] Proposal made. You must now respond with a proposal of your own.\<newline>''"

text \<open>
  The user's half: nothing for the opening call (\<open>user_msg = None\<close>); a proposal
  is parsed into \<open>proposals[0]\<close> and closes or opens the deal, and the assistant
  sees the notice; any other text, \<open>"[ABORT]"\<close> included, is forwarded as it is.
  The user's text is not validated, and the game need not be running.
\<close>

definition web_receive_user :: "string option \<Rightarrow> web_state \<Rightarrow> web_state result" where
  "web_receive_user user_msg s =
     (case user_msg of
        None \<Rightarrow> Inr s
      | Some m \<Rightarrow>
          if startswith (py_strip m) ''[propose]'' then
            ebind (parse_proposal m) (\<lambda>p.
              let g = wgame s;
                  g1 = g\<lparr>proposals := (proposals g)[0 := Some p]\<rparr>;
                  g2 = (if deal_proposed g1 then g1\<lparr>game_over := True\<rparr>
                        else g1\<lparr>deal_proposed := True\<rparr>)
              in Inr (s\<lparr>wgame := g2, assistant_json := assistant_json s @ [(User, web_notice)],
                        assistant_log := assistant_log s @ [(User, web_notice)]\<rparr>))
          else Inr (s\<lparr>assistant_json := assistant_json s @ [(User, m)],
                      assistant_log := assistant_log s @ [(User, m)]\<rparr>))"

text \<open>
  The effect of the assistant's response on the game: the abort check, then the
  proposal check into \<open>proposals[1]\<close>; it returns the game, the displayed
  message and the \<open>abort\<close> flag.
\<close>

definition web_apply_assistant :: "string \<Rightarrow> game \<Rightarrow> (game \<times> string \<times> bool) result" where
  "web_apply_assistant response_text g =
     (let aborted = (py_strip response_text = abort_marker);
          g1 = (if aborted then g\<lparr>game_over := True\<rparr> else g);
          displayed = (if aborted then ''Model errored. Aborting game.'' else py_strip response_text)
      in if startswith (py_strip response_text) ''[propose]'' then
           ebind (parse_proposal response_text) (\<lambda>p.
             let g2 = g1\<lparr>proposals := (proposals g1)[1 := Some p]\<rparr> in
             if deal_proposed g2 then Inr (g2\<lparr>game_over := True\<rparr>, ''[propose] Proposal made.'', aborted)
             else Inr (g2\<lparr>deal_proposed := True\<rparr>, web_notice, aborted))
         else Inr (g1, displayed, aborted))"

text \<open>
  The assistant's half, only while the game runs: \<open>assistant_agent.respond()\<close>
  validates against the live game and the assistant's own log, then the raw
  response is appended to both histories.
\<close>

definition web_respond :: "(chat \<Rightarrow> string) \<Rightarrow> web_state \<Rightarrow> (web_state \<times> string \<times> bool) result" where
  "web_respond llm s =
     (let g = wgame s in
      if game_over g then Inr (s, [], False)
      else
        ebind (respond (generate_response llm)
                 (is_valid_output (item_counts g) (deal_proposed g) (length (assistant_log s)))
                 (assistant_json s)) (\<lambda>(response_text, json).
        ebind (web_apply_assistant response_text g) (\<lambda>(g', displayed, aborted).
          Inr (s\<lparr>wgame := g', assistant_json := json @ [(Assistant, response_text)],
                 assistant_log := assistant_log s @ [(Assistant, response_text)]\<rparr>,
               displayed, aborted))))"

record web_reply =
  message :: string
  reply_over :: bool
  user_score :: int
  assistant_score :: int
  valid_deal :: bool
  abort :: bool
  user_proposal :: "pydict option"
  assistant_proposal :: "pydict option"
  message_log :: chat

definition receive_and_respond ::
  "(chat \<Rightarrow> string) \<Rightarrow> string option \<Rightarrow> web_state \<Rightarrow> (web_state \<times> web_reply) result" where
  "receive_and_respond llm user_msg s =
     ebind (web_receive_user user_msg s) (\<lambda>s1.
     ebind (web_respond llm s1) (\<lambda>(s2, displayed, aborted).
     let g = wgame s2 in
     ebind (calculateFinalScores (objective g) (item_counts g) (player_values g) (proposals g)) (\<lambda>(sc0, sc1).
     ebind (isValidDeal (item_counts g) (proposals g)) (\<lambda>valid.
       let g' = g\<lparr>final_scores := Some (sc0, sc1)\<rparr> in
       Inr (s2\<lparr>wgame := g'\<rparr>,
            \<lparr>message = displayed, reply_over = game_over g', user_score = sc0, assistant_score = sc1,
             valid_deal = valid, abort = aborted, user_proposal = proposals g' ! 0,
             assistant_proposal = proposals g' ! 1, message_log = assistant_json s2\<rparr>)))))"

section \<open>Reachable states\<close>

text \<open>
  \<open>app.py\<close> builds the game, gives the assistant the system prompt as its first
  history entry, and calls \<open>receive_and_respond\<close> (the opening call with
  \<open>None\<close>, then once per user message) until a reply reports \<open>game_over\<close>,
  after which it deletes the game.
\<close>

definition web_start :: "game \<Rightarrow> string \<Rightarrow> web_state" where
  "web_start g prompt = \<lparr>wgame = g, assistant_json = [(System, prompt)], assistant_log = [(System, prompt)]\<rparr>"

inductive web_reachable :: "(chat \<Rightarrow> string) \<Rightarrow> web_state \<Rightarrow> bool" for llm where
  start: "init_web_game counts uv av obj fmt = Inr (g, prompt) \<Longrightarrow> web_reachable llm (web_start g prompt)"
| step: "web_reachable llm s \<Longrightarrow> \<not> game_over (wgame s) \<Longrightarrow> receive_and_respond llm m s = Inr (s', r)
         \<Longrightarrow> web_reachable llm s'"

text \<open>
  The web protocol invariant: no proposal before the deal opens; an open deal
  that still runs was opened by the assistant; a closed game has the assistant's
  proposal on file or ended in the assistant's abort.
\<close>

definition web_inv :: "web_state \<Rightarrow> bool" where
  "web_inv s \<longleftrightarrow>
     (let g = wgame s in
      length (proposals g) = 2
      \<and> (\<not> deal_proposed g \<longrightarrow> proposals g = [None, None])
      \<and> (deal_proposed g \<and> \<not> game_over g \<longrightarrow> proposals g ! 0 = None \<and> proposals g ! 1 \<noteq> None)
      \<and> (game_over g \<longrightarrow> proposals g ! 1 \<noteq> None \<or> (Assistant, abort_marker) \<in> set (assistant_log s)))"


text \<open>
  The requests of one session, in order, as \<open>app.py\<close> issues them: the game is
  deleted once a reply reports \<open>game_over\<close>, so later messages find no game. The
  session stops there and ignores the remaining messages; in \<open>app.py\<close> each of them
  would raise \<open>KeyError\<close> on the deleted game, which \<open>Session.handle_user_message\<close>
  models.
\<close>

fun web_session :: "(chat \<Rightarrow> string) \<Rightarrow> string option list \<Rightarrow> web_state \<Rightarrow> web_state result" where
  "web_session llm [] s = Inr s"
| "web_session llm (m # ms) s =
     ebind (receive_and_respond llm m s) (\<lambda>(s', r). if reply_over r then Inr s' else web_session llm ms s')"

section \<open>Scenarios\<close>

text \<open>The game \<open>app.py\<close> builds for the context of the default game.\<close>

definition demo_web_game :: game where
  "demo_web_game = \<lparr>item_counts = mk_items 1 2 3, player_values = [mk_items 1 3 1, mk_items 2 1 2],
     proposals = [None, None], final_scores = None, deal_proposed = False, game_over = False, objective = Self\<rparr>"

text \<open>An assistant that opens with a message and proposes from its second turn on.\<close>

definition closing_llm :: "chat \<Rightarrow> string" where
  "closing_llm j = (if length j < 2 then ''[message] hi'' else ''[propose] (1 books, 0 hats, 0 balls)'')"

section \<open>Lemmas\<close>

lemma web_apply_assistant_game:
  "map_sum id fst (web_apply_assistant r g) = map_sum id fst (apply_response 1 r g)"
  by (cases "parse_proposal r")
     (auto simp: web_apply_assistant_def apply_response_def Let_def)

lemma web_apply_assistant_Inr:
  assumes "web_apply_assistant r g = Inr (g', d, a)"
  shows "\<exists>u v. apply_response 1 r g = Inr (g', u, v)"
  using web_apply_assistant_game[of r g] assms
  by (cases "apply_response 1 r g") auto

lemma web_respond_over: "game_over (wgame s) \<Longrightarrow> web_respond llm s = Inr (s, [], False)"
  by (simp add: web_respond_def)

lemma web_respond_Inr:
  assumes "web_respond llm s = Inr (s', d, a)" and "\<not> game_over (wgame s)"
  shows "\<exists>resp json u v.
    respond (generate_response llm)
        (is_valid_output (item_counts (wgame s)) (deal_proposed (wgame s)) (length (assistant_log s)))
        (assistant_json s) = Inr (resp, json)
    \<and> apply_response 1 resp (wgame s) = Inr (wgame s', u, v)
    \<and> assistant_log s' = assistant_log s @ [(Assistant, resp)]"
  using assms
  by (auto simp: web_respond_def Let_def ebind_eq_Inr dest!: web_apply_assistant_Inr split: prod.splits)

lemma web_respond_cases:
  assumes "web_respond llm s = Inr (s', d, a)" and "\<not> game_over (wgame s)"
  shows "(\<exists>pre. assistant_log s' = assistant_log s @ pre)
    \<and> ((wgame s' = (wgame s)\<lparr>game_over := True\<rparr> \<and> (Assistant, abort_marker) \<in> set (assistant_log s'))
       \<or> (wgame s' = wgame s \<and> \<not> deal_proposed (wgame s))
       \<or> (\<exists>p. wgame s' = (if deal_proposed (wgame s)
              then (wgame s)\<lparr>proposals := (proposals (wgame s))[1 := Some p], game_over := True\<rparr>
              else (wgame s)\<lparr>proposals := (proposals (wgame s))[1 := Some p], deal_proposed := True\<rparr>)))"
proof -
  from web_respond_Inr[OF assms] obtain resp json u v where
    r: "respond (generate_response llm)
        (is_valid_output (item_counts (wgame s)) (deal_proposed (wgame s)) (length (assistant_log s)))
        (assistant_json s) = Inr (resp, json)"
    and ap: "apply_response 1 resp (wgame s) = Inr (wgame s', u, v)"
    and lg: "assistant_log s' = assistant_log s @ [(Assistant, resp)]" by blast
  from respond_kind[OF r] consider (ab) "resp = abort_marker"
    | (msg) "startswith (py_strip resp) ''[message]'' \<and> \<not> deal_proposed (wgame s)"
    | (pr) "startswith (py_strip resp) ''[propose]''" by blast
  then show ?thesis
  proof cases
    case ab
    with ap lg show ?thesis by (simp add: apply_response_abort)
  next
    case msg
    with ap lg show ?thesis by (auto simp: apply_response_message)
  next
    case pr
    with ap obtain p where "parse_proposal resp = Inr p"
      by (cases "parse_proposal resp") (auto simp: apply_response_def tagged_not_abort)
    from ap apply_response_proposal[OF pr this, of 1 "wgame s"]
    have "wgame s' = (if deal_proposed (wgame s)
              then (wgame s)\<lparr>proposals := (proposals (wgame s))[1 := Some p], game_over := True\<rparr>
              else (wgame s)\<lparr>proposals := (proposals (wgame s))[1 := Some p], deal_proposed := True\<rparr>)"
      by simp
    with lg show ?thesis by blast
  qed
qed

lemma web_inv_final_scores [simp]:
  "web_inv (s\<lparr>wgame := (wgame s)\<lparr>final_scores := x\<rparr>\<rparr>) = web_inv s"
  by (simp add: web_inv_def Let_def)

lemma web_inv_mono:
  "web_inv s \<Longrightarrow> wgame s1 = wgame s \<Longrightarrow> set (assistant_log s) \<subseteq> set (assistant_log s1) \<Longrightarrow> web_inv s1"
  by (auto simp: web_inv_def Let_def)

lemma receive_and_respond_Inr:
  assumes "receive_and_respond llm m s = Inr (s', r)"
  obtains s1 s2 d a x where "web_receive_user m s = Inr s1" "web_respond llm s1 = Inr (s2, d, a)"
    "s' = s2\<lparr>wgame := (wgame s2)\<lparr>final_scores := Some x\<rparr>\<rparr>"
  using assms by (auto simp: receive_and_respond_def ebind_eq_Inr Let_def split: prod.splits)

lemma web_respond_inv_running:
  assumes inv: "web_inv s1" and run: "\<not> game_over (wgame s1)"
    and step: "web_respond llm s1 = Inr (s2, d, a)"
  shows "web_inv s2"
  using web_respond_cases[OF step run] inv run
  by (cases "deal_proposed (wgame s1)") (auto simp: web_inv_def Let_def)

lemma web_respond_inv_opened:
  assumes g: "deal_proposed (wgame s1)" "\<not> game_over (wgame s1)" "proposals (wgame s1) = [Some p, None]"
    and step: "web_respond llm s1 = Inr (s2, d, a)"
  shows "web_inv s2"
  using web_respond_cases[OF step g(2)] g
  by (auto simp: web_inv_def Let_def)

lemma web_inv_step:
  assumes inv: "web_inv s" and run: "\<not> game_over (wgame s)"
    and step: "receive_and_respond llm m s = Inr (s', r)"
  shows "web_inv s'"
proof -
  from step obtain s1 s2 d a x where u: "web_receive_user m s = Inr s1"
    and w: "web_respond llm s1 = Inr (s2, d, a)"
    and s': "s' = s2\<lparr>wgame := (wgame s2)\<lparr>final_scores := Some x\<rparr>\<rparr>"
    by (rule receive_and_respond_Inr)
  have "web_inv s2"
  proof (cases "m = None \<or> (\<exists>t. m = Some t \<and> \<not> startswith (py_strip t) ''[propose]'')")
    case True
    with u have "wgame s1 = wgame s" "set (assistant_log s) \<subseteq> set (assistant_log s1)"
      by (auto simp: web_receive_user_def)
    with inv run have i1: "web_inv s1" and r1: "\<not> game_over (wgame s1)" by (auto intro: web_inv_mono)
    from i1 r1 w show ?thesis by (rule web_respond_inv_running)
  next
    case False
    then obtain t where t: "m = Some t" "startswith (py_strip t) ''[propose]''" by auto
    with u obtain p where p: "parse_proposal t = Inr p"
      by (cases "parse_proposal t") (auto simp: web_receive_user_def)
    show ?thesis
    proof (cases "deal_proposed (wgame s)")
      case True
      with u t p have "wgame s1 = (wgame s)\<lparr>proposals := (proposals (wgame s))[0 := Some p], game_over := True\<rparr>"
        by (auto simp: web_receive_user_def Let_def)
      moreover from this w have "s2 = s1" by (simp add: web_respond_over)
      ultimately show ?thesis using inv run True by (auto simp: web_inv_def Let_def)
    next
      case False
      with inv have "proposals (wgame s) = [None, None]" by (simp add: web_inv_def Let_def)
      with u t p False have "deal_proposed (wgame s1)" "\<not> game_over (wgame s1)"
        "proposals (wgame s1) = [Some p, None]"
        using run by (auto simp: web_receive_user_def Let_def)
      with w show ?thesis by (intro web_respond_inv_opened)
    qed
  qed
  with s' show ?thesis by simp
qed

lemma web_inv_init:
  "init_web_game counts uv av obj fmt = Inr (g, prompt) \<Longrightarrow> web_inv (web_start g prompt)"
  by (auto simp: init_web_game_def web_start_def web_inv_def ebind_eq_Inr Let_def split: option.splits)

text \<open>C27: In every state of a web session with a validating assistant, no proposal is on file before a deal opens; a deal that is open while the game runs was opened by the assistant and the user has not answered; and a finished game has the assistant's proposal on file or ended in the assistant's abort.\<close>

theorem web_reachable_inv: "web_reachable llm s \<Longrightarrow> web_inv s"
  by (induction rule: web_reachable.induct) (auto intro: web_inv_init web_inv_step)

lemma chatty_response: "generate_response (\<lambda>_. ''[message] ok'') json = ''[message] ok''"
  unfolding generate_response_def by code_simp

lemma chatty_valid: "is_valid_output counts False n ''[message] ok'' = Inr Accept"
  unfolding is_valid_output_def is_valid_message_def by code_simp

lemma chatty_apply: "web_apply_assistant ''[message] ok'' g = Inr (g, ''[message] ok'', False)"
  unfolding web_apply_assistant_def by code_simp

lemma hi_user: "web_receive_user (Some ''[message] hi'') s =
   Inr (s\<lparr>assistant_json := assistant_json s @ [(User, ''[message] hi'')],
          assistant_log := assistant_log s @ [(User, ''[message] hi'')]\<rparr>)"
  unfolding web_receive_user_def by code_simp

lemma chatty_step:
  assumes "\<not> game_over (wgame s)" "\<not> deal_proposed (wgame s)" "proposals (wgame s) = [None, None]"
  shows "\<exists>s' r. receive_and_respond (\<lambda>_. ''[message] ok'') (Some ''[message] hi'') s = Inr (s', r)
     \<and> \<not> reply_over r \<and> wgame s' = (wgame s)\<lparr>final_scores := Some (0, 0)\<rparr>
     \<and> length (assistant_log s') = length (assistant_log s) + 2"
  using assms
  by (simp add: receive_and_respond_def hi_user web_respond_def respond_def respond_loop_Accept
                chatty_response chatty_valid chatty_apply calculateFinalScores_def isValidDeal_def)

lemma chatty_session:
  "\<not> game_over (wgame s) \<Longrightarrow> \<not> deal_proposed (wgame s) \<Longrightarrow> proposals (wgame s) = [None, None] \<Longrightarrow>
   \<exists>s'. web_session (\<lambda>_. ''[message] ok'') (replicate n (Some ''[message] hi'')) s = Inr s'
      \<and> \<not> game_over (wgame s') \<and> length (assistant_log s') = length (assistant_log s) + 2 * n"
proof (induction n arbitrary: s)
  case 0
  then show ?case by simp
next
  case (Suc n)
  from chatty_step[OF Suc.prems] obtain s1 r where
    step: "receive_and_respond (\<lambda>_. ''[message] ok'') (Some ''[message] hi'') s = Inr (s1, r)"
    and r: "\<not> reply_over r" and g: "wgame s1 = (wgame s)\<lparr>final_scores := Some (0, 0)\<rparr>"
    and l: "length (assistant_log s1) = length (assistant_log s) + 2" by blast
  from g Suc.prems have "\<not> game_over (wgame s1)" "\<not> deal_proposed (wgame s1)" "proposals (wgame s1) = [None, None]"
    by simp_all
  from Suc.IH[OF this] step r l show ?case by auto
qed

text \<open>C31: The web game has no message ceiling: with a user and an assistant that keep exchanging messages, the session stays open after any number of requests, past the 50 messages that end a batch game.\<close>

theorem web_no_message_ceiling:
  assumes "init_web_game counts uv av obj fmt = Inr (g, prompt)"
  shows "\<exists>s. web_session (\<lambda>_. ''[message] ok'') (replicate n (Some ''[message] hi'')) (web_start g prompt) = Inr s
           \<and> \<not> game_over (wgame s) \<and> length (assistant_log s) = 2 * n + 1"
proof -
  from assms have "\<not> game_over g" "\<not> deal_proposed g" "proposals g = [None, None]"
    by (auto simp: init_web_game_def ebind_eq_Inr Let_def split: option.splits)
  with chatty_session[of "web_start g prompt" n] show ?thesis by (simp add: web_start_def)
qed

lemma demo_web_init:
  "init_web_game (Some (mk_items 1 2 3)) (Some (mk_items 1 3 1)) (Some (mk_items 2 1 2)) ''self'' (\<lambda>c v. ''sys'')
     = Inr (demo_web_game, ''sys'')"
  by (simp add: init_web_game_def read_item_keys_def objective_of_string_def demo_web_game_def)

theorem web_no_message_ceiling_witness:
  "\<exists>s. web_session (\<lambda>_. ''[message] ok'') (replicate 60 (Some ''[message] hi'')) (web_start demo_web_game ''sys'') = Inr s
        \<and> \<not> game_over (wgame s) \<and> length (assistant_log s) = 2 * 60 + 1"
  using web_no_message_ceiling[OF demo_web_init, of 60] .

lemma isValidDeal_no_user: "props ! 0 = None \<Longrightarrow> isValidDeal counts props = Inr False"
  by (simp add: isValidDeal_def)

lemma calculateFinalScores_no_user: "props ! 0 = None \<Longrightarrow> calculateFinalScores obj counts vals props = Inr (0, 0)"
  by (simp add: calculateFinalScores_def isValidDeal_no_user)

lemma receive_and_respond_reply:
  assumes "receive_and_respond llm m s = Inr (s', r)"
  obtains s1 s2 d a where "web_receive_user m s = Inr s1" "web_respond llm s1 = Inr (s2, d, a)"
    "calculateFinalScores (objective (wgame s2)) (item_counts (wgame s2)) (player_values (wgame s2)) (proposals (wgame s2))
       = Inr (user_score r, assistant_score r)"
    "isValidDeal (item_counts (wgame s2)) (proposals (wgame s2)) = Inr (valid_deal r)"
    "reply_over r = game_over (wgame s2)" "user_proposal r = proposals (wgame s2) ! 0" "abort r = a"
  using assms by (auto simp: receive_and_respond_def ebind_eq_Inr Let_def split: prod.splits)

text \<open>C28: The assistant can close a web game alone: in every state of the protocol where the assistant's proposal is open and the game runs, a user who answers with anything but a proposal gets a reply that ends the game, with no user proposal on file, no valid deal and both scores 0, because the validator lets the assistant only propose again or abort.\<close>

theorem web_assistant_closes_alone:
  assumes inv: "web_inv s" and opened: "deal_proposed (wgame s)" and run: "\<not> game_over (wgame s)"
    and msg: "\<not> startswith (py_strip m) ''[propose]''"
    and req: "receive_and_respond llm (Some m) s = Inr (s', r)"
  shows "reply_over r \<and> user_proposal r = None \<and> \<not> valid_deal r \<and> user_score r = 0 \<and> assistant_score r = 0"
proof -
  from req obtain s1 s2 d a where u: "web_receive_user (Some m) s = Inr s1"
    and w: "web_respond llm s1 = Inr (s2, d, a)"
    and sc: "calculateFinalScores (objective (wgame s2)) (item_counts (wgame s2)) (player_values (wgame s2)) (proposals (wgame s2))
       = Inr (user_score r, assistant_score r)"
    and v: "isValidDeal (item_counts (wgame s2)) (proposals (wgame s2)) = Inr (valid_deal r)"
    and o: "reply_over r = game_over (wgame s2)" "user_proposal r = proposals (wgame s2) ! 0"
    by (rule receive_and_respond_reply)
  from u msg have g1: "wgame s1 = wgame s" by (auto simp: web_receive_user_def)
  from inv opened run have p0: "proposals (wgame s) ! 0 = None" and len: "length (proposals (wgame s)) = 2"
    by (auto simp: web_inv_def Let_def)
  from web_respond_cases[OF w] run g1 opened
  have "game_over (wgame s2) \<and> proposals (wgame s2) ! 0 = None"
    using p0 len by (auto simp: nth_list_update)
  with sc v o show ?thesis
    by (simp add: calculateFinalScores_no_user isValidDeal_no_user)
qed

text \<open>C32: \<open>WebNegotiationGame\<close> cannot be built without both value dictionaries: without \<open>user_values\<close> the attribute \<open>assistant_values\<close> is never set and formatting the prompt raises, with \<open>user_values\<close> but without \<open>assistant_values\<close> it indexes \<open>None\<close>; in particular the all-default constructor raises \<open>AttributeError\<close>.\<close>

theorem web_init_requires_values:
  "(\<exists>e. init_web_game counts None av obj fmt = Inl e)
   \<and> (\<exists>e. init_web_game counts (Some u) None obj fmt = Inl e)
   \<and> init_web_game None None None ''self'' fmt = Inl AttributeError"
  by (auto simp: init_web_game_def ebind_def read_item_keys_def objective_of_string_def Let_def split: sum.splits)

text \<open>C29: On the game state, the assistant's half of a web request is the batch turn of player 1 (\<open>apply_response 1\<close>) for every response, and the user's half is the batch turn of player 0 for every text except the abort marker.\<close>

theorem web_refines_batch_step:
  "map_sum id fst (web_apply_assistant r g) = map_sum id fst (apply_response 1 r g)
   \<and> (py_strip m \<noteq> abort_marker \<longrightarrow>
        map_sum id wgame (web_receive_user (Some m) s) = map_sum id fst (apply_response 0 m (wgame s)))"
  by (cases "parse_proposal m") (auto simp: web_apply_assistant_game web_receive_user_def apply_response_def Let_def)

text \<open>A user's \<open>"[ABORT]"\<close> does not end the web game, while the same text ends the batch game.\<close>

theorem web_user_abort_ignored:
  "map_sum id wgame (web_receive_user (Some abort_marker) s) = Inr (wgame s)
   \<and> map_sum id fst (apply_response 0 abort_marker (wgame s)) = Inr ((wgame s)\<lparr>game_over := True\<rparr>)"
  by (simp add: web_receive_user_def apply_response_abort)

theorem web_reachable_inv_witness:
  "web_reachable closing_llm (web_start demo_web_game ''sys'') \<and> web_inv (web_start demo_web_game ''sys'')"
proof -
  have r: "web_reachable closing_llm (web_start demo_web_game ''sys'')"
    by (rule web_reachable.start[OF demo_web_init])
  from web_reachable_inv[OF r] r show ?thesis by blast
qed

theorem web_refines_batch_step_witness:
  "map_sum id fst (web_apply_assistant ''[propose] (1 books, 0 hats, 0 balls)'' demo_web_game)
     = map_sum id fst (apply_response 1 ''[propose] (1 books, 0 hats, 0 balls)'' demo_web_game)
   \<and> py_strip ''[message] hi'' \<noteq> abort_marker
   \<and> map_sum id wgame (web_receive_user (Some ''[message] hi'') (web_start demo_web_game ''sys''))
     = map_sum id fst (apply_response 0 ''[message] hi'' (wgame (web_start demo_web_game ''sys'')))"
proof -
  have n: "py_strip ''[message] hi'' \<noteq> abort_marker"
    by (simp add: py_strip_def py_space_def abort_marker_def)
  from web_refines_batch_step[of "''[propose] (1 books, 0 hats, 0 balls)''" demo_web_game
      "''[message] hi''" "web_start demo_web_game ''sys''"] n
  show ?thesis by blast
qed

text \<open>C16: A user proposal always ends the web game within the same request: either it answers the assistant's proposal and closes the deal, or it opens the deal and the assistant, which may then only propose or abort, closes it.\<close>

theorem user_proposal_ends_request:
  assumes "\<not> game_over (wgame s)" and "startswith (py_strip m) ''[propose]''"
    and "receive_and_respond llm (Some m) s = Inr (s', r)"
  shows "reply_over r"
proof -
  from assms(3) obtain s1 s2 d a x where u: "web_receive_user (Some m) s = Inr s1"
    and w: "web_respond llm s1 = Inr (s2, d, a)"
    and ro: "reply_over r = game_over (wgame s2)"
    by (auto simp: receive_and_respond_def ebind_eq_Inr Let_def split: prod.splits)
  from u assms(2) obtain p where p: "parse_proposal m = Inr p"
    by (cases "parse_proposal m") (auto simp: web_receive_user_def)
  from u assms(2) p have dp: "deal_proposed (wgame s1)"
    by (auto simp: web_receive_user_def Let_def)
  show ?thesis
  proof (cases "game_over (wgame s1)")
    case True
    with w ro show ?thesis by (simp add: web_respond_over)
  next
    case False
    from web_respond_cases[OF w False] dp ro show ?thesis by auto
  qed
qed


theorem user_proposal_ends_request_witness:
  "\<not> game_over (wgame (web_start demo_web_game ''sys''))
   \<and> startswith (py_strip ''[propose] (1 books, 2 hats, 3 balls)'') ''[propose]''
   \<and> (\<exists>s' r. receive_and_respond closing_llm (Some ''[propose] (1 books, 2 hats, 3 balls)'')
                 (web_start demo_web_game ''sys'') = Inr (s', r) \<and> reply_over r)"
proof -
  let ?m = "''[propose] (1 books, 2 hats, 3 balls)''"
  have run: "\<not> game_over (wgame (web_start demo_web_game ''sys''))"
    by (simp add: web_start_def demo_web_game_def)
  have tag: "startswith (py_strip ?m) ''[propose]''" by code_simp
  have "case receive_and_respond closing_llm (Some ?m) (web_start demo_web_game ''sys'') of
          Inl _ \<Rightarrow> False | Inr _ \<Rightarrow> True"
    unfolding closing_llm_def demo_web_game_def web_start_def by code_simp
  then obtain s' r where rr: "receive_and_respond closing_llm (Some ?m) (web_start demo_web_game ''sys'') = Inr (s', r)"
    by (auto split: sum.splits)
  from user_proposal_ends_request[OF run tag rr] run tag rr show ?thesis by blast
qed

theorem web_assistant_closes_alone_witness:
  "web_inv \<lparr>wgame = demo_web_game\<lparr>deal_proposed := True, proposals := [None, Some (mk_items 1 0 0)]\<rparr>,
            assistant_json = [(System, ''sys''), (Assistant, ''[propose] (1 books, 0 hats, 0 balls)'')],
            assistant_log = [(System, ''sys''), (Assistant, ''[propose] (1 books, 0 hats, 0 balls)'')]\<rparr>
   \<and> (\<exists>s' r. receive_and_respond closing_llm (Some ''[message] no deal'')
          \<lparr>wgame = demo_web_game\<lparr>deal_proposed := True, proposals := [None, Some (mk_items 1 0 0)]\<rparr>,
           assistant_json = [(System, ''sys''), (Assistant, ''[propose] (1 books, 0 hats, 0 balls)'')],
           assistant_log = [(System, ''sys''), (Assistant, ''[propose] (1 books, 0 hats, 0 balls)'')]\<rparr>
          = Inr (s', r)
        \<and> reply_over r \<and> user_proposal r = None \<and> \<not> valid_deal r \<and> user_score r = 0 \<and> assistant_score r = 0)"
  (is "web_inv ?s \<and> _")
proof -
  have inv: "web_inv ?s" by (simp add: web_inv_def demo_web_game_def)
  have o: "deal_proposed (wgame ?s)" "\<not> game_over (wgame ?s)" by (simp_all add: demo_web_game_def)
  have m: "\<not> startswith (py_strip ''[message] no deal'') ''[propose]''" by code_simp
  have "case receive_and_respond closing_llm (Some ''[message] no deal'') ?s of Inl _ \<Rightarrow> False | Inr _ \<Rightarrow> True"
    unfolding closing_llm_def demo_web_game_def by code_simp
  then obtain s' r where req: "receive_and_respond closing_llm (Some ''[message] no deal'') ?s = Inr (s', r)"
    by (auto split: sum.splits)
  from web_assistant_closes_alone[OF inv o m req] inv req show ?thesis by blast
qed

end
