(* ===== verification/Session.thy ===== *)
theory Session
  imports Web
begin

text \<open>
  The web server \<open>src/web_interface/app.py\<close>: the process-wide maps
  \<open>current_games\<close>, \<open>user_data\<close> and \<open>mturk_users\<close>, the global list
  \<open>current_model\<close>, and the socket handlers that create, play and drop games
  and pay the bonus. The server state is the record \<open>server\<close>; every handler
  takes the state and the request's inputs (the \<open>workerId\<close> of the query
  string, the client's session cookie, and the random draws as parameters) and
  returns the new state. A handler that raises keeps the mutations it made
  before the exception, so handlers return the state together with the raised
  error, if any. Emitting to the socket and logging are not modelled. The
  bonus arithmetic is done in \<open>real\<close>, exactly; Python computes it in binary
  floating point.
\<close>

section \<open>Contexts\<close>

text \<open>
  \<open>parse_context\<close> (identical in \<open>app.py\<close> and \<open>play.py\<close>): split a line
  of \<open>data/selfplay.txt\<close> on whitespace; the tokens at even positions are the
  counts and those at odd positions the values, each through \<open>int()\<close>.
\<close>

fun evens :: "'a list \<Rightarrow> 'a list" where
  "evens [] = []"
| "evens [x] = [x]"
| "evens (x # y # r) = x # evens r"

definition parse_context :: "string \<Rightarrow> (int list \<times> int list) result" where
  "parse_context ctx =
     (let toks = py_split_ws ctx in
      ebind (map_result py_int_str (evens toks)) (\<lambda>cnts.
      ebind (map_result py_int_str (evens (drop 1 toks))) (\<lambda>vals. Inr (cnts, vals))))"

section \<open>Server state\<close>

text \<open>User ids are strings, or \<open>None\<close> when neither cookie nor worker id gives one.\<close>

type_synonym uid = "string option"

record mturk =
  assignmentId :: "string option"
  hitId :: "string option"
  turkSubmitTo :: "string option"
  workerId :: "string option"

definition mturk_params :: "(string \<Rightarrow> string option) \<Rightarrow> mturk" where
  "mturk_params req =
     \<lparr>assignmentId = req ''assignmentId'', hitId = req ''hitId'',
      turkSubmitTo = req ''turkSubmitTo'', workerId = req ''workerId''\<rparr>"

record user_rec =
  bonus_pay :: real
  num_games_completed :: nat

record session =
  sess :: web_state
  sess_objective :: string
  model_id :: string

record server =
  current_model :: string
  current_games :: "uid \<Rightarrow> session option"
  user_data :: "uid \<Rightarrow> user_rec option"
  mturk_users :: "string option \<Rightarrow> string option"

text \<open>The module-level initial values (\<open>current_model[0] = "original"\<close>).\<close>

definition init_server :: server where
  "init_server = \<lparr>current_model = ''original'', current_games = Map.empty, user_data = Map.empty,
                  mturk_users = Map.empty\<rparr>"

definition update_session_id :: "server \<Rightarrow> mturk \<Rightarrow> uid \<Rightarrow> uid" where
  "update_session_id st info session_id =
     (case mturk_users st (workerId info) of
        Some u \<Rightarrow> if workerId info \<noteq> Some ''debug'' \<and> workerId info \<noteq> None then Some u else session_id
      | None \<Rightarrow> session_id)"

section \<open>Starting a game\<close>

text \<open>
  \<open>new_game\<close>: draw the model's objective (\<open>choice\<close>, for
  \<open>np.random.choice\<close>) into the global \<open>current_model[0]\<close>, draw a context
  (\<open>idx\<close>, for \<open>np.random.randint(0, 4085)\<close>), build the game and the
  assistant with the system prompt, and store the session. The global is written
  before anything can raise.
\<close>

definition objective_of_label :: "string \<Rightarrow> string result" where
  "objective_of_label label =
     (if label = ''original'' then Inr ''self''
      else if label = ''cooperative'' then Inr ''coop''
      else if label = ''competitive'' then Inr ''comp''
      else Inl InvalidObjective)"

definition three_items :: "int list \<Rightarrow> pydict result" where
  "three_items xs =
     ebind (list_get xs 0) (\<lambda>b. ebind (list_get xs 1) (\<lambda>h. ebind (list_get xs 2) (\<lambda>l. Inr (mk_items b h l))))"

definition build_session ::
  "string \<Rightarrow> string list \<Rightarrow> nat \<Rightarrow> (pydict \<Rightarrow> pydict \<Rightarrow> string) \<Rightarrow> session result" where
  "build_session label lines idx fmt =
     ebind (list_get lines (idx * 2)) (\<lambda>l0. ebind (parse_context l0) (\<lambda>(cnts, p0_vals).
     ebind (list_get lines (idx * 2 + 1)) (\<lambda>l1. ebind (parse_context l1) (\<lambda>(_, p1_vals).
     ebind (objective_of_label label) (\<lambda>obj.
     ebind (three_items cnts) (\<lambda>c. ebind (three_items p0_vals) (\<lambda>v0. ebind (three_items p1_vals) (\<lambda>v1.
     ebind (init_web_game (Some c) (Some v0) (Some v1) obj fmt) (\<lambda>(g, prompt).
       Inr \<lparr>sess = web_start g prompt, sess_objective = obj, model_id = ''gpt-3.5-turbo''\<rparr>)))))))))"

definition new_game ::
  "server \<Rightarrow> uid \<Rightarrow> string \<Rightarrow> string list \<Rightarrow> nat \<Rightarrow> (pydict \<Rightarrow> pydict \<Rightarrow> string) \<Rightarrow> server \<times> py_error option" where
  "new_game st user_id choice lines idx fmt =
     (let st1 = st\<lparr>current_model := choice\<rparr> in
      case build_session choice lines idx fmt of
        Inl e \<Rightarrow> (st1, Some e)
      | Inr se \<Rightarrow> (st1\<lparr>current_games := (current_games st1)(user_id \<mapsto> se)\<rparr>, None))"

text \<open>
  \<open>handle_connect\<close>: a known worker (not \<open>"debug"\<close>, not \<open>None\<close>) gets its
  old user id; otherwise the cookie's id or the fresh random one, a new user
  record (bonus and count reset), and the worker mapped to it. It returns the
  state, the cookie after the request, and the error.
\<close>

definition handle_connect ::
  "server \<Rightarrow> mturk \<Rightarrow> string option \<Rightarrow> string \<Rightarrow> string \<Rightarrow> string list \<Rightarrow> nat \<Rightarrow> (pydict \<Rightarrow> pydict \<Rightarrow> string)
     \<Rightarrow> server \<times> string option \<times> py_error option" where
  "handle_connect st info cookie fresh choice lines idx fmt =
     (let w = workerId info in
      if mturk_users st w \<noteq> None \<and> w \<noteq> Some ''debug'' \<and> w \<noteq> None then
        (let (st', e) = new_game st (mturk_users st w) choice lines idx fmt in (st', cookie, e))
      else
        (let user_id = (case cookie of Some u \<Rightarrow> u | None \<Rightarrow> fresh);
             st1 = st\<lparr>user_data := (user_data st)(Some user_id \<mapsto> \<lparr>bonus_pay = 0, num_games_completed = 0\<rparr>),
                      mturk_users := (mturk_users st)(w \<mapsto> user_id)\<rparr>;
             (st', e) = new_game st1 (Some user_id) choice lines idx fmt
         in (st', Some user_id, e)))"

section \<open>Playing\<close>

text \<open>
  The bonus of a finished game (lines 257 to 268): read from the global
  \<open>current_model[0]\<close> at the time the game ends, not from the game's own
  objective.
\<close>

definition bonus_rule :: "string \<Rightarrow> bool \<Rightarrow> int \<Rightarrow> real" where
  "bonus_rule label aborted score =
     (if aborted then 0.25
      else if score = 0 then 0.10
      else if label = ''original'' then 0.10 + of_int score * 0.20
      else if label = ''cooperative'' then 0.10 + of_int score * 0.10
      else if label = ''competitive'' then 0.10 + max (of_int score * 0.30) 0.0
      else 0.00)"

text \<open>
  The \<open>user_message\<close> handler: look the session up (\<open>KeyError\<close> when there is
  none), play the request on its game (mutated in place, so the session keeps the
  new state), and on \<open>game_over\<close> count the game, add the bonus and drop the
  session. The game counter is the first write, so a missing user record raises
  before anything else changes.
\<close>

definition handle_user_message ::
  "server \<Rightarrow> mturk \<Rightarrow> uid \<Rightarrow> (chat \<Rightarrow> string) \<Rightarrow> string \<Rightarrow> server \<times> py_error option" where
  "handle_user_message st info cookie llm user_message =
     (let user_id = update_session_id st info cookie in
      case current_games st user_id of
        None \<Rightarrow> (st, Some KeyError)
      | Some se \<Rightarrow>
          (case receive_and_respond llm (Some user_message) (sess se) of
             Inl e \<Rightarrow> (st, Some e)
           | Inr (s', r) \<Rightarrow>
               (let st1 = st\<lparr>current_games := (current_games st)(user_id \<mapsto> se\<lparr>sess := s'\<rparr>)\<rparr> in
                if \<not> reply_over r then (st1, None)
                else
                  (case user_data st1 user_id of
                     None \<Rightarrow> (st1, Some KeyError)
                   | Some ud \<Rightarrow>
                       (let b = bonus_rule (current_model st1) (abort r) (user_score r);
                            ud' = ud\<lparr>num_games_completed := Suc (num_games_completed ud),
                                     bonus_pay := bonus_pay ud + b\<rparr>
                        in (st1\<lparr>user_data := (user_data st1)(user_id \<mapsto> ud'),
                                current_games := (current_games st1)(user_id := None)\<rparr>, None))))))"

text \<open>
  \<open>initialize_game\<close>: fetch the session (\<open>KeyError\<close>), read the user record for
  the emitted header (\<open>KeyError\<close>), and on the coin flip (\<open>opens\<close>) let the
  assistant open the game. The reply's \<open>game_over\<close> is not inspected.
\<close>

definition handle_initialize_game ::
  "server \<Rightarrow> mturk \<Rightarrow> uid \<Rightarrow> (chat \<Rightarrow> string) \<Rightarrow> bool \<Rightarrow> server \<times> py_error option" where
  "handle_initialize_game st info cookie llm opens =
     (let user_id = update_session_id st info cookie in
      case current_games st user_id of
        None \<Rightarrow> (st, Some KeyError)
      | Some se \<Rightarrow>
          (case user_data st user_id of
             None \<Rightarrow> (st, Some KeyError)
           | Some _ \<Rightarrow>
               if \<not> opens then (st, None)
               else (case receive_and_respond llm None (sess se) of
                       Inl e \<Rightarrow> (st, Some e)
                     | Inr (s', r) \<Rightarrow> (st\<lparr>current_games := (current_games st)(user_id \<mapsto> se\<lparr>sess := s'\<rparr>)\<rparr>, None))))"

text \<open>\<open>keep_playing\<close>: a new game for the user, then the header read of \<open>user_data\<close>.\<close>

definition handle_keep_playing ::
  "server \<Rightarrow> mturk \<Rightarrow> uid \<Rightarrow> string \<Rightarrow> string list \<Rightarrow> nat \<Rightarrow> (pydict \<Rightarrow> pydict \<Rightarrow> string) \<Rightarrow> server \<times> py_error option" where
  "handle_keep_playing st info cookie choice lines idx fmt =
     (let user_id = update_session_id st info cookie;
          (st', e) = new_game st user_id choice lines idx fmt
      in if e \<noteq> None then (st', e)
         else if user_data st' user_id = None then (st', Some KeyError) else (st', None))"

text \<open>
  \<open>disconnect\<close>: drop the user's session, if there is one. The lookup of the
  user record inside the \<open>try\<close> raises a \<open>KeyError\<close> that is caught, and then
  the session is kept.
\<close>

definition handle_disconnect :: "server \<Rightarrow> mturk \<Rightarrow> uid \<Rightarrow> server" where
  "handle_disconnect st info cookie =
     (let user_id = update_session_id st info cookie in
      if user_id = None then st
      else if current_games st user_id = None \<or> user_data st user_id = None then st
      else st\<lparr>current_games := (current_games st)(user_id := None)\<rparr>)"

section \<open>Reachable server states\<close>

text \<open>Any sequence of socket events from any clients, with any random draws.\<close>

inductive server_reachable :: "(chat \<Rightarrow> string) \<Rightarrow> server \<Rightarrow> bool" for llm where
  init: "server_reachable llm init_server"
| connect: "server_reachable llm st \<Longrightarrow> handle_connect st info cookie fresh choice lines idx fmt = (st', c', e)
            \<Longrightarrow> server_reachable llm st'"
| keep_playing: "server_reachable llm st \<Longrightarrow> handle_keep_playing st info cookie choice lines idx fmt = (st', e)
            \<Longrightarrow> server_reachable llm st'"
| initialize: "server_reachable llm st \<Longrightarrow> handle_initialize_game st info cookie llm opens = (st', e)
            \<Longrightarrow> server_reachable llm st'"
| message: "server_reachable llm st \<Longrightarrow> handle_user_message st info cookie llm m = (st', e)
            \<Longrightarrow> server_reachable llm st'"
| disconnect: "server_reachable llm st \<Longrightarrow> server_reachable llm (handle_disconnect st info cookie)"

text \<open>Every worker the server knows is mapped to a user that has a user record.\<close>

definition workers_inv :: "server \<Rightarrow> bool" where
  "workers_inv st \<longleftrightarrow> (\<forall>w u. mturk_users st w = Some u \<longrightarrow> user_data st (Some u) \<noteq> None)"


section \<open>Reference and scenarios\<close>

text \<open>The layout of a context line: count and value of each item, space-separated.\<close>

fun interleave :: "'a list \<Rightarrow> 'a list \<Rightarrow> 'a list" where
  "interleave (x # xs) (y # ys) = x # y # interleave xs ys"
| "interleave _ _ = []"

fun space_join :: "string list \<Rightarrow> string" where
  "space_join [] = []"
| "space_join [t] = t"
| "space_join (t # ts) = t @ CHR '' '' # space_join ts"

definition format_context :: "int list \<Rightarrow> int list \<Rightarrow> string" where
  "format_context cs vs = space_join (map show_int (interleave cs vs))"

text \<open>Two workers and the first context of a two-line data file.\<close>

definition worker :: "string \<Rightarrow> mturk" where
  "worker w = \<lparr>assignmentId = None, hitId = None, turkSubmitTo = None, workerId = Some w\<rparr>"

definition race_lines :: "string list" where
  "race_lines = [''1 1 2 3 3 1'', ''1 2 2 1 3 2'']"

definition race_llm :: "chat \<Rightarrow> string" where
  "race_llm j = ''[propose] (1 books, 2 hats, 3 balls)''"

definition race_start :: server where
  "race_start = fst (handle_connect init_server (worker ''A'') None ''ua'' ''competitive'' race_lines 0 (\<lambda>c v. ''sys''))"

section \<open>Lemmas\<close>

lemma new_game_keeps:
  "new_game st u choice lines idx fmt = (st', e) \<Longrightarrow>
     user_data st' = user_data st \<and> mturk_users st' = mturk_users st"
  by (auto simp: new_game_def Let_def split: sum.splits)

lemma split_ws_acc_word:
  "\<forall>c \<in> set t. \<not> py_space c \<Longrightarrow> split_ws_acc cur (t @ s) = split_ws_acc (rev t @ cur) s"
  by (induction t arbitrary: cur) auto

lemma split_ws_space_join:
  "\<forall>t \<in> set ts. t \<noteq> [] \<and> (\<forall>c \<in> set t. \<not> py_space c) \<Longrightarrow> py_split_ws (space_join ts) = ts"
proof (induction ts rule: space_join.induct)
  case 1 then show ?case by (simp add: py_split_ws_def)
next
  case (2 t)
  then show ?case using split_ws_acc_word[of t "[]" "[]"] by (simp add: py_split_ws_def)
next
  case (3 t t' ts)
  then have "py_split_ws (space_join (t' # ts)) = t' # ts" by simp
  with 3 show ?case
    using split_ws_acc_word[of t "[]" "CHR '' '' # space_join (t' # ts)"]
    by (simp add: py_split_ws_def py_space_def)
qed

lemma evens_interleave: "length cs = length vs \<Longrightarrow> evens (interleave cs vs) = cs"
  by (induction cs vs rule: interleave.induct) auto

lemma odds_interleave: "length cs = length vs \<Longrightarrow> evens (drop 1 (interleave cs vs)) = vs"
proof (induction cs vs rule: interleave.induct)
  case (1 x xs y ys)
  then show ?case by (cases "interleave xs ys") (auto simp: evens_interleave)
qed auto

lemma evens_map: "evens (map f xs) = map f (evens xs)"
  by (induction xs rule: evens.induct) auto

lemma map_result_show_int: "map_result py_int_str (map show_int xs) = Inr xs"
  by (induction xs) (simp_all add: py_int_str_show_int)

lemma show_int_word: "show_int i \<noteq> [] \<and> (\<forall>c \<in> set (show_int i). \<not> py_space c)"
  using show_nat_facts(1) digit_not_space by (auto simp: show_int_def py_space_def)

text \<open>C33: \<open>parse_context\<close> reads back every context line written as alternating counts and values separated by spaces: the counts and values come back unchanged, negative ones included.\<close>

theorem parse_context_roundtrip:
  assumes "length cs = length vs"
  shows "parse_context (format_context cs vs) = Inr (cs, vs)"
proof -
  have "py_split_ws (format_context cs vs) = map show_int (interleave cs vs)"
    unfolding format_context_def using show_int_word by (intro split_ws_space_join) auto
  with assms odds_interleave[OF assms] show ?thesis
    by (simp add: parse_context_def Let_def evens_map drop_map evens_interleave
                  map_result_show_int)
qed


lemma workers_inv_connect:
  assumes "workers_inv st" and "handle_connect st info cookie fresh choice lines idx fmt = (st', c', e)"
  shows "workers_inv st'"
  using assms
  by (auto simp: handle_connect_def Let_def workers_inv_def split: prod.splits if_splits
           dest!: new_game_keeps)

lemma workers_inv_keep_playing:
  "workers_inv st \<Longrightarrow> handle_keep_playing st info cookie choice lines idx fmt = (st', e) \<Longrightarrow> workers_inv st'"
  by (auto simp: handle_keep_playing_def Let_def workers_inv_def split: prod.splits if_splits
           dest!: new_game_keeps)

lemma workers_inv_initialize:
  "workers_inv st \<Longrightarrow> handle_initialize_game st info cookie llm opens = (st', e) \<Longrightarrow> workers_inv st'"
  by (auto simp: handle_initialize_game_def Let_def workers_inv_def
           split: option.splits sum.splits prod.splits if_splits)

lemma workers_inv_message:
  "workers_inv st \<Longrightarrow> handle_user_message st info cookie llm m = (st', e) \<Longrightarrow> workers_inv st'"
  by (auto simp: handle_user_message_def Let_def workers_inv_def
           split: option.splits sum.splits prod.splits if_splits)

lemma workers_inv_disconnect: "workers_inv st \<Longrightarrow> workers_inv (handle_disconnect st info cookie)"
  by (auto simp: handle_disconnect_def Let_def workers_inv_def)

text \<open>C35: In every state the server reaches through any sequence of socket events, every worker id it knows is mapped to a user id that has a user record, so the user-record lookups of a returning worker cannot raise.\<close>

theorem server_workers_inv: "server_reachable llm st \<Longrightarrow> workers_inv st"
proof (induction rule: server_reachable.induct)
  case init
  then show ?case by (simp add: workers_inv_def init_server_def)
qed (blast intro: workers_inv_connect workers_inv_keep_playing workers_inv_initialize
                  workers_inv_message workers_inv_disconnect)+

lemma new_game_stores:
  "new_game st u choice lines idx fmt = (st', None) \<Longrightarrow> current_games st' u \<noteq> None"
  by (auto simp: new_game_def Let_def split: sum.splits)

text \<open>C36: A worker (other than \<open>"debug"\<close>) who connects is mapped to a user id with a user record, and every later request carrying the same worker id, from any browser and with any cookie, is routed to that user; when the game could be built, the user has a live session.\<close>

theorem worker_resumes_user:
  assumes inv: "workers_inv st" and w: "workerId info = Some w" "w \<noteq> ''debug''"
    and conn: "handle_connect st info cookie fresh choice lines idx fmt = (st', c', e)"
  shows "\<exists>u. mturk_users st' (Some w) = Some u
           \<and> (\<forall>info2 ck. workerId info2 = Some w \<longrightarrow> update_session_id st' info2 ck = Some u)
           \<and> user_data st' (Some u) \<noteq> None
           \<and> (e = None \<longrightarrow> current_games st' (Some u) \<noteq> None)"
proof (cases "mturk_users st (Some w)")
  case None
  let ?u = "case cookie of Some u \<Rightarrow> u | None \<Rightarrow> fresh"
  from conn None w obtain st1 where
    st1: "st1 = st\<lparr>user_data := (user_data st)(Some ?u \<mapsto> \<lparr>bonus_pay = 0, num_games_completed = 0\<rparr>),
                  mturk_users := (mturk_users st)(Some w \<mapsto> ?u)\<rparr>"
    and ng: "new_game st1 (Some ?u) choice lines idx fmt = (st', e)"
    by (auto simp: handle_connect_def Let_def split: prod.splits)
  from ng have "user_data st' = user_data st1 \<and> mturk_users st' = mturk_users st1" by (rule new_game_keeps)
  moreover from ng have "e = None \<longrightarrow> current_games st' (Some ?u) \<noteq> None" using new_game_stores by blast
  ultimately show ?thesis using st1 w by (auto simp: update_session_id_def)
next
  case (Some u)
  with conn w have ng: "new_game st (Some u) choice lines idx fmt = (st', e)"
    by (auto simp: handle_connect_def Let_def split: prod.splits)
  from ng have "user_data st' = user_data st \<and> mturk_users st' = mturk_users st" by (rule new_game_keeps)
  moreover from ng have "e = None \<longrightarrow> current_games st' (Some u) \<noteq> None" using new_game_stores by blast
  ultimately show ?thesis using Some w inv by (auto simp: update_session_id_def workers_inv_def)
qed

lemma bonus_rule_lower:
  "objective_of_label label = Inr obj \<Longrightarrow> (obj \<noteq> ''comp'' \<longrightarrow> 0 \<le> score) \<Longrightarrow>
     0.10 \<le> bonus_rule label aborted score"
  by (auto simp: objective_of_label_def bonus_rule_def split: if_splits)

text \<open>C37: When a request ends a game and no other session has changed the global model label since the game started, the session is dropped, the game is counted once, and the user earns at least the 0.10 base bonus (for a non-negative score under the self or cooperative objective, for any score under the competitive one).\<close>

theorem finished_game_paid:
  assumes u: "update_session_id st info cookie = u"
    and se: "current_games st u = Some se" and ud: "user_data st u = Some ud"
    and run: "receive_and_respond llm (Some m) (sess se) = Inr (s', r)" and over: "reply_over r"
    and label: "objective_of_label (current_model st) = Inr (sess_objective se)"
    and score: "sess_objective se \<noteq> ''comp'' \<longrightarrow> 0 \<le> user_score r"
  shows "\<exists>st' ud'. handle_user_message st info cookie llm m = (st', None)
           \<and> current_games st' u = None \<and> user_data st' u = Some ud'
           \<and> num_games_completed ud' = Suc (num_games_completed ud)
           \<and> bonus_pay ud + 0.10 \<le> bonus_pay ud'"
  using u se ud run over bonus_rule_lower[OF label score, of "abort r"]
  by (auto simp: handle_user_message_def Let_def)

text \<open>C34: The bonus of a finished game is computed from the process-wide \<open>current_model\<close> at the time the game ends, not from the session's own objective: whenever a request ends a game with a negative score while the global label reads \<open>"original"\<close> (as it does after another user starts an original game during a competitive one), the game is counted and the user is charged the original rate, so the bonus total decreases.\<close>

theorem race_negative_bonus:
  assumes u: "update_session_id st info cookie = u"
    and se: "current_games st u = Some se" and ud: "user_data st u = Some ud"
    and run: "receive_and_respond llm (Some m) (sess se) = Inr (s', r)"
    and over: "reply_over r" and noab: "\<not> abort r" and neg: "user_score r < 0"
    and label: "current_model st = ''original''"
  shows "\<exists>st' ud'. handle_user_message st info cookie llm m = (st', None) \<and> user_data st' u = Some ud'
           \<and> num_games_completed ud' = Suc (num_games_completed ud)
           \<and> bonus_pay ud' = bonus_pay ud + 0.10 + of_int (user_score r) * 0.20
           \<and> bonus_pay ud' < bonus_pay ud"
proof -
  have "of_int (user_score r) \<le> (-1::real)" using neg by simp
  then have "0.10 + of_int (user_score r) * 0.20 < (0::real)" by (simp add: field_simps)
  moreover have "bonus_rule (current_model st) (abort r) (user_score r) = 0.10 + of_int (user_score r) * 0.20"
    using label noab neg by (simp add: bonus_rule_def)
  ultimately show ?thesis
    using u se ud run over by (auto simp: handle_user_message_def Let_def)
qed

theorem parse_context_roundtrip_witness:
  "parse_context (format_context [1, 2, 3] [4, -5, 6]) = Inr ([1, 2, 3], [4, -5, 6])"
  using parse_context_roundtrip[of "[1, 2, 3]" "[4, -5, 6]"] by simp

theorem server_workers_inv_witness:
  "server_reachable race_llm
     (fst (handle_connect init_server (worker ''A'') None ''ua'' ''competitive'' race_lines 0 (\<lambda>c v. ''sys'')))
   \<and> workers_inv (fst (handle_connect init_server (worker ''A'') None ''ua'' ''competitive'' race_lines 0 (\<lambda>c v. ''sys'')))"
proof -
  obtain st' c' e where c: "handle_connect init_server (worker ''A'') None ''ua'' ''competitive'' race_lines 0 (\<lambda>c v. ''sys'') = (st', c', e)"
    by (cases "handle_connect init_server (worker ''A'') None ''ua'' ''competitive'' race_lines 0 (\<lambda>c v. ''sys'')") auto
  have r: "server_reachable race_llm st'" by (rule server_reachable.connect[OF server_reachable.init c])
  from server_workers_inv[OF r] r c show ?thesis by simp
qed

theorem worker_resumes_user_witness:
  "\<exists>u. mturk_users (fst (handle_connect init_server (worker ''A'') None ''ua'' ''competitive'' race_lines 0 (\<lambda>c v. ''sys''))) (Some ''A'') = Some u
     \<and> update_session_id (fst (handle_connect init_server (worker ''A'') None ''ua'' ''competitive'' race_lines 0 (\<lambda>c v. ''sys'')))
          (worker ''A'') (Some ''other'') = Some u"
proof -
  have inv: "workers_inv init_server" by (simp add: workers_inv_def init_server_def)
  have w: "workerId (worker ''A'') = Some ''A''" "''A'' \<noteq> ''debug''" by (simp_all add: worker_def)
  obtain st' c' e where c: "handle_connect init_server (worker ''A'') None ''ua'' ''competitive'' race_lines 0 (\<lambda>c v. ''sys'') = (st', c', e)"
    by (cases "handle_connect init_server (worker ''A'') None ''ua'' ''competitive'' race_lines 0 (\<lambda>c v. ''sys'')") auto
  from worker_resumes_user[OF inv w c] c w show ?thesis by auto
qed

theorem finished_game_paid_witness:
  "\<exists>st' ud'. handle_user_message race_start (worker ''A'') (Some ''ua'') race_llm ''[propose] (0 books, 0 hats, 0 balls)'' = (st', None)
     \<and> current_games st' (Some ''ua'') = None \<and> user_data st' (Some ''ua'') = Some ud'
     \<and> num_games_completed ud' = Suc (num_games_completed (the (user_data race_start (Some ''ua''))))
     \<and> bonus_pay (the (user_data race_start (Some ''ua''))) + 0.10 \<le> bonus_pay ud'"
proof -
  let ?se = "the (current_games race_start (Some ''ua''))"
  let ?R = "projr (receive_and_respond race_llm (Some ''[propose] (0 books, 0 hats, 0 balls)'') (sess ?se))"
  have u: "update_session_id race_start (worker ''A'') (Some ''ua'') = Some ''ua''" by code_simp
  have se: "current_games race_start (Some ''ua'') = Some ?se" by code_simp
  have ud: "user_data race_start (Some ''ua'') = Some (the (user_data race_start (Some ''ua'')))" by code_simp
  have run: "receive_and_respond race_llm (Some ''[propose] (0 books, 0 hats, 0 balls)'') (sess ?se) = Inr (fst ?R, snd ?R)"
    by code_simp
  have over: "reply_over (snd ?R)" by code_simp
  have label: "objective_of_label (current_model race_start) = Inr (sess_objective ?se)" by code_simp
  have score: "sess_objective ?se \<noteq> ''comp'' \<longrightarrow> 0 \<le> user_score (snd ?R)" by code_simp
  from finished_game_paid[OF u se ud run over label score] show ?thesis .
qed

theorem race_negative_bonus_witness:
  "let (st1, _, _) = handle_connect init_server (worker ''A'') None ''ua'' ''competitive'' race_lines 0 (\<lambda>c v. ''sys'');
       (st2, _, _) = handle_connect st1 (worker ''B'') None ''ub'' ''original'' race_lines 0 (\<lambda>c v. ''sys'')
   in map_option sess_objective (current_games st2 (Some ''ua'')) = Some ''comp''
      \<and> (\<exists>st3 ud ud'. handle_user_message st2 (worker ''A'') (Some ''ua'') race_llm ''[propose] (0 books, 0 hats, 0 balls)''
             = (st3, None)
           \<and> user_data st2 (Some ''ua'') = Some ud \<and> user_data st3 (Some ''ua'') = Some ud'
           \<and> bonus_pay ud' < bonus_pay ud)"
proof -
  obtain st1 c1 e1 where c1: "handle_connect init_server (worker ''A'') None ''ua'' ''competitive'' race_lines 0 (\<lambda>c v. ''sys'') = (st1, c1, e1)"
    by (cases "handle_connect init_server (worker ''A'') None ''ua'' ''competitive'' race_lines 0 (\<lambda>c v. ''sys'')") auto
  obtain st2 c2 e2 where c2: "handle_connect st1 (worker ''B'') None ''ub'' ''original'' race_lines 0 (\<lambda>c v. ''sys'') = (st2, c2, e2)"
    by (cases "handle_connect st1 (worker ''B'') None ''ub'' ''original'' race_lines 0 (\<lambda>c v. ''sys'')") auto
  have "let (st1, _, _) = handle_connect init_server (worker ''A'') None ''ua'' ''competitive'' race_lines 0 (\<lambda>c v. ''sys'');
             (st2, _, _) = handle_connect st1 (worker ''B'') None ''ub'' ''original'' race_lines 0 (\<lambda>c v. ''sys'')
         in update_session_id st2 (worker ''A'') (Some ''ua'') = Some ''ua''
    \<and> current_model st2 = ''original''
    \<and> (case current_games st2 (Some ''ua'') of None \<Rightarrow> False | Some se \<Rightarrow>
         sess_objective se = ''comp'' \<and>
         (case user_data st2 (Some ''ua'') of None \<Rightarrow> False | Some ud \<Rightarrow>
           (case receive_and_respond race_llm (Some ''[propose] (0 books, 0 hats, 0 balls)'') (sess se) of
              Inl _ \<Rightarrow> False | Inr (s', r) \<Rightarrow> reply_over r \<and> \<not> abort r \<and> user_score r < 0)))"
    unfolding race_lines_def race_llm_def worker_def by code_simp
  then have facts: "update_session_id st2 (worker ''A'') (Some ''ua'') = Some ''ua''
    \<and> current_model st2 = ''original''
    \<and> (case current_games st2 (Some ''ua'') of None \<Rightarrow> False | Some se \<Rightarrow>
         sess_objective se = ''comp'' \<and>
         (case user_data st2 (Some ''ua'') of None \<Rightarrow> False | Some ud \<Rightarrow>
           (case receive_and_respond race_llm (Some ''[propose] (0 books, 0 hats, 0 balls)'') (sess se) of
              Inl _ \<Rightarrow> False | Inr (s', r) \<Rightarrow> reply_over r \<and> \<not> abort r \<and> user_score r < 0)))"
    using c1 c2 by simp
  then obtain se ud s' r where u: "update_session_id st2 (worker ''A'') (Some ''ua'') = Some ''ua''"
    and l: "current_model st2 = ''original''"
    and se: "current_games st2 (Some ''ua'') = Some se" and ob: "sess_objective se = ''comp''"
    and ud: "user_data st2 (Some ''ua'') = Some ud"
    and run: "receive_and_respond race_llm (Some ''[propose] (0 books, 0 hats, 0 balls)'') (sess se) = Inr (s', r)"
    and r: "reply_over r" "\<not> abort r" "user_score r < 0"
    by (auto split: option.splits sum.splits)
  from race_negative_bonus[OF u se ud run r l] se ob ud c1 c2 show ?thesis by auto
qed

end
