(* ===== verification/Pareto.thy ===== *)
theory Pareto
  imports Scoring
begin

text \<open>
  The Pareto-optimality checker: \<open>utils.isParetoOptimal\<close> (used by
  \<open>analysis.analyze\<close>), the older method \<open>NegotiationGame.isParetoOptimal\<close>
  of \<open>src/games/negotiation.py\<close> (copied into the web game), and
  \<open>utils.calculate_maximum_collective_score\<close>. All three enumerate the allocation
  lattice with three nested \<open>range\<close> loops.
\<close>

section \<open>The allocation lattice\<close>

text \<open>
  \<open>for i in range(cnts[kb] + 1): for j in range(cnts[kh] + 1): for k in range(cnts[kl] + 1)\<close>,
  collecting \<open>{kb: i, kh: j, kl: k}\<close>. A count is read the first time its loop is
  entered, so a negative outer count leaves the inner keys unread.
\<close>

definition lattice :: "string \<Rightarrow> string \<Rightarrow> string \<Rightarrow> pydict \<Rightarrow> pydict list result" where
  "lattice kb kh kl cnts =
     ebind (dict_get cnts kb) (\<lambda>nb. if nb < 0 then Inr [] else
     ebind (dict_get cnts kh) (\<lambda>nh. if nh < 0 then Inr [] else
     ebind (dict_get cnts kl) (\<lambda>nl.
       Inr [[(kb, i), (kh, j), (kl, k)]. i \<leftarrow> [0..nb], j \<leftarrow> [0..nh], k \<leftarrow> [0..nl]])))"

abbreviation allocations :: "pydict \<Rightarrow> pydict list result" where
  "allocations cnts \<equiv> lattice ''book'' ''hat'' ''ball'' cnts"

text \<open>\<open>{k: cnts[k] - p0_cnts[k] for k in p0_cnts.keys()}\<close>.\<close>

fun dict_sub :: "pydict \<Rightarrow> pydict \<Rightarrow> pydict result" where
  "dict_sub cnts [] = Inr []"
| "dict_sub cnts ((k, v) # rest) =
     ebind (dict_get cnts k) (\<lambda>c. ebind (dict_sub cnts rest) (\<lambda>r. Inr ((k, c - v) # r)))"

text \<open>\<open>isAsGood and isBetter\<close>: the candidate weakly improves both and strictly one.\<close>

definition dominates :: "int \<times> int \<Rightarrow> int \<times> int \<Rightarrow> bool" where
  "dominates n s \<longleftrightarrow> (fst n \<ge> fst s \<and> snd n \<ge> snd s) \<and> (fst n > fst s \<or> snd n > snd s)"

section \<open>utils.isParetoOptimal\<close>

definition candidate_scores ::
  "pydict \<Rightarrow> pydict \<Rightarrow> pydict \<Rightarrow> string \<Rightarrow> pydict \<Rightarrow> (int \<times> int) result" where
  "candidate_scores cnts v0 v1 obj alloc =
     ebind (dict_sub cnts alloc) (\<lambda>c1.
     ebind (calculateFinalScore v0 alloc v1 c1 obj) (\<lambda>n0.
     ebind (calculateFinalScore v1 c1 v0 alloc obj) (\<lambda>n1. Inr (n0, n1))))"

fun pareto_scan ::
  "pydict \<Rightarrow> pydict \<Rightarrow> pydict \<Rightarrow> string \<Rightarrow> int \<times> int \<Rightarrow> pydict list \<Rightarrow> bool result" where
  "pareto_scan cnts v0 v1 obj s [] = Inr True"
| "pareto_scan cnts v0 v1 obj s (a # as) =
     ebind (candidate_scores cnts v0 v1 obj a) (\<lambda>n.
       if dominates n s then Inr False else pareto_scan cnts v0 v1 obj s as)"

definition isParetoOptimal ::
  "int \<Rightarrow> int \<Rightarrow> pydict \<Rightarrow> pydict \<Rightarrow> pydict \<Rightarrow> string \<Rightarrow> bool result" where
  "isParetoOptimal p0_score p1_score cnts v0 v1 obj =
     (if obj \<notin> {''self'', ''coop'', ''comp''} then Inl AssertionError
      else ebind (allocations cnts) (pareto_scan cnts v0 v1 obj (p0_score, p1_score)))"

section \<open>NegotiationGame.isParetoOptimal\<close>

text \<open>
  The method computes the realised utilities from its arguments but scores every
  candidate with \<open>self.player_values[0]\<close> for both players, on player 0's share,
  and its \<open>isBetter\<close> test compares \<open>p1_new_utility > p1_new_utility\<close>.
\<close>

fun game_pareto_scan :: "pydict \<Rightarrow> pydict \<Rightarrow> int \<Rightarrow> int \<Rightarrow> pydict list \<Rightarrow> bool result" where
  "game_pareto_scan counts pv0 cur1 cur2 [] = Inr True"
| "game_pareto_scan counts pv0 cur1 cur2 (a # as) =
     ebind (dict_sub counts a) (\<lambda>_.
       let n1 = calculateScore pv0 a; n2 = calculateScore pv0 a;
           as_good = (n1 \<ge> cur1 \<and> n2 \<ge> cur2); better = (n1 > n1 \<or> n2 > cur2)
       in if as_good \<and> better then Inr False else game_pareto_scan counts pv0 cur1 cur2 as)"

definition game_isParetoOptimal ::
  "pydict \<Rightarrow> pydict list \<Rightarrow> pydict \<Rightarrow> pydict \<Rightarrow> pydict \<Rightarrow> pydict \<Rightarrow> bool result" where
  "game_isParetoOptimal counts pvals v1 v2 c1 c2 =
     ebind (allocations counts) (\<lambda>allocs.
       game_pareto_scan counts (pvals ! 0) (calculateScore v1 c1) (calculateScore v2 c2) allocs)"

section \<open>utils.calculate_maximum_collective_score\<close>

text \<open>It indexes the counts with the plural keys \<open>"books"\<close>, \<open>"hats"\<close>, \<open>"balls"\<close>.\<close>

fun best_combined :: "pydict \<Rightarrow> pydict \<Rightarrow> pydict \<Rightarrow> int \<Rightarrow> pydict list \<Rightarrow> int result" where
  "best_combined cnts v0 v1 best [] = Inr best"
| "best_combined cnts v0 v1 best (a # as) =
     ebind (dict_sub cnts a) (\<lambda>c1.
       best_combined cnts v0 v1 (max best (calculateScore v0 a + calculateScore v1 c1)) as)"

definition calculate_maximum_collective_score ::
  "pydict \<Rightarrow> pydict \<Rightarrow> pydict \<Rightarrow> string \<Rightarrow> real result" where
  "calculate_maximum_collective_score cnts v0 v1 obj =
     ebind (lattice ''books'' ''hats'' ''balls'' cnts) (\<lambda>allocs.
     ebind (best_combined cnts v0 v1 0 allocs) (\<lambda>best.
       if obj = ''self'' then Inr (real_of_int best / 2)
       else if obj = ''coop'' then Inr (real_of_int best)
       else Inl InvalidObjective))"

section \<open>Reference semantics\<close>

text \<open>
  The spec's Pareto test: no point of the lattice, with player 1 taking the
  remainder, gives final scores that are at least the realised ones for both
  players and strictly more for one.
\<close>

definition split_scores :: "objective \<Rightarrow> pydict \<Rightarrow> pydict \<Rightarrow> int \<Rightarrow> int \<Rightarrow> int \<Rightarrow> int \<Rightarrow> int \<Rightarrow> int \<Rightarrow> int \<times> int" where
  "split_scores obj v0 v1 nb nh nl i j k =
     spec_final obj (calculateScore v0 (mk_items i j k))
                    (calculateScore v1 (mk_items (nb - i) (nh - j) (nl - k)))"

definition pareto_spec ::
  "objective \<Rightarrow> int \<Rightarrow> int \<Rightarrow> int \<Rightarrow> pydict \<Rightarrow> pydict \<Rightarrow> int \<times> int \<Rightarrow> bool" where
  "pareto_spec obj nb nh nl v0 v1 s \<longleftrightarrow>
     \<not> (\<exists>i \<in> {0..nb}. \<exists>j \<in> {0..nh}. \<exists>k \<in> {0..nl}.
          (case split_scores obj v0 v1 nb nh nl i j k of (n0, n1) \<Rightarrow>
             fst s \<le> n0 \<and> snd s \<le> n1 \<and> (fst s < n0 \<or> snd s < n1)))"

definition joint_score :: "pydict \<Rightarrow> pydict \<Rightarrow> int \<Rightarrow> int \<Rightarrow> int \<Rightarrow> int \<Rightarrow> int \<Rightarrow> int \<Rightarrow> int" where
  "joint_score v0 v1 nb nh nl i j k =
     calculateScore v0 (mk_items i j k) + calculateScore v1 (mk_items (nb - i) (nh - j) (nl - k))"

section \<open>Lemmas\<close>

lemma comprehension_product:
  "[mk_items i j k. i \<leftarrow> xs, j \<leftarrow> ys, k \<leftarrow> zs] =
     map (\<lambda>((i, j), k). mk_items i j k) (List.product (List.product xs ys) zs)"
  by (induction xs) (simp_all add: product_concat_map map_concat comp_def)

lemma lattice_items:
  "allocations (mk_items nb nh nl) = Inr [mk_items i j k. i \<leftarrow> [0..nb], j \<leftarrow> [0..nh], k \<leftarrow> [0..nl]]"
  by (auto simp: lattice_def mk_items_def dict_get_def)

lemma mk_items_inj: "inj (\<lambda>((i, j), k). mk_items i j k)"
  by (auto simp: inj_def)

text \<open>The three nested loops enumerate every allocation of the item lattice exactly once, \<open>(b+1)(h+1)(l+1)\<close> of them, and raise no error on the game's counts.\<close>

theorem allocations_enumerate:
  "\<exists>L. allocations (mk_items nb nh nl) = Inr L
     \<and> set L = {mk_items i j k | i j k. 0 \<le> i \<and> i \<le> nb \<and> 0 \<le> j \<and> j \<le> nh \<and> 0 \<le> k \<and> k \<le> nl}
     \<and> distinct L \<and> length L = nat (nb + 1) * nat (nh + 1) * nat (nl + 1)"
proof -
  let ?L = "map (\<lambda>((i, j), k). mk_items i j k) (List.product (List.product [0..nb] [0..nh]) [0..nl])"
  have "allocations (mk_items nb nh nl) = Inr ?L"
    by (simp add: lattice_items comprehension_product)
  moreover have "set ?L = {mk_items i j k | i j k. 0 \<le> i \<and> i \<le> nb \<and> 0 \<le> j \<and> j \<le> nh \<and> 0 \<le> k \<and> k \<le> nl}"
    by (auto simp: image_iff)
  moreover have "distinct ?L"
    by (simp add: distinct_map distinct_product inj_on_def mk_items_inj[unfolded inj_def])
  moreover have "length ?L = nat (nb + 1) * nat (nh + 1) * nat (nl + 1)"
    by simp
  ultimately show ?thesis by blast
qed

lemma pareto_spec_dominates:
  "pareto_spec obj nb nh nl v0 v1 s \<longleftrightarrow>
     \<not> (\<exists>i \<in> {0..nb}. \<exists>j \<in> {0..nh}. \<exists>k \<in> {0..nl}. dominates (split_scores obj v0 v1 nb nh nl i j k) s)"
  by (simp add: pareto_spec_def dominates_def case_prod_beta)

lemma dict_sub_items [simp]:
  "dict_sub (mk_items nb nh nl) (mk_items i j k) = Inr (mk_items (nb - i) (nh - j) (nl - k))"
  by (simp add: mk_items_def dict_get_def)

lemma candidate_scores_items:
  assumes "objective_of_string obj = Inr ob"
  shows "candidate_scores (mk_items nb nh nl) v0 v1 obj (mk_items i j k) =
           Inr (split_scores ob v0 v1 nb nh nl i j k)"
  using assms by (cases ob) (auto simp: candidate_scores_def split_scores_def calculateFinalScore_def objective_of_string_Inr)

lemma pareto_scan_correct:
  assumes "\<forall>a \<in> set as. candidate_scores cnts v0 v1 obj a = Inr (f a)"
  shows "pareto_scan cnts v0 v1 obj s as = Inr (\<not> (\<exists>a \<in> set as. dominates (f a) s))"
  using assms by (induction as) auto

lemma isParetoOptimal_spec:
  assumes "objective_of_string obj = Inr ob"
  shows "isParetoOptimal s0 s1 (mk_items nb nh nl) v0 v1 obj = Inr (pareto_spec ob nb nh nl v0 v1 (s0, s1))"
proof -
  let ?L = "[mk_items i j k. i \<leftarrow> [0..nb], j \<leftarrow> [0..nh], k \<leftarrow> [0..nl]]"
  have valid: "obj \<in> {''self'', ''coop'', ''comp''}"
    using assms by (auto simp: objective_of_string_Inr)
  have "\<forall>a \<in> set ?L. candidate_scores (mk_items nb nh nl) v0 v1 obj a =
          Inr ((\<lambda>a. split_scores ob v0 v1 nb nh nl (snd (a ! 0)) (snd (a ! 1)) (snd (a ! 2))) a)"
    using assms by (auto simp: candidate_scores_items)
  then have "pareto_scan (mk_items nb nh nl) v0 v1 obj (s0, s1) ?L =
     Inr (\<not> (\<exists>a \<in> set ?L. dominates (split_scores ob v0 v1 nb nh nl (snd (a ! 0)) (snd (a ! 1)) (snd (a ! 2))) (s0, s1)))"
    by (rule pareto_scan_correct)
  also have "(\<exists>a \<in> set ?L. dominates (split_scores ob v0 v1 nb nh nl (snd (a ! 0)) (snd (a ! 1)) (snd (a ! 2))) (s0, s1))
      \<longleftrightarrow> \<not> pareto_spec ob nb nh nl v0 v1 (s0, s1)"
    by (auto simp: pareto_spec_dominates mk_items_def)
  finally show ?thesis using valid by (simp add: isParetoOptimal_def lattice_items)
qed

text \<open>C18: For a valid objective string and the game's counts, \<open>utils.isParetoOptimal\<close> returns exactly the spec's verdict: no allocation of the lattice, with player 1 taking the remainder, gives final scores that weakly improve both players and strictly improve one.\<close>

theorem isParetoOptimal_correct:
  assumes "objective_of_string obj = Inr ob"
  shows "isParetoOptimal s0 s1 (mk_items nb nh nl) v0 v1 obj = Inr (pareto_spec ob nb nh nl v0 v1 (s0, s1))"
  using assms by (rule isParetoOptimal_spec)

theorem isParetoOptimal_correct_witness:
  "objective_of_string ''self'' = Inr Self
   \<and> isParetoOptimal 6 8 (mk_items 1 2 3) (mk_items 1 3 1) (mk_items 2 1 2) ''self''
       = Inr (pareto_spec Self 1 2 3 (mk_items 1 3 1) (mk_items 2 1 2) (6, 8))"
proof -
  have ob: "objective_of_string ''self'' = Inr Self" by (simp add: objective_of_string_def)
  from isParetoOptimal_correct[OF ob, of 6 8 1 2 3 "mk_items 1 3 1" "mk_items 2 1 2"] ob
  show ?thesis by simp
qed

lemma split_scores_self_coop:
  "ob \<noteq> Comp \<Longrightarrow> dominates (split_scores ob v0 v1 nb nh nl i' j' k') (split_scores ob v0 v1 nb nh nl i j k) \<Longrightarrow>
     joint_score v0 v1 nb nh nl i j k < joint_score v0 v1 nb nh nl i' j' k'"
  by (cases ob) (auto simp: dominates_def split_scores_def joint_score_def)

text \<open>Under the self-interested or cooperative objective, an allocation that maximises the sum of the two raw scores over the lattice is reported Pareto-optimal.\<close>

theorem sum_maximiser_pareto_optimal:
  assumes obj: "objective_of_string obj = Inr ob" "ob \<noteq> Comp"
    and box: "0 \<le> i \<and> i \<le> nb \<and> 0 \<le> j \<and> j \<le> nh \<and> 0 \<le> k \<and> k \<le> nl"
    and max: "\<forall>i' j' k'. 0 \<le> i' \<and> i' \<le> nb \<and> 0 \<le> j' \<and> j' \<le> nh \<and> 0 \<le> k' \<and> k' \<le> nl \<longrightarrow>
                joint_score v0 v1 nb nh nl i' j' k' \<le> joint_score v0 v1 nb nh nl i j k"
  shows "isParetoOptimal (fst (split_scores ob v0 v1 nb nh nl i j k)) (snd (split_scores ob v0 v1 nb nh nl i j k))
           (mk_items nb nh nl) v0 v1 obj = Inr True"
proof -
  have "pareto_spec ob nb nh nl v0 v1 (split_scores ob v0 v1 nb nh nl i j k)"
    unfolding pareto_spec_dominates
  proof clarify
    fix i' j' k'
    assume "i' \<in> {0..nb}" "j' \<in> {0..nh}" "k' \<in> {0..nl}"
      and d: "dominates (split_scores ob v0 v1 nb nh nl i' j' k') (split_scores ob v0 v1 nb nh nl i j k)"
    from d obj(2) have "joint_score v0 v1 nb nh nl i j k < joint_score v0 v1 nb nh nl i' j' k'"
      by (rule split_scores_self_coop[rotated])
    moreover from \<open>i' \<in> {0..nb}\<close> \<open>j' \<in> {0..nh}\<close> \<open>k' \<in> {0..nl}\<close> max
    have "joint_score v0 v1 nb nh nl i' j' k' \<le> joint_score v0 v1 nb nh nl i j k" by auto
    ultimately show False by simp
  qed
  then show ?thesis using isParetoOptimal_spec[OF obj(1)] by simp
qed

theorem sum_maximiser_pareto_optimal_witness:
  "isParetoOptimal 6 8 (mk_items 1 2 3) (mk_items 1 3 1) (mk_items 2 1 2) ''self'' = Inr True"
proof -
  have ob: "objective_of_string ''self'' = Inr Self" by (simp add: objective_of_string_def)
  have box: "0 \<le> (0::int) \<and> (0::int) \<le> 1 \<and> 0 \<le> (2::int) \<and> (2::int) \<le> 2 \<and> 0 \<le> (0::int) \<and> (0::int) \<le> 3"
    by simp
  have max: "\<forall>i' j' k'. 0 \<le> i' \<and> i' \<le> 1 \<and> 0 \<le> j' \<and> j' \<le> 2 \<and> 0 \<le> k' \<and> k' \<le> 3 \<longrightarrow>
        joint_score (mk_items 1 3 1) (mk_items 2 1 2) 1 2 3 i' j' k'
          \<le> joint_score (mk_items 1 3 1) (mk_items 2 1 2) 1 2 3 0 2 0"
    by (auto simp: joint_score_def)
  have "split_scores Self (mk_items 1 3 1) (mk_items 2 1 2) 1 2 3 0 2 0 = (6, 8)"
    by (simp add: split_scores_def)
  with sum_maximiser_pareto_optimal[OF ob _ box max] show ?thesis by simp
qed

text \<open>Under the competitive objective every zero-sum outcome, including the (0, 0) of a failed deal, is reported Pareto-optimal: the test cannot distinguish outcomes there.\<close>

theorem competitive_always_pareto_optimal:
  "isParetoOptimal x (- x) (mk_items nb nh nl) v0 v1 ''comp'' = Inr True"
proof -
  have "objective_of_string ''comp'' = Inr Comp" by (simp add: objective_of_string_def)
  moreover have "pareto_spec Comp nb nh nl v0 v1 (x, - x)"
    by (auto simp: pareto_spec_dominates dominates_def split_scores_def)
  ultimately show ?thesis using isParetoOptimal_spec by simp
qed

lemma game_pareto_scan_correct:
  assumes "\<forall>a \<in> set as. \<exists>r. dict_sub counts a = Inr r"
  shows "game_pareto_scan counts pv0 cur1 cur2 as =
           Inr (\<not> (\<exists>a \<in> set as. cur1 \<le> calculateScore pv0 a \<and> cur2 < calculateScore pv0 a))"
  using assms by (induction as) (auto simp: Let_def)

text \<open>C23: The method \<open>NegotiationGame.isParetoOptimal\<close> scores every candidate allocation with player 0's values for both players, on player 0's share, and its strictness test compares a utility with itself: for every game its verdict only asks whether some allocation gives player 0's valuation at least the first realised utility and more than the second, whatever player 1's values are.\<close>

theorem game_isParetoOptimal_player0_only:
  "game_isParetoOptimal (mk_items nb nh nl) pvals v1 v2 c1 c2 =
     Inr (\<not> (\<exists>i \<in> {0..nb}. \<exists>j \<in> {0..nh}. \<exists>k \<in> {0..nl}.
            calculateScore v1 c1 \<le> calculateScore (pvals ! 0) (mk_items i j k)
          \<and> calculateScore v2 c2 < calculateScore (pvals ! 0) (mk_items i j k)))"
proof -
  let ?L = "[mk_items i j k. i \<leftarrow> [0..nb], j \<leftarrow> [0..nh], k \<leftarrow> [0..nl]]"
  have "\<forall>a \<in> set ?L. \<exists>r. dict_sub (mk_items nb nh nl) a = Inr r" by auto
  then have "game_pareto_scan (mk_items nb nh nl) (pvals ! 0) (calculateScore v1 c1) (calculateScore v2 c2) ?L =
      Inr (\<not> (\<exists>a \<in> set ?L. calculateScore v1 c1 \<le> calculateScore (pvals ! 0) a
                             \<and> calculateScore v2 c2 < calculateScore (pvals ! 0) a))"
    by (rule game_pareto_scan_correct)
  then show ?thesis by (auto simp: game_isParetoOptimal_def lattice_items)
qed

text \<open>\<open>calculate_maximum_collective_score\<close> indexes the counts with plural keys, so on every game's counts dictionary it raises \<open>KeyError\<close>.\<close>

theorem max_collective_score_key_error:
  "calculate_maximum_collective_score (mk_items nb nh nl) v0 v1 obj = Inl KeyError"
  by (simp add: calculate_maximum_collective_score_def lattice_def mk_items_def dict_get_def)


lemma best_combined_Inr:
  "\<forall>a \<in> set as. \<exists>c. dict_sub cnts a = Inr c \<Longrightarrow>
   \<exists>v. best_combined cnts v0 v1 best as = Inr v"
proof (induction as arbitrary: best)
  case Nil
  then show ?case by simp
next
  case (Cons a as)
  then obtain c1 where "dict_sub cnts a = Inr c1" by auto
  with Cons show ?case by simp
qed

lemma max_collective_plural:
  "0 \<le> b \<Longrightarrow> 0 \<le> h \<Longrightarrow>
   \<exists>v. calculate_maximum_collective_score [(''books'', b), (''hats'', h), (''balls'', l)] v0 v1 ''coop'' = Inr v"
proof -
  assume "0 \<le> b" "0 \<le> h"
  moreover have "\<exists>v. best_combined [(''books'', b), (''hats'', h), (''balls'', l)] v0 v1 0
      [[(''books'', i), (''hats'', j), (''balls'', k)]. i \<leftarrow> [0..b], j \<leftarrow> [0..h], k \<leftarrow> [0..l]] = Inr v"
    by (rule best_combined_Inr) (auto simp: dict_get_def)
  ultimately show ?thesis
    by (auto simp: calculate_maximum_collective_score_def lattice_def dict_get_def)
qed

theorem game_isParetoOptimal_player0_only_witness:
  "game_isParetoOptimal (mk_items 1 2 3) [mk_items 1 3 1, mk_items 2 1 2]
       (mk_items 1 3 1) (mk_items 2 1 2) (mk_items 0 2 0) (mk_items 1 0 3) = Inr False"
proof -
  have "\<exists>i \<in> {0..1}. \<exists>j \<in> {0..2}. \<exists>k \<in> {0..3}.
          calculateScore (mk_items 1 3 1) (mk_items 0 2 0) \<le> calculateScore (mk_items 1 3 1) (mk_items i j k)
        \<and> calculateScore (mk_items 2 1 2) (mk_items 1 0 3) < calculateScore (mk_items 1 3 1) (mk_items (i::int) j k)"
    by (rule bexI[of _ 1], rule bexI[of _ 2], rule bexI[of _ 3]) (simp_all add: mk_items_def)
  with game_isParetoOptimal_player0_only[of 1 2 3 "[mk_items 1 3 1, mk_items 2 1 2]"
         "mk_items 1 3 1" "mk_items 2 1 2" "mk_items 0 2 0" "mk_items 1 0 3"]
  show ?thesis by simp
qed

end
