(* ===== verification/Analysis.thy ===== *)
theory Analysis
  imports Pareto
begin

text \<open>
  The offline statistics of \<open>src/analysis.py\<close>: \<open>analyze\<close> reads the two score
  files of an iteration, the per-game results JSON and full text log (both named
  by the three-character index \<open>("000" + str(i))[-3:]\<close> that
  \<open>play.simulate_trials\<close> also uses), and computes the total, agreement and
  above-average statistics, among them the share of Pareto-optimal games by
  \<open>utils.isParetoOptimal\<close>. The file system is a pair of lookups from file
  names to contents (a missing file raises \<open>OSError\<close>), the directory listing
  is a list of names, and printing is not modelled. \<open>np.mean\<close> and
  \<open>np.median\<close> of an empty list are \<open>nan\<close>, here \<open>None\<close>. The theory also
  holds \<open>calculate_avg_score\<close> and the context readers \<open>parse_game_context\<close>
  and \<open>generate_game_contexts\<close>.
\<close>

section \<open>File names\<close>

definition index_name :: "nat \<Rightarrow> string" where
  "index_name i = (let s = ''000'' @ show_nat i in drop (length s - 3) s)"

section \<open>Numeric helpers\<close>

definition py_mean :: "int list \<Rightarrow> real option" where
  "py_mean xs = (if xs = [] then None else Some (of_int (sum_list xs) / of_nat (length xs)))"

definition py_median :: "int list \<Rightarrow> real option" where
  "py_median xs =
     (let ys = sort xs; n = length ys in
      if n = 0 then None
      else if odd n then Some (of_int (ys ! (n div 2)))
      else Some ((of_int (ys ! (n div 2 - 1)) + of_int (ys ! (n div 2))) / 2))"

text \<open>
  \<open>calculate_avg_score(dir_path, filter_zeros)\<close> of \<open>analysis.py\<close> (the
  \<open>utils.py\<close> function of the same name is \<open>Utils.calculate_avg_score\<close>): the
  mean of both score files, only over positive scores when \<open>filter_zeros\<close>.
\<close>

definition calculate_avg_score_analysis :: "string list \<Rightarrow> string list \<Rightarrow> bool \<Rightarrow> real option result" where
  "calculate_avg_score_analysis p0_lines p1_lines filter_zeros =
     ebind (map_result py_int_str p0_lines) (\<lambda>p0_array.
     ebind (map_result py_int_str p1_lines) (\<lambda>p1_array.
       let full_scores = p0_array @ p1_array in
       Inr (if filter_zeros then py_mean (filter (\<lambda>x. x > 0) full_scores) else py_mean full_scores)))"

text \<open>\<open>a / b\<close> on counts: true division, \<open>ZeroDivisionError\<close> for \<open>b = 0\<close>.\<close>

definition py_div :: "nat \<Rightarrow> nat \<Rightarrow> real result" where
  "py_div a b = (if b = 0 then Inl ZeroDivisionError else Inr (of_nat a / of_nat b))"

text \<open>\<open>x > cutoff\<close> against a mean that may be \<open>nan\<close> (every comparison false).\<close>

definition above :: "int \<Rightarrow> real option \<Rightarrow> bool" where
  "above x c = (case c of None \<Rightarrow> False | Some r \<Rightarrow> of_int x > r)"

section \<open>Inputs\<close>

text \<open>The summary JSON \<open>results/NNN.json\<close> that \<open>play.simulate_trials\<close> writes, key by key.\<close>

record result_rec =
  r_counts :: pydict
  r_p0_values :: pydict
  r_p1_values :: pydict
  r_p0_allocation :: "pydict option"
  r_p1_allocation :: "pydict option"
  r_p0_score :: int
  r_p1_score :: int
  r_messages :: int
  r_tokens :: int
  r_valid :: bool

definition open_file :: "(string \<Rightarrow> 'a option) \<Rightarrow> string \<Rightarrow> 'a result" where
  "open_file fs name = (case fs name of None \<Rightarrow> Inl OSError | Some x \<Rightarrow> Inr x)"

section \<open>analyze\<close>

text \<open>
  The first loop, over \<open>range(len(p0_array))\<close>: agreement indices, token and
  message counts, and the number of logs that contain \<open>"[ABORT]"\<close>.
\<close>

fun scan_games ::
  "(string \<Rightarrow> result_rec option) \<Rightarrow> (string \<Rightarrow> string option) \<Rightarrow> nat list
     \<Rightarrow> (nat list \<times> int list \<times> int list \<times> nat) result" where
  "scan_games results texts [] = Inr ([], [], [], 0)"
| "scan_games results texts (i # is) =
     ebind (open_file results (index_name i @ ''.json'')) (\<lambda>r.
     ebind (open_file texts (index_name i @ ''_full.txt'')) (\<lambda>text.
     ebind (scan_games results texts is) (\<lambda>(agr, toks, msgs, aborts).
       Inr ((if r_valid r then i # agr else agr), r_tokens r # toks, r_messages r # msgs,
            (if contains ''[ABORT]'' text then Suc aborts else aborts)))))"

text \<open>
  The loop over \<open>os.listdir(results)\<close>: the game index is \<open>int(filename[:3])\<close>
  (outside the \<open>try\<close>); any exception of \<open>isParetoOptimal\<close> is swallowed by
  the bare \<open>except\<close> and the game is not counted.
\<close>

fun count_optimal ::
  "(string \<Rightarrow> result_rec option) \<Rightarrow> int list \<Rightarrow> int list \<Rightarrow> string \<Rightarrow> string list \<Rightarrow> nat result" where
  "count_optimal results p0 p1 obj [] = Inr 0"
| "count_optimal results p0 p1 obj (f # fs) =
     ebind (open_file results f) (\<lambda>r.
     ebind (py_int_str (take 3 f)) (\<lambda>gi.
     ebind (py_index p0 gi) (\<lambda>s0. ebind (py_index p1 gi) (\<lambda>s1.
     ebind (count_optimal results p0 p1 obj fs) (\<lambda>n.
       Inr ((if isParetoOptimal s0 s1 (r_counts r) (r_p0_values r) (r_p1_values r) obj = Inr True
             then 1 else 0) + n))))))"

record total_stats =
  t_mean :: "real option"
  t_median :: "real option"
  t_length_in_msgs :: "real option"
  t_length_in_tkns :: "real option"
  abort_rate :: real

record agreement_stats =
  a_mean :: "real option"
  a_median :: "real option"
  a_length_in_msgs :: "real option"
  a_length_in_tkns :: "real option"
  proportion_agreement :: real
  proportion_pareto_opt :: real

record above_avg_stats =
  b_mean :: "real option"
  b_median :: "real option"
  b_length_in_msgs :: "real option"
  b_length_in_tkns :: "real option"
  proportion_above_avg :: real

text \<open>
  \<open>analyze(dir_path, verbose, objective)\<close>, in the order of its statements:
  the score files are parsed by \<open>int(line.strip())\<close>; every list index and
  every division is a point where it may raise.
\<close>

definition analyze ::
  "string list \<Rightarrow> string list \<Rightarrow> (string \<Rightarrow> result_rec option) \<Rightarrow> (string \<Rightarrow> string option)
     \<Rightarrow> string list \<Rightarrow> string \<Rightarrow> (total_stats \<times> agreement_stats \<times> above_avg_stats) result" where
  "analyze p0_lines p1_lines results texts listing objective =
     ebind (map_result py_int_str p0_lines) (\<lambda>p0.
     ebind (map_result py_int_str p1_lines) (\<lambda>p1.
     let full = p0 @ p1 in
     ebind (scan_games results texts [0..<length p0]) (\<lambda>(agr, toks, msgs, aborts).
     ebind (map_result (list_get p0) agr) (\<lambda>a0.
     ebind (map_result (list_get p1) agr) (\<lambda>a1.
     let agreement_scores = a0 @ a1 in
     ebind (py_div (length agreement_scores) (length full)) (\<lambda>prop_agr.
     ebind (py_div aborts (length p0)) (\<lambda>rate.
     ebind (map_result (list_get msgs) agr) (\<lambda>agr_msgs.
     ebind (map_result (list_get toks) agr) (\<lambda>agr_toks.
     ebind (count_optimal results p0 p1 objective listing) (\<lambda>num_optimal.
     ebind (py_div num_optimal (length p0)) (\<lambda>prop_opt.
     let cutoff = py_mean (p0 @ p1);
         good0 = filter (\<lambda>i. above (p0 ! i) cutoff) [0..<length p0]
     in
     ebind (map_result (\<lambda>i. ebind (list_get p1 i) (\<lambda>x. Inr (above x cutoff))) [0..<length p0]) (\<lambda>flags1.
     let good1 = map fst (filter snd (zip [0..<length p0] flags1)) in
     ebind (map_result (list_get p0) good0) (\<lambda>b0.
     ebind (map_result (list_get p1) good1) (\<lambda>b1.
     let above_scores = b0 @ b1 in
     ebind (py_div (length above_scores) (length full)) (\<lambda>prop_above.
     ebind (map_result (list_get msgs) agr) (\<lambda>above_msgs.
     ebind (map_result (list_get toks) agr) (\<lambda>above_toks.
       Inr (\<lparr>t_mean = py_mean full, t_median = py_median full, t_length_in_msgs = py_mean msgs,
              t_length_in_tkns = py_mean toks, abort_rate = rate\<rparr>,
            \<lparr>a_mean = py_mean agreement_scores, a_median = py_median agreement_scores,
              a_length_in_msgs = py_mean agr_msgs, a_length_in_tkns = py_mean agr_toks,
              proportion_agreement = prop_agr, proportion_pareto_opt = prop_opt\<rparr>,
            \<lparr>b_mean = py_mean above_scores, b_median = py_median above_scores,
              b_length_in_msgs = py_mean above_msgs, b_length_in_tkns = py_mean above_toks,
              proportion_above_avg = prop_above\<rparr>))))))))))))))))))"

text \<open>The last three decimal digits of a number, as characters.\<close>

definition last3 :: "nat \<Rightarrow> string" where
  "last3 n = [char_of (48 + n div 100 mod 10), char_of (48 + n div 10 mod 10), char_of (48 + n mod 10)]"

section \<open>Game contexts\<close>

text \<open>
  \<open>parse_game_context(text)\<close> reads the context lines a game log starts with:
  the item counts (searched with \<open>([\d\s\w,]+)\.\<close>, then the pairs
  \<open>(\d+) (\w+)\<close>) and each player's values (\<open>([\w\s,]+)\.\<close>, then
  \<open>(\w+) are worth (\d+)\<close>). The keys are the words of the text. A part whose
  line is missing is absent from the result.
\<close>

text \<open>The classes \<open>[\d\s\w,]\<close> and \<open>[\w\s,]\<close>.\<close>

definition counts_chars :: "char \<Rightarrow> bool" where
  "counts_chars c \<longleftrightarrow> is_digit c \<or> py_space c \<or> is_word c \<or> c = CHR '',''"

definition values_chars :: "char \<Rightarrow> bool" where
  "values_chars c \<longleftrightarrow> is_word c \<or> py_space c \<or> c = CHR '',''"

definition counts_text_pattern :: "rx list" where
  "counts_text_pattern = [Lit ''Item counts: there are '', Run counts_chars, Lit ''.'']"

definition count_item_pattern :: "rx list" where
  "count_item_pattern = [Digs, Lit '' '', Run is_word]"

definition values_text_pattern :: "nat \<Rightarrow> rx list" where
  "values_text_pattern i =
     [Lit (''Player '' @ show_nat i @ '' values: ''), Run values_chars, Lit ''.'']"

definition worth_pattern :: "rx list" where
  "worth_pattern = [Run is_word, Lit '' are worth '', Digs]"

record game_context =
  ctx_counts :: "pydict option"
  ctx_p0_values :: "pydict option"
  ctx_p1_values :: "pydict option"

text \<open>The block for player \<open>i\<close>: \<open>dict(re.findall(...))\<close>, then \<open>int\<close> of every value.\<close>

definition parse_values :: "nat \<Rightarrow> string \<Rightarrow> pydict option" where
  "parse_values i text =
     map_option (\<lambda>gs. fold (\<lambda>m d. dict_set d (m ! 0) (py_int (m ! 1))) (rx_findall worth_pattern (gs ! 0)) [])
       (rx_search (values_text_pattern i) text)"

definition parse_game_context :: "string \<Rightarrow> game_context" where
  "parse_game_context text =
     \<lparr>ctx_counts = map_option (\<lambda>gs. fold (\<lambda>m d. dict_set d (m ! 1) (py_int (m ! 0)))
                                       (rx_findall count_item_pattern (gs ! 0)) [])
                     (rx_search counts_text_pattern text),
      ctx_p0_values = parse_values 0 text,
      ctx_p1_values = parse_values 1 text\<rparr>"

text \<open>\<open>"".join([next(text_log) for _ in range(3)])\<close>.\<close>

definition first_lines :: "nat \<Rightarrow> string \<Rightarrow> string result" where
  "first_lines n text =
     (let ls = py_lines text in if length ls < n then Inl StopIteration else Inr (concat (take n ls)))"

text \<open>
  \<open>generate_game_contexts(dir_path)\<close>: for every file of \<open>text_logs/\<close> whose name
  ends in \<open>full.txt\<close>, in the order of \<open>os.listdir\<close>, the context of its first
  three lines is written to \<open>contexts/NNN.json\<close> with \<open>NNN = filename[:3]\<close>.
\<close>

fun generate_game_contexts ::
  "(string \<Rightarrow> string option) \<Rightarrow> string list \<Rightarrow> (string \<Rightarrow> game_context option)
     \<Rightarrow> (string \<Rightarrow> game_context option) result" where
  "generate_game_contexts texts [] ctxs = Inr ctxs"
| "generate_game_contexts texts (f # fs) ctxs =
     (if endswith f ''full.txt'' then
        ebind (open_file texts f) (\<lambda>text. ebind (first_lines 3 text) (\<lambda>context_str.
          generate_game_contexts texts fs (ctxs(take 3 f @ ''.json'' \<mapsto> parse_game_context context_str))))
      else generate_game_contexts texts fs ctxs)"

section \<open>Scenario\<close>

text \<open>Two games: an agreement in four messages and an invalid deal at the ceiling.\<close>

definition demo_results :: "string \<Rightarrow> result_rec option" where
  "demo_results f =
     (if f = ''000.json'' then Some \<lparr>r_counts = mk_items 1 2 3, r_p0_values = mk_items 1 3 1,
          r_p1_values = mk_items 2 1 2, r_p0_allocation = Some (mk_items 1 0 0),
          r_p1_allocation = Some (mk_items 0 2 3), r_p0_score = 1, r_p1_score = 8,
          r_messages = 4, r_tokens = 40, r_valid = True\<rparr>
      else if f = ''001.json'' then Some \<lparr>r_counts = mk_items 1 2 3, r_p0_values = mk_items 1 3 1,
          r_p1_values = mk_items 2 1 2, r_p0_allocation = Some (mk_items 1 1 1),
          r_p1_allocation = None, r_p0_score = 0, r_p1_score = 0,
          r_messages = 50, r_tokens = 500, r_valid = False\<rparr>
      else None)"

definition demo_texts :: "string \<Rightarrow> string option" where
  "demo_texts f = (if f = ''000_full.txt'' \<or> f = ''001_full.txt'' then Some ''Player 0: [message] hi'' else None)"

section \<open>Lemmas\<close>

lemma char_zero: "char_of (48::nat) = CHR ''0''"
  by code_simp

lemma div10_lt: "(n::nat) < 10 * k \<Longrightarrow> n div 10 < k"
  by (simp add: div_less_iff_less_mult mult.commute)

lemma div10_ge: "10 * k \<le> (n::nat) \<Longrightarrow> k \<le> n div 10"
  by (simp add: less_eq_div_iff_mult_less_eq mult.commute)

lemma div10_div10: "(n::nat) div 10 div 10 = n div 100"
  using div_mult2_eq[of n 10 10] by simp

lemma div100_div10: "(n::nat) div 100 div 10 = n div 1000"
  using div_mult2_eq[of n 100 10] by simp

lemma index_name_last3: "index_name n = last3 n"
proof -
  consider "n < 10" | "10 \<le> n \<and> n < 100" | "100 \<le> n \<and> n < 1000" | "1000 \<le> n" by linarith
  then show ?thesis
  proof cases
    case 1
    then show ?thesis by (simp add: index_name_def last3_def show_nat_small char_zero)
  next
    case 2
    then have "n div 10 < 10" "n div 100 = 0" by (simp_all add: div10_lt)
    with 2 have "show_nat n = [char_of (48 + n div 10), char_of (48 + n mod 10)]"
      by (simp add: show_nat_big show_nat_small)
    with 2 \<open>n div 10 < 10\<close> \<open>n div 100 = 0\<close> show ?thesis
      by (simp add: index_name_def last3_def char_zero)
  next
    case 3
    then have "10 \<le> n div 10" "n div 10 div 10 < 10" by (simp_all add: div10_ge div10_lt)
    with 3 have "show_nat n = [char_of (48 + n div 100), char_of (48 + n div 10 mod 10), char_of (48 + n mod 10)]"
      by (simp add: show_nat_big show_nat_small div10_div10)
    moreover have "n div 100 mod 10 = n div 100" using \<open>n div 10 div 10 < 10\<close> by (simp add: div10_div10)
    ultimately show ?thesis using 3 by (simp add: index_name_def last3_def)
  next
    case 4
    then have "10 \<le> n div 10" "10 \<le> n div 10 div 10" by (simp_all add: div10_ge div10_div10)
    then have "show_nat n = show_nat (n div 1000) @
        [char_of (48 + n div 100 mod 10), char_of (48 + n div 10 mod 10), char_of (48 + n mod 10)]"
      using 4 by (simp add: show_nat_big div10_div10 div100_div10)
    then show ?thesis by (simp add: index_name_def last3_def)
  qed
qed

lemma last3_shift: "last3 (i + 1000) = last3 i"
proof -
  have "(i + 10 * 100) div 100 = 10 + i div 100" by (rule div_mult_self1) simp
  moreover have "(i + 100 * 10) div 10 = 100 + i div 10" by (rule div_mult_self1) simp
  moreover have "(i + 1000) mod 10 = i mod 10" using mod_mult_self3[of 100 10 i] by (simp add: add.commute)
  ultimately show ?thesis
    using mod_mult_self3[of 1 10 "i div 100"] mod_mult_self3[of 10 10 "i div 10"]
    by (simp add: last3_def)
qed

lemma py_int_last3: "i < 1000 \<Longrightarrow> py_int (last3 i) = int i"
proof -
  assume "i < 1000"
  then have small: "i div 100 mod 10 = i div 100" by (simp add: div_less_iff_less_mult)
  have e1: "py_int (last3 i) = 100 * int (i div 100 mod 10) + 10 * int (i div 10 mod 10) + int (i mod 10)"
    by (simp add: last3_def py_int_def)
  have x: "i div 10 = 10 * (i div 100) + i div 10 mod 10"
    using div_mult_mod_eq[of "i div 10" 10] unfolding div10_div10 by linarith
  have y: "i = 10 * (i div 10) + i mod 10" by simp
  obtain q a b c where "q = i div 10" "a = i div 100" "b = i div 10 mod 10" "c = i mod 10" by simp
  with x y have "i = 10 * q + c" "q = 10 * a + b" by simp_all
  then have "int i = 100 * int a + 10 * int b + int c" by simp
  with e1 small \<open>a = i div 100\<close> \<open>b = i div 10 mod 10\<close> \<open>c = i mod 10\<close> show ?thesis by simp
qed

lemma analyze_Inr:
  assumes "analyze p0l p1l results texts listing obj = Inr (t, a, b)"
  shows "\<exists>p0 p1 agr toks msgs aborts n am atk.
     map_result py_int_str p0l = Inr p0 \<and> map_result py_int_str p1l = Inr p1
     \<and> scan_games results texts [0..<length p0] = Inr (agr, toks, msgs, aborts)
     \<and> count_optimal results p0 p1 obj listing = Inr n
     \<and> map_result (list_get msgs) agr = Inr am \<and> map_result (list_get toks) agr = Inr atk
     \<and> proportion_pareto_opt a = of_nat n / of_nat (length p0)
     \<and> a_length_in_msgs a = py_mean am \<and> a_length_in_tkns a = py_mean atk
     \<and> b_length_in_msgs b = py_mean am \<and> b_length_in_tkns b = py_mean atk"
  using assms
  by (auto simp: analyze_def ebind_eq_Inr Let_def py_div_def split: prod.splits if_splits)

text \<open>C38: The above-average statistics of \<open>analyze\<close> report the average message and token lengths of the games that reached an agreement, not of the above-average games: whenever \<open>analyze\<close> returns, the two length figures of the above-average group equal those of the agreement group.\<close>

theorem analyze_above_avg_lengths:
  assumes "analyze p0_lines p1_lines results texts listing objective = Inr (t, a, b)"
  shows "b_length_in_msgs b = a_length_in_msgs a \<and> b_length_in_tkns b = a_length_in_tkns a"
  using analyze_Inr[OF assms] by auto

lemma count_optimal_orig: "count_optimal results p0 p1 ''orig'' fs = Inr n \<Longrightarrow> n = 0"
  by (induction fs arbitrary: n)
     (auto simp: ebind_eq_Inr isParetoOptimal_def)

text \<open>With its default objective \<open>"orig"\<close>, which \<open>utils.isParetoOptimal\<close> rejects, \<open>analyze\<close> counts no game as Pareto-optimal: the reported proportion is 0 whatever the games.\<close>

theorem analyze_orig_no_pareto:
  assumes "analyze p0_lines p1_lines results texts listing ''orig'' = Inr (t, a, b)"
  shows "proportion_pareto_opt a = 0"
  using analyze_Inr[OF assms] count_optimal_orig by fastforce

text \<open>C40: The three-character game index \<open>("000" + str(i))[-3:]\<close> reads back as \<open>i\<close> through \<open>int()\<close> for the first 1000 games, and game \<open>i + 1000\<close> gets the same index as game \<open>i\<close>, so its log and results files collide with those of game \<open>i\<close>.\<close>

theorem index_name_roundtrip:
  "(i < 1000 \<longrightarrow> py_int_str (index_name i) = Inr (int i)) \<and> index_name (i + 1000) = index_name i"
proof
  show "index_name (i + 1000) = index_name i" by (simp add: index_name_last3 last3_shift)
next
  show "i < 1000 \<longrightarrow> py_int_str (index_name i) = Inr (int i)"
  proof
    assume small: "i < 1000"
    have d: "\<forall>c \<in> set (last3 i). is_digit c" by (simp add: last3_def)
    then have "\<forall>c \<in> set (last3 i). \<not> py_space c" using digit_not_space by blast
    then have s: "py_strip (last3 i) = last3 i" by (rule py_strip_id)
    have "CHR ''_'' \<notin> set (last3 i)" using d by (auto simp: is_digit_def)
    then have "\<not> contains ''__'' (last3 i)" by (auto dest: contains_set)
    moreover have "is_digit (hd (last3 i))" using d by (simp add: last3_def)
    then have "hd (last3 i) \<noteq> CHR ''-'' \<and> hd (last3 i) \<noteq> CHR ''+''" by (auto simp: is_digit_def)
    ultimately show "py_int_str (index_name i) = Inr (int i)"
      using d s py_int_last3[OF small]
      by (simp add: index_name_last3 py_int_str_def int_digits_ok_def list_all_iff filter_id_conv)
         (simp add: last3_def)
  qed
qed

theorem analyze_above_avg_lengths_witness:
  "\<exists>t a b. analyze [''1 '', ''0 ''] [''8 '', ''0 ''] demo_results demo_texts [''000.json'', ''001.json''] ''self''
       = Inr (t, a, b) \<and> b_length_in_msgs b = a_length_in_msgs a \<and> b_length_in_tkns b = a_length_in_tkns a"
proof -
  have "case analyze [''1 '', ''0 ''] [''8 '', ''0 ''] demo_results demo_texts [''000.json'', ''001.json''] ''self'' of
          Inl _ \<Rightarrow> False | Inr _ \<Rightarrow> True"
    by code_simp
  then obtain t a b where r: "analyze [''1 '', ''0 ''] [''8 '', ''0 ''] demo_results demo_texts [''000.json'', ''001.json''] ''self''
       = Inr (t, a, b)"
    by (cases "analyze [''1 '', ''0 ''] [''8 '', ''0 ''] demo_results demo_texts [''000.json'', ''001.json''] ''self''") auto
  from analyze_above_avg_lengths[OF r] r show ?thesis by blast
qed

theorem analyze_orig_no_pareto_witness:
  "\<exists>t a b. analyze [''1 '', ''0 ''] [''8 '', ''0 ''] demo_results demo_texts [''000.json'', ''001.json''] ''orig''
       = Inr (t, a, b) \<and> proportion_pareto_opt a = 0"
proof -
  have "case analyze [''1 '', ''0 ''] [''8 '', ''0 ''] demo_results demo_texts [''000.json'', ''001.json''] ''orig'' of
          Inl _ \<Rightarrow> False | Inr _ \<Rightarrow> True"
    by code_simp
  then obtain t a b where r: "analyze [''1 '', ''0 ''] [''8 '', ''0 ''] demo_results demo_texts [''000.json'', ''001.json''] ''orig''
       = Inr (t, a, b)"
    by (cases "analyze [''1 '', ''0 ''] [''8 '', ''0 ''] demo_results demo_texts [''000.json'', ''001.json''] ''orig''") auto
  from analyze_orig_no_pareto[OF r] r show ?thesis by blast
qed

theorem index_name_roundtrip_witness:
  "py_int_str (index_name 42) = Inr 42 \<and> index_name 1042 = index_name 42"
  using index_name_roundtrip[of 42] by simp

lemma show_nat_chars [simp]: "list_all counts_chars (show_nat n)" "list_all values_chars (show_nat n)"
  using show_nat_facts(1)[of n] by (auto simp: list_all_iff counts_chars_def values_chars_def is_word_def)

lemma count_item_match:
  assumes "w \<noteq> []" "list_all is_word w" "r = [] \<or> \<not> is_word (hd r)"
  shows "rx_match count_item_pattern (show_nat n @ CHR '' '' # w @ r) = Some ([show_nat n, w], r)"
proof -
  have sp: "\<not> is_digit CHR '' ''" by (simp add: is_digit_def)
  from word_run[OF assms(2,3)] assms(1) show ?thesis
    by (simp add: count_item_pattern_def show_nat_not_word_end(1,2)[OF sp] startswith_def)
qed

lemma counts_findall:
  "rx_findall count_item_pattern (show_nat b @ '' books, '' @ show_nat h @ '' hats, and '' @ show_nat l @ '' balls'')
     = [[show_nat b, ''books''], [show_nat h, ''hats''], [show_nat l, ''balls'']]"
proof -
  have m3: "rx_match count_item_pattern (show_nat l @ CHR '' '' # ''balls'' @ []) = Some ([show_nat l, ''balls''], [])"
    by (rule count_item_match) (simp_all add: is_word_def is_digit_def)
  have m2: "rx_match count_item_pattern (show_nat h @ CHR '' '' # ''hats'' @ '', and '' @ show_nat l @ '' balls'')
            = Some ([show_nat h, ''hats''], '', and '' @ show_nat l @ '' balls'')"
    by (rule count_item_match) (simp_all add: is_word_def is_digit_def)
  have m1: "rx_match count_item_pattern (show_nat b @ CHR '' '' # ''books'' @ '', '' @ show_nat h @ '' hats, and '' @ show_nat l @ '' balls'')
            = Some ([show_nat b, ''books''], '', '' @ show_nat h @ '' hats, and '' @ show_nat l @ '' balls'')"
    by (rule count_item_match) (simp_all add: is_word_def is_digit_def)
  have s1: "rx_findall count_item_pattern ('', and '' @ x) = rx_findall count_item_pattern x" for x
    by (simp add: count_item_pattern_def is_digit_def)
  have s2: "rx_findall count_item_pattern ('', '' @ x) = rx_findall count_item_pattern x" for x
    by (simp add: count_item_pattern_def is_digit_def)
  have f3: "rx_findall count_item_pattern (show_nat l @ '' balls'') = [[show_nat l, ''balls'']]"
    using rx_findall_first[OF m3] by (simp add: count_item_pattern_def)
  have f2: "rx_findall count_item_pattern (show_nat h @ '' hats, and '' @ show_nat l @ '' balls'')
            = [[show_nat h, ''hats''], [show_nat l, ''balls'']]"
    using rx_findall_first[OF m2] s1 f3 by simp
  show ?thesis using rx_findall_first[OF m1] s2 f2 by simp
qed

lemma worth_match:
  assumes "w \<noteq> []" "list_all is_word w" "r = [] \<or> \<not> is_digit (hd r)"
  shows "rx_match worth_pattern (w @ '' are worth '' @ show_nat n @ r) = Some ([w, show_nat n], r)"
proof -
  have sp: "\<not> is_word CHR '' ''" by (simp add: is_word_def is_digit_def)
  have tw: "takeWhile is_word (w @ '' are worth '' @ x) = w" "dropWhile is_word (w @ '' are worth '' @ x) = '' are worth '' @ x" for x
    using word_run[OF assms(2), of "'' are worth '' @ x"] sp by simp_all
  have "takeWhile is_digit (show_nat n @ r) = show_nat n \<and> dropWhile is_digit (show_nat n @ r) = r"
    using assms(3) show_nat_not_word_end(1,2)[of "hd r" n "tl r"] show_nat_not_word_end(3,4)[of n] by (cases r) auto
  with tw assms(1) show ?thesis by (simp add: worth_pattern_def startswith_def)
qed

lemma values_findall:
  "rx_findall worth_pattern (''books are worth '' @ show_nat b @ '' points, hats are worth '' @ show_nat h
       @ '' points, and balls are worth '' @ show_nat l @ '' points'')
     = [[''books'', show_nat b], [''hats'', show_nat h], [''balls'', show_nat l]]"
proof -
  have m3: "rx_match worth_pattern (''balls'' @ '' are worth '' @ show_nat l @ '' points'')
            = Some ([''balls'', show_nat l], '' points'')"
    by (rule worth_match) (simp_all add: is_word_def is_digit_def)
  have m2: "rx_match worth_pattern (''hats'' @ '' are worth '' @ show_nat h @ '' points, and balls are worth '' @ show_nat l @ '' points'')
            = Some ([''hats'', show_nat h], '' points, and balls are worth '' @ show_nat l @ '' points'')"
    by (rule worth_match) (simp_all add: is_word_def is_digit_def)
  have m1: "rx_match worth_pattern (''books'' @ '' are worth '' @ show_nat b @ '' points, hats are worth '' @ show_nat h
              @ '' points, and balls are worth '' @ show_nat l @ '' points'')
            = Some ([''books'', show_nat b], '' points, hats are worth '' @ show_nat h
              @ '' points, and balls are worth '' @ show_nat l @ '' points'')"
    by (rule worth_match) (simp_all add: is_word_def is_digit_def)
  have e: "rx_findall worth_pattern '' points'' = []"
    by (simp add: worth_pattern_def is_word_def is_digit_def startswith_def)
  have s1: "rx_findall worth_pattern ('' points, and '' @ ''balls'' @ x) = rx_findall worth_pattern (''balls'' @ x)" for x
    by (simp add: worth_pattern_def is_word_def is_digit_def startswith_def)
  have s2: "rx_findall worth_pattern ('' points, '' @ ''hats'' @ x) = rx_findall worth_pattern (''hats'' @ x)" for x
    by (simp add: worth_pattern_def is_word_def is_digit_def startswith_def)
  have f3: "rx_findall worth_pattern (''balls are worth '' @ show_nat l @ '' points'') = [[''balls'', show_nat l]]"
    using rx_findall_first[OF m3] e by simp
  have f2: "rx_findall worth_pattern (''hats are worth '' @ show_nat h @ '' points, and balls are worth '' @ show_nat l @ '' points'')
            = [[''hats'', show_nat h], [''balls'', show_nat l]]"
    using rx_findall_first[OF m2] s1[of "'' are worth '' @ show_nat l @ '' points''"] f3 by simp
  show ?thesis
    using rx_findall_first[OF m1] s2[of "'' are worth '' @ show_nat h @ '' points, and balls are worth '' @ show_nat l @ '' points''"] f2
    by simp
qed

lemma counts_search:
  "rx_search counts_text_pattern
     (''Item counts: there are '' @ show_nat b @ '' books, '' @ show_nat h @ '' hats, and '' @ show_nat l
        @ '' balls.\<newline>'' @ rest)
   = Some [show_nat b @ '' books, '' @ show_nat h @ '' hats, and '' @ show_nat l @ '' balls'']"
  by (simp add: counts_text_pattern_def startswith_def takeWhile_show_nat_gen counts_chars_def is_word_def is_digit_def py_space_def)

lemma values_search:
  "rx_search (values_text_pattern i)
     (''Player '' @ show_nat i @ '' values: books are worth '' @ show_nat b @ '' points, hats are worth '' @ show_nat h
        @ '' points, and balls are worth '' @ show_nat l @ '' points.\<newline>'' @ rest)
   = Some [''books are worth '' @ show_nat b @ '' points, hats are worth '' @ show_nat h
        @ '' points, and balls are worth '' @ show_nat l @ '' points'']"
  by (simp add: values_text_pattern_def startswith_def takeWhile_show_nat_gen values_chars_def is_word_def is_digit_def py_space_def)

lemma values_search_skip:
  assumes "\<forall>c \<in> set x. c \<noteq> CHR ''P''"
  shows "rx_search (values_text_pattern i) (x @ y) = rx_search (values_text_pattern i) y"
  using rx_search_skip[OF assms, of "tl (''Player '' @ show_nat i @ '' values: '')" "tl (values_text_pattern i)" y]
  by (simp add: values_text_pattern_def)

lemma parse_header:
  "parse_game_context
     ((''Item counts: there are '' @ show_nat b @ '' books, '' @ show_nat h @ '' hats, and '' @ show_nat l
        @ '' balls.\<newline>'')
      @ (''Player 0 values: books are worth '' @ show_nat b0 @ '' points, hats are worth '' @ show_nat h0
        @ '' points, and balls are worth '' @ show_nat l0 @ '' points.\<newline>'')
      @ (''Player 1 values: books are worth '' @ show_nat b1 @ '' points, hats are worth '' @ show_nat h1
        @ '' points, and balls are worth '' @ show_nat l1 @ '' points.\<newline>''))
   = \<lparr>ctx_counts = Some [(''books'', int b), (''hats'', int h), (''balls'', int l)],
      ctx_p0_values = Some [(''books'', int b0), (''hats'', int h0), (''balls'', int l0)],
      ctx_p1_values = Some [(''books'', int b1), (''hats'', int h1), (''balls'', int l1)]\<rparr>"
  (is "parse_game_context (?ic @ ?v0 @ ?v1) = _")
proof -
  have c: "rx_search counts_text_pattern (?ic @ ?v0 @ ?v1)
     = Some [show_nat b @ '' books, '' @ show_nat h @ '' hats, and '' @ show_nat l @ '' balls'']"
    using counts_search[of b h l "?v0 @ ?v1"] by simp
  have nic: "\<forall>c \<in> set ?ic. c \<noteq> CHR ''P''" using show_nat_no_P by auto
  have "rx_search (values_text_pattern 0) (?ic @ ?v0 @ ?v1) = rx_search (values_text_pattern 0) (?v0 @ ?v1)"
    by (rule values_search_skip[OF nic])
  also have "\<dots> = Some [''books are worth '' @ show_nat b0 @ '' points, hats are worth '' @ show_nat h0
        @ '' points, and balls are worth '' @ show_nat l0 @ '' points'']"
    using values_search[of 0 b0 h0 l0 "?v1"] by simp
  finally have v0: "rx_search (values_text_pattern 0) (?ic @ ?v0 @ ?v1)
     = Some [''books are worth '' @ show_nat b0 @ '' points, hats are worth '' @ show_nat h0
        @ '' points, and balls are worth '' @ show_nat l0 @ '' points'']" .
  have nv0: "\<forall>c \<in> set (tl ?v0). c \<noteq> CHR ''P''" using show_nat_no_P by auto
  have "rx_search (values_text_pattern 1) (?ic @ ?v0 @ ?v1) = rx_search (values_text_pattern 1) (?v0 @ ?v1)"
    by (rule values_search_skip[OF nic])
  also have "\<dots> = rx_search (values_text_pattern 1) (tl ?v0 @ ?v1)"
    by (simp add: values_text_pattern_def startswith_def)
  also have "\<dots> = rx_search (values_text_pattern 1) ?v1"
    by (rule values_search_skip[OF nv0])
  also have "\<dots> = Some [''books are worth '' @ show_nat b1 @ '' points, hats are worth '' @ show_nat h1
        @ '' points, and balls are worth '' @ show_nat l1 @ '' points'']"
    using values_search[of 1 b1 h1 l1 "[]"] by simp
  finally have v1: "rx_search (values_text_pattern 1) (?ic @ ?v0 @ ?v1)
     = Some [''books are worth '' @ show_nat b1 @ '' points, hats are worth '' @ show_nat h1
        @ '' points, and balls are worth '' @ show_nat l1 @ '' points'']" .
  show ?thesis
    unfolding parse_game_context_def parse_values_def
    by (simp only: c v0 v1 option.map nth_Cons_0 counts_findall values_findall) (simp add: dict_set_def py_int_show_nat)
qed

lemma first_lines_header:
  "first_lines 3
     ((''Item counts: there are '' @ show_nat b @ '' books, '' @ show_nat h @ '' hats, and '' @ show_nat l
        @ '' balls.\<newline>'')
      @ (''Player 0 values: books are worth '' @ show_nat b0 @ '' points, hats are worth '' @ show_nat h0
        @ '' points, and balls are worth '' @ show_nat l0 @ '' points.\<newline>'')
      @ (''Player 1 values: books are worth '' @ show_nat b1 @ '' points, hats are worth '' @ show_nat h1
        @ '' points, and balls are worth '' @ show_nat l1 @ '' points.\<newline>'')
      @ ''\<newline>\<newline>'' @ rest)
   = Inr ((''Item counts: there are '' @ show_nat b @ '' books, '' @ show_nat h @ '' hats, and '' @ show_nat l
        @ '' balls.\<newline>'')
      @ (''Player 0 values: books are worth '' @ show_nat b0 @ '' points, hats are worth '' @ show_nat h0
        @ '' points, and balls are worth '' @ show_nat l0 @ '' points.\<newline>'')
      @ (''Player 1 values: books are worth '' @ show_nat b1 @ '' points, hats are worth '' @ show_nat h1
        @ '' points, and balls are worth '' @ show_nat l1 @ '' points.\<newline>''))"
  by (simp add: first_lines_def py_lines_def py_lines_acc_nonl)

end
