(* ===== verification/Utils.thy ===== *)
theory Utils
  imports Game Analysis
begin

text \<open>
  The dataset helpers of \<open>src/utils.py\<close> that are not scoring or Pareto code:
  the two readers of a game's full text log (\<open>check_agreement_validity\<close>,
  \<open>extract_final_scores\<close>), the dataset ceiling, the mean of a score file, and
  \<open>concatenate\<close>, which selects the games whose logs become fine-tuning data.
  Files are what the readers get: a text as a string, a score file as the list of
  its lines, a directory of JSON files as a lookup from names to contents (a
  missing file raises \<open>OSError\<close>, as in \<open>Analysis\<close>). The regular expressions
  are those of the code, run by the matcher of the prelude.
\<close>

section \<open>check_agreement_validity\<close>

definition counts_pattern :: "rx list" where
  "counts_pattern = [Lit ''Item counts: there are '', Digs, Lit '' books, '', Digs, Lit '' hats, and '',
                     Digs, Lit '' balls'', Dot]"

definition proposal_pattern :: "rx list" where
  "proposal_pattern = [Lit ''[propose] ('', Digs, Lit '' books, '', Digs, Lit '' hats, '', Digs, Lit '' balls)'']"

text \<open>The function returns a Boolean, or the dictionary \<open>{"error": ...}\<close>.\<close>

datatype agreement = Verdict bool | ErrorDict string

definition check_agreement_validity :: "string \<Rightarrow> agreement" where
  "check_agreement_validity game_text =
     (let item_counts = rx_search counts_pattern game_text;
          proposals = rx_findall proposal_pattern game_text
      in case item_counts of
           None \<Rightarrow> ErrorDict ''Item counts not found in the provided text''
         | Some totals \<Rightarrow>
             (let (sum_books, sum_hats, sum_balls) =
                    foldl (\<lambda>(b, h, l) p. (b + py_int (p ! 0), h + py_int (p ! 1), l + py_int (p ! 2)))
                          (0, 0, 0) proposals
              in Verdict (sum_books = py_int (totals ! 0) \<and> sum_hats = py_int (totals ! 1)
                          \<and> sum_balls = py_int (totals ! 2))))"

section \<open>calculate_dataset_ceiling_performance\<close>

text \<open>
  One \<open>calculate_maximum_collective_score\<close> per file of \<open>results/\<close>, in the
  order of \<open>os.listdir\<close>, then \<open>np.mean\<close>.
\<close>

definition calculate_dataset_ceiling_performance ::
  "(string \<Rightarrow> result_rec option) \<Rightarrow> string list \<Rightarrow> string \<Rightarrow> real option result" where
  "calculate_dataset_ceiling_performance results listing obj =
     ebind (map_result (\<lambda>f. ebind (open_file results f) (\<lambda>r.
              calculate_maximum_collective_score (r_counts r) (r_p0_values r) (r_p1_values r) obj))
            listing) (\<lambda>best.
       Inr (if best = [] then None else Some (sum_list best / of_nat (length best))))"

section \<open>extract_final_scores\<close>

definition score_pattern :: "rx list" where
  "score_pattern = [Lit ''Player '', Dig, Lit '' FINAL SCORE: '', Digs]"

text \<open>\<open>{int(player): int(score) for player, score in scores}\<close>: a later match overrides.\<close>

definition score_dict :: "string list list \<Rightarrow> int \<Rightarrow> int option" where
  "score_dict scores = fold (\<lambda>gs d. d(py_int (gs ! 0) \<mapsto> py_int (gs ! 1))) scores Map.empty"

definition extract_final_scores :: "string \<Rightarrow> (int \<times> int) result" where
  "extract_final_scores game_text =
     (let d = score_dict (rx_findall score_pattern game_text) in
      case d 0 of None \<Rightarrow> Inl KeyError | Some s0 \<Rightarrow>
      (case d 1 of None \<Rightarrow> Inl KeyError | Some s1 \<Rightarrow> Inr (s0, s1)))"

section \<open>calculate_avg_score\<close>

definition calculate_avg_score :: "string list \<Rightarrow> real option result" where
  "calculate_avg_score lines = ebind (map_result py_int_str lines) (\<lambda>scores. Inr (py_mean scores))"

section \<open>concatenate\<close>

text \<open>
  The cutoff of the filter: the mean of both players' scores (\<open>nan\<close>, here
  \<open>None\<close>, when there are none), 0, or -100; an unknown filter raises.
\<close>

definition concat_cutoff :: "int list \<Rightarrow> string \<Rightarrow> real option result" where
  "concat_cutoff scores filt =
     (if filt = ''above_avg'' then Inr (py_mean scores)
      else if filt = ''nonzero'' then Inr (Some 0)
      else if filt = ''all'' then Inr (Some (-100))
      else Inl InvalidFilter)"

text \<open>
  The loop over \<open>range(len(p0_array))\<close>: under \<open>is_comp\<close> a game both players
  scored 0 in is included when its results file records a valid deal; the
  short-circuit \<open>and\<close> reads \<open>p1_array[i]\<close> and the file only when needed.
\<close>

fun select_games ::
  "(string \<Rightarrow> result_rec option) \<Rightarrow> bool \<Rightarrow> real option \<Rightarrow> int list \<Rightarrow> int list \<Rightarrow> nat list
     \<Rightarrow> (nat list \<times> nat list) result" where
  "select_games results is_comp cutoff p0 p1 [] = Inr ([], [])"
| "select_games results is_comp cutoff p0 p1 (i # is) =
     ebind (if is_comp \<and> p0 ! i = 0 then
              ebind (list_get p1 i) (\<lambda>s1.
                if s1 = 0 then ebind (open_file results (index_name i @ ''.json'')) (\<lambda>r. Inr (r_valid r))
                else Inr False)
            else Inr False) (\<lambda>include.
     ebind (list_get p1 i) (\<lambda>s1.
     ebind (select_games results is_comp cutoff p0 p1 is) (\<lambda>(g0, g1).
       Inr (if above (p0 ! i) cutoff \<or> include then i # g0 else g0,
            if above s1 cutoff \<or> include then i # g1 else g1))))"

text \<open>
  The whole function: the two score files parsed by \<open>int(line.strip())\<close>, the
  selection, then one line \<open>{"messages": game_log}\<close> of \<open>game_data.jsonl\<close> per
  selected game, player 0's logs first; the result is the list of appended logs.
\<close>

definition concatenate ::
  "string list \<Rightarrow> string list \<Rightarrow> (string \<Rightarrow> result_rec option) \<Rightarrow> (string \<Rightarrow> chat option)
     \<Rightarrow> string \<Rightarrow> bool \<Rightarrow> chat list result" where
  "concatenate p0_lines p1_lines results json_logs filt is_comp =
     ebind (map_result py_int_str p0_lines) (\<lambda>p0_array.
     ebind (map_result py_int_str p1_lines) (\<lambda>p1_array.
     ebind (concat_cutoff (p0_array @ p1_array) filt) (\<lambda>cutoff.
     ebind (select_games results is_comp cutoff p0_array p1_array [0..<length p0_array]) (\<lambda>(g0, g1).
     ebind (map_result (\<lambda>i. open_file json_logs (index_name i @ ''_p0.json'')) g0) (\<lambda>l0.
     ebind (map_result (\<lambda>i. open_file json_logs (index_name i @ ''_p1.json'')) g1) (\<lambda>l1.
       Inr (l0 @ l1)))))))"

section \<open>Lemmas\<close>

lemma score_pattern_props [simp]: "nl_free score_pattern" "rx_match score_pattern [] = None"
  by (simp_all add: score_pattern_def startswith_def)

lemma rx_findall_no_P:
  "\<forall>c \<in> set s. c \<noteq> CHR ''P'' \<Longrightarrow> rx_findall score_pattern s = []"
proof (induction s)
  case Nil
  then show ?case by simp
next
  case (Cons c s)
  then have "rx_match score_pattern (c # s) = None"
    by (auto simp: score_pattern_def startswith_def)
  with Cons show ?case by simp
qed

lemma takeWhile_show_nat [simp]:
  "takeWhile is_digit (show_nat n @ CHR '' '' # r) = show_nat n"
  "dropWhile is_digit (show_nat n @ CHR '' '' # r) = CHR '' '' # r"
  using show_nat_facts(1) by (simp_all add: takeWhile_append2 dropWhile_append2 is_digit_def)

lemma score_line_match:
  "rx_match score_pattern (''Player '' @ [d] @ '' FINAL SCORE: '' @ show_nat n @ CHR '' '' # r)
     = (if is_digit d then Some ([[d], show_nat n], CHR '' '' # r) else None)"
  by (simp add: score_pattern_def startswith_def)


lemma rx_findall_score_line:
  assumes "is_digit d"
  shows "rx_findall score_pattern (''Player '' @ [d] @ '' FINAL SCORE: '' @ show_nat n @ '' '') = [[[d], show_nat n]]"
proof -
  have e: "''Player '' @ [d] @ '' FINAL SCORE: '' @ show_nat n @ '' ''
         = CHR ''P'' # (''layer '' @ [d] @ '' FINAL SCORE: '' @ show_nat n @ '' '')" by simp
  have m: "rx_match score_pattern (CHR ''P'' # (''layer '' @ [d] @ '' FINAL SCORE: '' @ show_nat n @ '' ''))
         = Some ([[d], show_nat n], '' '')"
    using score_line_match[of d n "[]"] assms e by simp
  have sp: "rx_findall score_pattern '' '' = []"
    by (simp add: score_pattern_def startswith_def)
  show ?thesis unfolding e rx_findall.simps(2) m using sp by simp
qed

lemma rx_findall_score_nl [simp]:
  "rx_findall score_pattern (CHR ''\<newline>'' # s) = rx_findall score_pattern s"
  by (simp add: score_pattern_def startswith_def)

lemma py_int_01 [simp]: "py_int ''0'' = 0" "py_int ''1'' = 1"
  by code_simp+

lemma digit_01 [simp]: "is_digit (CHR ''0'')" "is_digit (CHR ''1'')"
  by code_simp+

lemma final_score_lines_split:
  "final_score_lines (int n0) (int n1)
     = (''Player '' @ ''0'' @ '' FINAL SCORE: '' @ show_nat n0 @ '' '') @ CHR ''\<newline>''
       # ((''Player '' @ ''1'' @ '' FINAL SCORE: '' @ show_nat n1 @ '' '') @ CHR ''\<newline>'' # [])"
  by (simp add: final_score_lines_def show_int_def)

lemma rx_findall_final_lines:
  "rx_findall score_pattern (final_score_lines (int n0) (int n1)) = [[''0'', show_nat n0], [''1'', show_nat n1]]"
  unfolding final_score_lines_split
  by (simp only: rx_findall_nl[OF score_pattern_props] rx_findall_score_nl rx_findall_score_line digit_01)
     (simp add: score_pattern_def)

lemma extract_final_scores_lines:
  assumes "pre = [] \<or> last pre = CHR ''\<newline>''" and "0 \<le> s0" and "0 \<le> s1"
  shows "extract_final_scores (pre @ final_score_lines s0 s1) = Inr (s0, s1)"
proof -
  obtain n0 n1 where n: "s0 = int n0" "s1 = int n1" using assms(2,3) nonneg_int_cases by metis
  have "rx_findall score_pattern (pre @ final_score_lines s0 s1)
        = rx_findall score_pattern (butlast pre) @ [[''0'', show_nat n0], [''1'', show_nat n1]]"
  proof (cases "pre = []")
    case True
    then show ?thesis by (simp add: n rx_findall_final_lines)
  next
    case False
    with assms(1) have b: "pre = butlast pre @ [CHR ''\<newline>'']"
      using append_butlast_last_id[of pre] by simp
    have e: "pre @ final_score_lines s0 s1 = butlast pre @ CHR ''\<newline>'' # final_score_lines s0 s1"
      by (subst b) simp
    show ?thesis unfolding e
      by (simp only: rx_findall_nl[OF score_pattern_props] rx_findall_score_nl n rx_findall_final_lines)
  qed
  then show ?thesis
    by (simp add: extract_final_scores_def score_dict_def n py_int_show_nat)
qed


lemma select_games_noncomp:
  "\<forall>i \<in> set is. i < length p1 \<Longrightarrow>
   select_games results False cutoff p0 p1 is
     = Inr (filter (\<lambda>i. above (p0 ! i) cutoff) is, filter (\<lambda>i. above (p1 ! i) cutoff) is)"
  by (induction "is") (auto simp: list_get_def)

lemma map_result_open_file:
  "\<forall>x \<in> set xs. f (g x) \<noteq> None \<Longrightarrow>
   map_result (\<lambda>i. open_file f (g i)) xs = Inr (map (\<lambda>i. the (f (g i))) xs)"
  by (induction xs) (auto simp: open_file_def)

lemma fold_score_nonneg:
  "\<forall>gs \<in> set ms. list_all is_digit (gs ! 1) \<Longrightarrow> \<forall>k v. d k = Some v \<longrightarrow> 0 \<le> v \<Longrightarrow>
   fold (\<lambda>gs d. d(py_int (gs ! 0) \<mapsto> py_int (gs ! 1))) ms d k = Some v \<Longrightarrow> 0 \<le> v"
proof (induction ms arbitrary: d)
  case Nil
  then show ?case by simp
next
  case (Cons a ms)
  from Cons.prems(1) have "0 \<le> py_int (a ! 1)" by (simp add: py_int_nonneg)
  with Cons.prems(2) have "\<forall>k v. (d(py_int (a ! 0) \<mapsto> py_int (a ! 1))) k = Some v \<longrightarrow> 0 \<le> v" by auto
  with Cons.prems(1,3) show ?case by (intro Cons.IH) simp_all
qed

lemma extract_final_scores_nonneg:
  assumes "extract_final_scores text = Inr (s0, s1)"
  shows "0 \<le> s0 \<and> 0 \<le> s1"
proof -
  have "\<forall>gs \<in> set (rx_findall score_pattern text). list_all is_digit (gs ! 1)"
  proof
    fix gs assume "gs \<in> set (rx_findall score_pattern text)"
    from rx_findall_groups[OF this] show "list_all is_digit (gs ! 1)"
      by (auto simp: score_pattern_def list_all2_Cons1)
  qed
  then have "\<And>k v. score_dict (rx_findall score_pattern text) k = Some v \<Longrightarrow> 0 \<le> v"
    unfolding score_dict_def by (rule fold_score_nonneg) simp_all
  with assms show ?thesis
    by (auto simp: extract_final_scores_def Let_def split: option.splits)
qed

lemma play_game_Inr:
  assumes "play_game agents first fmt tok g = Inr (g', out, flog)"
  obtains st where "play_loop agents (init_play_state g first fmt) = Inr st"
    "calculateFinalScores (objective (game st)) (item_counts (game st)) (player_values (game st)) (proposals (game st))
       = Inr (p0_score out, p1_score out)"
    "flog = text_log st @ final_score_lines (p0_score out) (p1_score out)"
  using assms by (auto simp: play_game_def ebind_eq_Inr Let_def split: prod.splits)

text \<open>C22: The full text log a batch game writes (the constructor's context lines, one line per turn, the two final-score lines) is read back by \<open>extract_final_scores\<close> as the game's final scores whenever both are non-negative, whatever the players said: the final lines come last and override any earlier match.\<close>

theorem game_log_scores_roundtrip:
  assumes "init_game counts v0 v1 obj = Inr (g, hdr)" and "first < 2"
    and "play_game agents first fmt tok g = Inr (g', out, flog)"
    and "0 \<le> p0_score out" and "0 \<le> p1_score out"
  shows "extract_final_scores (hdr @ flog) = Inr (p0_score out, p1_score out)"
proof -
  from assms(3) obtain st where loop: "play_loop agents (init_play_state g first fmt) = Inr st"
    and fl: "flog = text_log st @ final_score_lines (p0_score out) (p1_score out)"
    by (rule play_game_Inr)
  from init_game_Inr[OF assms(1)] have fresh: "fresh_game g" and h: "hdr \<noteq> []" "last hdr = CHR ''\<newline>''"
    by simp_all
  from fresh assms(2) have "reachable agents (init_play_state g first fmt)" by (rule reachable.start)
  with loop have "reachable agents st" using play_loop_reachable by blast
  then have "text_log st = [] \<or> last (text_log st) = CHR ''\<newline>''" by (rule reachable_text_log)
  with h have "hdr @ text_log st = [] \<or> last (hdr @ text_log st) = CHR ''\<newline>''"
    by (auto simp: last_append)
  from extract_final_scores_lines[OF this assms(4,5)] fl show ?thesis by simp
qed

text \<open>C19: Under the competitive objective a game whose two final scores differ is never read back by \<open>extract_final_scores\<close>: one of its scores is negative, and the pattern \<open>(\d+)\<close> reads no sign, so the reader raises \<open>KeyError\<close> or returns another line's number.\<close>

theorem comp_scores_unreadable:
  assumes "play_game agents first fmt tok g = Inr (g', out, flog)" and "objective g = Comp"
    and "p0_score out \<noteq> p1_score out"
  shows "extract_final_scores (hdr @ flog) \<noteq> Inr (p0_score out, p1_score out)"
proof
  assume ex: "extract_final_scores (hdr @ flog) = Inr (p0_score out, p1_score out)"
  from assms(1) obtain st where loop: "play_loop agents (init_play_state g first fmt) = Inr st"
    and sc: "calculateFinalScores (objective (game st)) (item_counts (game st)) (player_values (game st))
               (proposals (game st)) = Inr (p0_score out, p1_score out)"
    by (rule play_game_Inr)
  from play_loop_keeps[OF loop] assms(2) have "objective (game st) = Comp"
    by (simp add: init_play_state_def Let_def)
  with final_scores_coop_comp[OF sc] have "p0_score out = - p1_score out" by simp
  with assms(3) extract_final_scores_nonneg[OF ex] show False by simp
qed

end
