(* ===== verification/Trials.thy ===== *)
theory Trials
  imports Session Utils
begin

text \<open>
  The batch driver \<open>simulate_trials\<close> of \<open>src/play.py\<close>. Each trial creates
  its five log files with \<open>open(name, "x")\<close>, reads two context lines of
  \<open>data/selfplay.txt\<close> at a random index, builds a \<open>NegotiationGame\<close>, plays it
  with two \<open>ClosedSourceChatPlayer\<close>s, appends the two scores to the score
  ledgers \<open>p0_scores\<close> and \<open>p1_scores\<close>, writes both players' logs as JSON and the
  summary \<open>results/NNN.json\<close>. The output directory is the record
  \<open>trial_files\<close>: the names of the files created so far, and the contents that
  the readers of \<open>Analysis\<close> and \<open>Utils\<close> take (full text logs, JSON logs and
  results by file name, the two ledgers as lists of lines). The random indices,
  the players of each trial, the coin for the first turn, the prompt text of each
  objective and the tokenizer are parameters. The players' own text logs
  (\<open>NNN_p0.txt\<close>, \<open>NNN_p1.txt\<close>) are created here and written only by
  \<open>players.py\<close>; their contents are not modelled. The lemmas show that the
  ledgers, the summaries and the context lines of the text logs read back, and
  that the run stops at the 1000th trial.
\<close>

section \<open>The output directory\<close>

record trial_files =
  tf_created :: "string list"
  tf_text_logs :: "string \<Rightarrow> string option"
  tf_json_logs :: "string \<Rightarrow> chat option"
  tf_results :: "string \<Rightarrow> result_rec option"
  tf_p0_scores :: "string list"
  tf_p1_scores :: "string list"

text \<open>\<open>open(name, "x")\<close>: \<open>FileExistsError\<close> when the file exists, else an empty file.\<close>

definition create_x :: "trial_files \<Rightarrow> string \<Rightarrow> trial_files result" where
  "create_x fs name =
     (if name \<in> set (tf_created fs) then Inl FileExistsError
      else Inr (fs\<lparr>tf_created := tf_created fs @ [name]\<rparr>))"

definition empty_dir :: trial_files where
  "empty_dir = \<lparr>tf_created = [], tf_text_logs = Map.empty, tf_json_logs = Map.empty,
                tf_results = Map.empty, tf_p0_scores = [], tf_p1_scores = []\<rparr>"

section \<open>One trial\<close>

text \<open>The five log files of trial \<open>index\<close>, created in this order (lines 46-60).\<close>

definition create_logs :: "trial_files \<Rightarrow> string \<Rightarrow> trial_files result" where
  "create_logs fs0 index =
     ebind (create_x fs0 (''text_logs/'' @ index @ ''_full.txt'')) (\<lambda>fs1.
     ebind (create_x fs1 (''text_logs/'' @ index @ ''_p0.txt'')) (\<lambda>fs2.
     ebind (create_x fs2 (''text_logs/'' @ index @ ''_p1.txt'')) (\<lambda>fs3.
     ebind (create_x fs3 (''json_logs/'' @ index @ ''_p0.json'')) (\<lambda>fs4.
     create_x fs4 (''json_logs/'' @ index @ ''_p1.json'')))))"

text \<open>The line \<open>f"{score} \n"\<close> appended to a score ledger.\<close>

definition score_line :: "int \<Rightarrow> string" where
  "score_line s = show_int s @ '' \<newline>''"

definition summary :: "game \<Rightarrow> outcome \<Rightarrow> result_rec" where
  "summary g out =
     \<lparr>r_counts = item_counts g, r_p0_values = player_values g ! 0, r_p1_values = player_values g ! 1,
      r_p0_allocation = proposals g ! 0, r_p1_allocation = proposals g ! 1,
      r_p0_score = p0_score out, r_p1_score = p1_score out,
      r_messages = int (msg_cnt out), r_tokens = int (token_cnt out), r_valid = is_valid_deal out\<rparr>"

text \<open>
  The body of \<open>for i in range(0, num_runs)\<close>; it returns the directory and the two
  scores appended to \<open>p0_outcomes\<close> and \<open>p1_outcomes\<close>.
\<close>

definition run_trial ::
  "string list \<Rightarrow> nat list \<Rightarrow> string \<Rightarrow> (nat \<Rightarrow> agent list) \<Rightarrow> (nat \<Rightarrow> nat)
     \<Rightarrow> (objective \<Rightarrow> pydict \<Rightarrow> pydict \<Rightarrow> string) \<Rightarrow> (string \<Rightarrow> nat) \<Rightarrow> nat \<Rightarrow> trial_files
     \<Rightarrow> (trial_files \<times> int \<times> int) result" where
  "run_trial lines random_indices obj players first prompt tok i fs0 =
     (let index = index_name i in
      ebind (create_logs fs0 index) (\<lambda>fs.
      ebind (list_get random_indices i) (\<lambda>r.
      ebind (list_get lines (r * 2)) (\<lambda>l0. ebind (parse_context l0) (\<lambda>(cnts, p1_vals).
      ebind (list_get lines (r * 2 + 1)) (\<lambda>l1. ebind (parse_context l1) (\<lambda>(_, p2_vals).
      ebind (three_items cnts) (\<lambda>c. ebind (three_items p1_vals) (\<lambda>v0. ebind (three_items p2_vals) (\<lambda>v1.
      ebind (init_game (Some c) (Some v0) (Some v1) obj) (\<lambda>(g, hdr).
      ebind (play_game (players i) (first i) (prompt (objective g)) tok g) (\<lambda>(g', out, flog).
        Inr (fs\<lparr>tf_text_logs := (tf_text_logs fs)(index @ ''_full.txt'' \<mapsto> hdr @ flog),
                tf_json_logs := (tf_json_logs fs)(index @ ''_p0.json'' \<mapsto> p0_log out,
                                                  index @ ''_p1.json'' \<mapsto> p1_log out),
                tf_results := (tf_results fs)(index @ ''.json'' \<mapsto> summary g' out),
                tf_p0_scores := tf_p0_scores fs @ [score_line (p0_score out)],
                tf_p1_scores := tf_p1_scores fs @ [score_line (p1_score out)]\<rparr>,
             p0_score out, p1_score out)))))))))))))"

section \<open>The loop\<close>

fun trials_loop ::
  "string list \<Rightarrow> nat list \<Rightarrow> string \<Rightarrow> (nat \<Rightarrow> agent list) \<Rightarrow> (nat \<Rightarrow> nat)
     \<Rightarrow> (objective \<Rightarrow> pydict \<Rightarrow> pydict \<Rightarrow> string) \<Rightarrow> (string \<Rightarrow> nat) \<Rightarrow> nat list \<Rightarrow> trial_files
     \<Rightarrow> (trial_files \<times> int list \<times> int list) result" where
  "trials_loop lines ris obj players first prompt tok [] fs = Inr (fs, [], [])"
| "trials_loop lines ris obj players first prompt tok (i # is) fs =
     ebind (run_trial lines ris obj players first prompt tok i fs) (\<lambda>(fs', s0, s1).
     ebind (trials_loop lines ris obj players first prompt tok is fs') (\<lambda>(fs'', o0, o1).
       Inr (fs'', s0 # o0, s1 # o1)))"

definition simulate_trials ::
  "string list \<Rightarrow> nat list \<Rightarrow> string \<Rightarrow> (nat \<Rightarrow> agent list) \<Rightarrow> (nat \<Rightarrow> nat)
     \<Rightarrow> (objective \<Rightarrow> pydict \<Rightarrow> pydict \<Rightarrow> string) \<Rightarrow> (string \<Rightarrow> nat) \<Rightarrow> nat \<Rightarrow> trial_files
     \<Rightarrow> (trial_files \<times> int list \<times> int list) result" where
  "simulate_trials lines random_indices obj players first prompt tok num_runs fs =
     trials_loop lines random_indices obj players first prompt tok [0..<num_runs] fs"

section \<open>Contexts read back from the output\<close>

text \<open>
  What \<open>analysis.generate_game_contexts\<close> should read back from a trial's
  full text log: the result file's dictionaries with the plural item names the
  log's context lines use. \<open>logs_match\<close> relates each result file
  \<open>NNN.json\<close> to the full text log \<open>NNN_full.txt\<close> whose context lines the
  constructor wrote for the same dictionaries.
\<close>

definition plural_keys :: "pydict \<Rightarrow> pydict" where
  "plural_keys d = map (\<lambda>(k, v). (k @ ''s'', v)) d"

definition context_of :: "result_rec \<Rightarrow> game_context" where
  "context_of r =
     \<lparr>ctx_counts = Some (plural_keys (r_counts r)), ctx_p0_values = Some (plural_keys (r_p0_values r)),
      ctx_p1_values = Some (plural_keys (r_p1_values r))\<rparr>"

definition logs_match :: "string \<Rightarrow> trial_files \<Rightarrow> bool" where
  "logs_match obj fs \<longleftrightarrow>
     (\<forall>f r. tf_results fs f = Some r \<longrightarrow>
        (\<exists>k b h l b0 h0 l0 b1 h1 l1 g hdr flog. f = k @ ''.json''
           \<and> r_counts r = mk_items b h l \<and> r_p0_values r = mk_items b0 h0 l0 \<and> r_p1_values r = mk_items b1 h1 l1
           \<and> init_game (Some (r_counts r)) (Some (r_p0_values r)) (Some (r_p1_values r)) obj = Inr (g, hdr)
           \<and> tf_text_logs fs (k @ ''_full.txt'') = Some (hdr @ flog)))"

text \<open>The persisted outcome record agrees with the scoring of its own fields.\<close>

definition results_consistent :: "string \<Rightarrow> trial_files \<Rightarrow> bool" where
  "results_consistent obj fs \<longleftrightarrow>
     (\<forall>f r. tf_results fs f = Some r \<longrightarrow>
        (\<exists>ob. objective_of_string obj = Inr ob
           \<and> calculateFinalScores ob (r_counts r) [r_p0_values r, r_p1_values r] [r_p0_allocation r, r_p1_allocation r]
               = Inr (r_p0_score r, r_p1_score r)
           \<and> isValidDeal (r_counts r) [r_p0_allocation r, r_p1_allocation r] = Inr (r_valid r)))"

section \<open>Lemmas\<close>

lemma create_x_Inr:
  "create_x fs name = Inr fs' \<longleftrightarrow> name \<notin> set (tf_created fs) \<and> fs' = fs\<lparr>tf_created := tf_created fs @ [name]\<rparr>"
  by (auto simp: create_x_def)

lemma create_logs_Inr:
  assumes "create_logs fs index = Inr fs'"
  shows "\<exists>ns. fs' = fs\<lparr>tf_created := tf_created fs @ ns\<rparr>
           \<and> ''text_logs/'' @ index @ ''_full.txt'' \<in> set ns
           \<and> ''text_logs/'' @ index @ ''_full.txt'' \<notin> set (tf_created fs)"
  using assms by (auto simp: create_logs_def ebind_eq_Inr create_x_Inr)

lemma run_trial_Inr:
  assumes "run_trial lines ris obj players first prompt tok i fs = Inr (fs', s0, s1)"
  shows "(\<exists>ns. tf_created fs' = tf_created fs @ ns
               \<and> ''text_logs/'' @ index_name i @ ''_full.txt'' \<in> set ns)
    \<and> ''text_logs/'' @ index_name i @ ''_full.txt'' \<notin> set (tf_created fs)
    \<and> tf_p0_scores fs' = tf_p0_scores fs @ [score_line s0]
    \<and> tf_p1_scores fs' = tf_p1_scores fs @ [score_line s1]
    \<and> (\<exists>l0 l1. tf_json_logs fs' = (tf_json_logs fs)(index_name i @ ''_p0.json'' \<mapsto> l0,
                                                  index_name i @ ''_p1.json'' \<mapsto> l1))"
proof -
  from assms obtain fs1 t l0 l1 sm where c: "create_logs fs (index_name i) = Inr fs1"
    and rest: "fs' = fs1\<lparr>tf_text_logs := (tf_text_logs fs1)(index_name i @ ''_full.txt'' \<mapsto> t),
                tf_json_logs := (tf_json_logs fs1)(index_name i @ ''_p0.json'' \<mapsto> l0, index_name i @ ''_p1.json'' \<mapsto> l1),
                tf_results := (tf_results fs1)(index_name i @ ''.json'' \<mapsto> sm),
                tf_p0_scores := tf_p0_scores fs1 @ [score_line s0],
                tf_p1_scores := tf_p1_scores fs1 @ [score_line s1]\<rparr>"
    by (auto simp: run_trial_def Let_def ebind_eq_Inr split: prod.splits)
  from create_logs_Inr[OF c] obtain ns where
    fs1: "fs1 = fs\<lparr>tf_created := tf_created fs @ ns\<rparr>"
    and ns: "''text_logs/'' @ index_name i @ ''_full.txt'' \<in> set ns"
             "''text_logs/'' @ index_name i @ ''_full.txt'' \<notin> set (tf_created fs)" by blast
  from rest fs1 ns show ?thesis by auto
qed


lemma trials_loop_Inr:
  assumes "trials_loop lines ris obj players first prompt tok xs fs = Inr (fs', o0, o1)"
  shows "length o0 = length xs \<and> length o1 = length xs
    \<and> tf_p0_scores fs' = tf_p0_scores fs @ map score_line o0
    \<and> tf_p1_scores fs' = tf_p1_scores fs @ map score_line o1
    \<and> distinct (map (\<lambda>i. ''text_logs/'' @ index_name i @ ''_full.txt'') xs)
    \<and> (\<forall>i \<in> set xs. ''text_logs/'' @ index_name i @ ''_full.txt'' \<notin> set (tf_created fs))
    \<and> set (tf_created fs) \<subseteq> set (tf_created fs')
    \<and> (\<forall>i \<in> set xs. tf_json_logs fs' (index_name i @ ''_p0.json'') \<noteq> None
                   \<and> tf_json_logs fs' (index_name i @ ''_p1.json'') \<noteq> None)
    \<and> (\<forall>k. tf_json_logs fs k \<noteq> None \<longrightarrow> tf_json_logs fs' k \<noteq> None)"
  using assms
proof (induction xs arbitrary: fs fs' o0 o1)
  case Nil
  then show ?case by simp
next
  case (Cons i xs)
  from Cons.prems obtain fs1 s0 s1 o0' o1' where
    r: "run_trial lines ris obj players first prompt tok i fs = Inr (fs1, s0, s1)"
    and l: "trials_loop lines ris obj players first prompt tok xs fs1 = Inr (fs', o0', o1')"
    and o: "o0 = s0 # o0'" "o1 = s1 # o1'"
    by (auto simp: ebind_eq_Inr split: prod.splits)
  note R = run_trial_Inr[OF r] and IH = Cons.IH[OF l]
  from R obtain ns where ns: "tf_created fs1 = tf_created fs @ ns"
    "''text_logs/'' @ index_name i @ ''_full.txt'' \<in> set ns" by blast
  from R obtain j0 j1 where j: "tf_json_logs fs1 = (tf_json_logs fs)(index_name i @ ''_p0.json'' \<mapsto> j0,
                                                  index_name i @ ''_p1.json'' \<mapsto> j1)" by blast
  have fresh: "''text_logs/'' @ index_name i @ ''_full.txt'' \<notin> (\<lambda>i. ''text_logs/'' @ index_name i @ ''_full.txt'') ` set xs"
    using IH ns by auto
  show ?case using R IH ns j o fresh by auto
qed

lemma space_nl [simp]: "py_space (CHR '' '')" "py_space (CHR ''\<newline>'')"
  by code_simp+

lemma py_strip_score_line: "py_strip (score_line s) = show_int s"
proof -
  have ns: "\<forall>x \<in> set (show_int s). \<not> py_space x" and ne: "show_int s \<noteq> []"
    using show_int_word by blast+
  have d: "dropWhile py_space (score_line s) = score_line s"
    using ns ne by (cases "show_int s") (simp_all add: score_line_def)
  have r: "dropWhile py_space (rev (show_int s)) = rev (show_int s)"
    using ns by (cases "rev (show_int s)") (auto dest: arg_cong[where f = set])
  have "rev (score_line s) = CHR ''\<newline>'' # CHR '' '' # rev (show_int s)"
    by (simp add: score_line_def)
  with d r show ?thesis by (simp add: py_strip_def)
qed

lemma py_int_str_strip: "py_strip x = py_strip y \<Longrightarrow> py_int_str x = py_int_str y"
  by (simp add: py_int_str_def)

lemma py_int_str_score_line: "py_int_str (score_line s) = Inr s"
proof -
  have "py_strip (score_line s) = py_strip (show_int s)"
    using show_int_word[of s] by (simp add: py_strip_score_line py_strip_id)
  then show ?thesis by (simp add: py_int_str_strip py_int_str_show_int)
qed

lemma map_score_lines: "map_result py_int_str (map score_line xs) = Inr xs"
  by (induction xs) (simp_all add: py_int_str_score_line)


lemma simulate_trials_Inr:
  assumes "simulate_trials lines ris obj players first prompt tok n empty_dir = Inr (fs, o0, o1)"
  shows "tf_p0_scores fs = map score_line o0 \<and> tf_p1_scores fs = map score_line o1
    \<and> length o0 = n \<and> length o1 = n
    \<and> (\<forall>i < n. tf_json_logs fs (index_name i @ ''_p0.json'') \<noteq> None
               \<and> tf_json_logs fs (index_name i @ ''_p1.json'') \<noteq> None)"
  using trials_loop_Inr[OF assms[unfolded simulate_trials_def]] by (simp add: empty_dir_def)

text \<open>C4: The score ledgers that \<open>simulate_trials\<close> writes, one line \<open>f"{score} \n"\<close> per game, are read back by \<open>int(line.strip())\<close> (as \<open>analyze\<close>, \<open>concatenate\<close> and \<open>calculate_avg_score\<close> do) as exactly the games' scores, in game order, and \<open>calculate_avg_score\<close> of player 0's ledger is the mean of player 0's outcomes.\<close>

theorem ledger_roundtrip:
  assumes "simulate_trials lines ris obj players first prompt tok n empty_dir = Inr (fs, o0, o1)"
  shows "map_result py_int_str (tf_p0_scores fs) = Inr o0 \<and> map_result py_int_str (tf_p1_scores fs) = Inr o1
    \<and> length o0 = n \<and> length o1 = n \<and> calculate_avg_score (tf_p0_scores fs) = Inr (py_mean o0)"
  using simulate_trials_Inr[OF assms] by (simp add: map_score_lines calculate_avg_score_def)

text \<open>C11: \<open>simulate_trials\<close> returns only for at most 1000 runs: trial 1000 gets the index \<open>"000"\<close> of trial 0 and \<open>open(..., "x")\<close> raises \<open>FileExistsError\<close> on the existing log file.\<close>

theorem simulate_trials_at_most_1000:
  assumes "simulate_trials lines ris obj players first prompt tok n fs = Inr r"
  shows "n \<le> 1000"
proof (rule ccontr)
  assume "\<not> n \<le> 1000"
  then have in_set: "0 \<in> set [0..<n]" "1000 \<in> set [0..<n]" by auto
  obtain fs' o0 o1 where "r = (fs', o0, o1)" by (cases r)
  with assms have "distinct (map (\<lambda>i. ''text_logs/'' @ index_name i @ ''_full.txt'') [0..<n])"
    using trials_loop_Inr by (simp add: simulate_trials_def)
  then have "inj_on (\<lambda>i. ''text_logs/'' @ index_name i @ ''_full.txt'') (set [0..<n])"
    by (simp add: distinct_map)
  moreover have "index_name 1000 = index_name 0"
    using last3_shift[of 0] by (simp add: index_name_last3)
  ultimately have "(1000::nat) = 0" using in_set by (auto dest: inj_onD)
  then show False by simp
qed

text \<open>C30: On the output of \<open>simulate_trials\<close>, \<open>utils.concatenate\<close> with the filter \<open>above_avg\<close> (not competitive) writes exactly the JSON logs of player 0 in the games where player 0 scored above the mean of all scores, in game order, followed by those of player 1 in the games where player 1 did.\<close>

theorem concatenate_selects_above_avg:
  assumes "simulate_trials lines ris obj players first prompt tok n empty_dir = Inr (fs, o0, o1)"
  shows "concatenate (tf_p0_scores fs) (tf_p1_scores fs) (tf_results fs) (tf_json_logs fs) ''above_avg'' False
     = Inr (map (\<lambda>i. the (tf_json_logs fs (index_name i @ ''_p0.json'')))
                (filter (\<lambda>i. above (o0 ! i) (py_mean (o0 @ o1))) [0..<n])
          @ map (\<lambda>i. the (tf_json_logs fs (index_name i @ ''_p1.json'')))
                (filter (\<lambda>i. above (o1 ! i) (py_mean (o0 @ o1))) [0..<n]))"
proof -
  note S = simulate_trials_Inr[OF assms]
  then have sel: "select_games (tf_results fs) False (py_mean (o0 @ o1)) o0 o1 [0..<length o0]
     = Inr (filter (\<lambda>i. above (o0 ! i) (py_mean (o0 @ o1))) [0..<n],
            filter (\<lambda>i. above (o1 ! i) (py_mean (o0 @ o1))) [0..<n])"
    by (simp add: select_games_noncomp)
  from S have l0: "map_result (\<lambda>i. open_file (tf_json_logs fs) (index_name i @ ''_p0.json''))
                      (filter (\<lambda>i. above (o0 ! i) (py_mean (o0 @ o1))) [0..<n])
      = Inr (map (\<lambda>i. the (tf_json_logs fs (index_name i @ ''_p0.json'')))
                (filter (\<lambda>i. above (o0 ! i) (py_mean (o0 @ o1))) [0..<n]))"
    by (intro map_result_open_file) auto
  from S have l1: "map_result (\<lambda>i. open_file (tf_json_logs fs) (index_name i @ ''_p1.json''))
                      (filter (\<lambda>i. above (o1 ! i) (py_mean (o0 @ o1))) [0..<n])
      = Inr (map (\<lambda>i. the (tf_json_logs fs (index_name i @ ''_p1.json'')))
                (filter (\<lambda>i. above (o1 ! i) (py_mean (o0 @ o1))) [0..<n]))"
    by (intro map_result_open_file) auto
  from S sel l0 l1 show ?thesis
    by (simp add: concatenate_def map_score_lines concat_cutoff_def)
qed

section \<open>Contexts and the dataset ceiling\<close>

lemma three_items_Inr: "three_items xs = Inr c \<Longrightarrow> \<exists>b h l. c = mk_items b h l"
  by (auto simp: three_items_def ebind_eq_Inr)

lemma init_game_Some:
  "init_game (Some c) (Some v0) (Some v1) obj = Inr (g, hdr) \<Longrightarrow> item_counts g = c \<and> player_values g = [v0, v1]"
  by (auto simp: init_game_def ebind_eq_Inr Let_def)

lemma play_game_keeps:
  assumes "play_game agents first fmt tok g = Inr (g', out, flog)"
  shows "item_counts g' = item_counts g \<and> player_values g' = player_values g"
proof -
  from assms obtain st where loop: "play_loop agents (init_play_state g first fmt) = Inr st"
    and g': "g' = (game st)\<lparr>final_scores := Some (p0_score out, p1_score out)\<rparr>"
    by (auto simp: play_game_def ebind_eq_Inr Let_def split: prod.splits)
  from play_loop_keeps[OF loop] g' show ?thesis by (simp add: init_play_state_def Let_def)
qed

lemma create_logs_keeps:
  "create_logs fs (index_name i) = Inr fs1 \<Longrightarrow> tf_results fs1 = tf_results fs \<and> tf_text_logs fs1 = tf_text_logs fs"
  by (drule create_logs_Inr) auto

lemma run_trial_summary:
  assumes "run_trial lines ris obj players first prompt tok i fs = Inr (fs', s0, s1)"
  obtains fs1 cnts c p0v v0 p1v v1 g hdr g' out flog where
    "create_logs fs (index_name i) = Inr fs1" "three_items cnts = Inr c"
    "three_items p0v = Inr v0" "three_items p1v = Inr v1"
    "init_game (Some c) (Some v0) (Some v1) obj = Inr (g, hdr)"
    "play_game (players i) (first i) (prompt (objective g)) tok g = Inr (g', out, flog)"
    "tf_results fs' = (tf_results fs1)(index_name i @ ''.json'' \<mapsto> summary g' out)"
    "tf_text_logs fs' = (tf_text_logs fs1)(index_name i @ ''_full.txt'' \<mapsto> hdr @ flog)"
  using assms by (auto simp: run_trial_def Let_def ebind_eq_Inr split: prod.splits)


lemma run_trial_logs_match:
  assumes run: "run_trial lines ris obj players first prompt tok i fs = Inr (fs', s0, s1)"
    and inv: "logs_match obj fs"
  shows "logs_match obj fs'"
proof -
  from run obtain fs1 cnts c p0v v0 p1v v1 g hdr g' out flog where
    cl: "create_logs fs (index_name i) = Inr fs1" and c: "three_items cnts = Inr c"
    and c0: "three_items p0v = Inr v0" and c1: "three_items p1v = Inr v1"
    and ig: "init_game (Some c) (Some v0) (Some v1) obj = Inr (g, hdr)"
    and pg: "play_game (players i) (first i) (prompt (objective g)) tok g = Inr (g', out, flog)"
    and rs: "tf_results fs' = (tf_results fs1)(index_name i @ ''.json'' \<mapsto> summary g' out)"
    and ts: "tf_text_logs fs' = (tf_text_logs fs1)(index_name i @ ''_full.txt'' \<mapsto> hdr @ flog)"
    by (rule run_trial_summary)
  have keep: "tf_results fs1 = tf_results fs" "tf_text_logs fs1 = tf_text_logs fs"
    using create_logs_keeps[OF cl] by auto
  have sm: "r_counts (summary g' out) = c" "r_p0_values (summary g' out) = v0"
    "r_p1_values (summary g' out) = v1"
    using play_game_keeps[OF pg] init_game_Some[OF ig] by (simp_all add: summary_def)
  show ?thesis unfolding logs_match_def
  proof (intro allI impI)
    fix f r assume fr: "tf_results fs' f = Some r"
    show "\<exists>k b h l b0 h0 l0 b1 h1 l1 g hdr flog. f = k @ ''.json''
           \<and> r_counts r = mk_items b h l \<and> r_p0_values r = mk_items b0 h0 l0 \<and> r_p1_values r = mk_items b1 h1 l1
           \<and> init_game (Some (r_counts r)) (Some (r_p0_values r)) (Some (r_p1_values r)) obj = Inr (g, hdr)
           \<and> tf_text_logs fs' (k @ ''_full.txt'') = Some (hdr @ flog)"
    proof (cases "f = index_name i @ ''.json''")
      case True
      with fr rs have "r = summary g' out" by simp
      then show ?thesis using True sm ig ts three_items_Inr[OF c] three_items_Inr[OF c0] three_items_Inr[OF c1]
        by fastforce
    next
      case False
      with fr rs keep have "tf_results fs f = Some r" by simp
      from inv[unfolded logs_match_def, rule_format, OF this] obtain k b h l b0 h0 l0 b1 h1 l1 g0 hdr0 flog0 where
        k: "f = k @ ''.json''" and m: "r_counts r = mk_items b h l" "r_p0_values r = mk_items b0 h0 l0"
          "r_p1_values r = mk_items b1 h1 l1"
        and ig0: "init_game (Some (r_counts r)) (Some (r_p0_values r)) (Some (r_p1_values r)) obj = Inr (g0, hdr0)"
        and t0: "tf_text_logs fs (k @ ''_full.txt'') = Some (hdr0 @ flog0)"
        by blast
      from False k have "k \<noteq> index_name i" by auto
      then have "tf_text_logs fs' (k @ ''_full.txt'') = Some (hdr0 @ flog0)"
        using ts keep t0 by simp
      then show ?thesis using k m ig0 by blast
    qed
  qed
qed

lemma trials_loop_logs_match:
  "trials_loop lines ris obj players first prompt tok xs fs = Inr (fs', o0, o1) \<Longrightarrow>
   logs_match obj fs \<Longrightarrow> logs_match obj fs'"
proof (induction xs arbitrary: fs fs' o0 o1)
  case Nil
  then show ?case by simp
next
  case (Cons i xs)
  from Cons.prems(1) obtain fs1 s0 s1 o0' o1' where
    r: "run_trial lines ris obj players first prompt tok i fs = Inr (fs1, s0, s1)"
    and l: "trials_loop lines ris obj players first prompt tok xs fs1 = Inr (fs', o0', o1')"
    by (auto simp: ebind_eq_Inr split: prod.splits)
  from run_trial_logs_match[OF r Cons.prems(2)] show ?case by (rule Cons.IH[OF l])
qed

lemma simulate_trials_logs_match:
  "simulate_trials lines ris obj players first prompt tok n empty_dir = Inr (fs, o0, o1) \<Longrightarrow> logs_match obj fs"
  unfolding simulate_trials_def
  by (erule trials_loop_logs_match) (simp add: logs_match_def empty_dir_def)


lemma show_int_nonneg: "0 \<le> x \<Longrightarrow> show_int x = show_nat (nat x)"
  by (simp add: show_int_def)

lemma init_game_header:
  "init_game (Some (mk_items b h l)) (Some (mk_items b0 h0 l0)) (Some (mk_items b1 h1 l1)) obj = Inr (g, hdr) \<Longrightarrow>
   hdr = (''Item counts: there are '' @ show_int b @ '' books, '' @ show_int h @ '' hats, and '' @ show_int l
        @ '' balls.\<newline>'')
      @ (''Player 0 values: books are worth '' @ show_int b0 @ '' points, hats are worth '' @ show_int h0
        @ '' points, and balls are worth '' @ show_int l0 @ '' points.\<newline>'')
      @ (''Player 1 values: books are worth '' @ show_int b1 @ '' points, hats are worth '' @ show_int h1
        @ '' points, and balls are worth '' @ show_int l1 @ '' points.\<newline>'')
      @ ''\<newline>\<newline>''"
  by (auto simp: init_game_def item_context_def value_context_def ebind_eq_Inr Let_def mk_items_def dict_get_def)

lemma index_name_length: "length (index_name i) = 3"
  by (simp add: index_name_last3 last3_def)

lemma full_txt_name: "endswith (index_name i @ ''_full.txt'') ''full.txt''"
  by (simp add: endswith_def startswith_def)

text \<open>C21: For every result file that a run of \<open>simulate_trials\<close> writes, with non-negative counts and values, \<open>generate_game_contexts\<close> reads from the trial's full text log a context holding exactly the result's counts and both players' values, with the keys in the plural.\<close>

theorem game_context_roundtrip:
  assumes run: "simulate_trials lines ris obj players first prompt tok n empty_dir = Inr (fs, o0, o1)"
    and res: "tf_results fs (index_name i @ ''.json'') = Some r"
    and nn: "list_all (\<lambda>(k, v). 0 \<le> v) (r_counts r @ r_p0_values r @ r_p1_values r)"
  shows "generate_game_contexts (tf_text_logs fs) [index_name i @ ''_full.txt''] ctxs
           = Inr (ctxs(index_name i @ ''.json'' \<mapsto> context_of r))"
proof -
  from simulate_trials_logs_match[OF run, unfolded logs_match_def, rule_format, OF res]
  obtain k b h l b0 h0 l0 b1 h1 l1 g hdr flog where
    k: "index_name i @ ''.json'' = k @ ''.json''"
    and m: "r_counts r = mk_items b h l" "r_p0_values r = mk_items b0 h0 l0" "r_p1_values r = mk_items b1 h1 l1"
    and ig: "init_game (Some (r_counts r)) (Some (r_p0_values r)) (Some (r_p1_values r)) obj = Inr (g, hdr)"
    and t: "tf_text_logs fs (k @ ''_full.txt'') = Some (hdr @ flog)"
    by blast
  from k have ki: "k = index_name i" by simp
  from nn m have z: "0 \<le> b" "0 \<le> h" "0 \<le> l" "0 \<le> b0" "0 \<le> h0" "0 \<le> l0" "0 \<le> b1" "0 \<le> h1" "0 \<le> l1"
    by (simp_all add: mk_items_def)
  from init_game_header[OF ig[unfolded m]] z have hdr:
    "hdr = (''Item counts: there are '' @ show_nat (nat b) @ '' books, '' @ show_nat (nat h) @ '' hats, and ''
        @ show_nat (nat l) @ '' balls.\<newline>'')
      @ (''Player 0 values: books are worth '' @ show_nat (nat b0) @ '' points, hats are worth '' @ show_nat (nat h0)
        @ '' points, and balls are worth '' @ show_nat (nat l0) @ '' points.\<newline>'')
      @ (''Player 1 values: books are worth '' @ show_nat (nat b1) @ '' points, hats are worth '' @ show_nat (nat h1)
        @ '' points, and balls are worth '' @ show_nat (nat l1) @ '' points.\<newline>'')
      @ ''\<newline>\<newline>''"
    by (simp add: show_int_nonneg)
  have "context_of r = parse_game_context
      ((''Item counts: there are '' @ show_nat (nat b) @ '' books, '' @ show_nat (nat h) @ '' hats, and ''
        @ show_nat (nat l) @ '' balls.\<newline>'')
      @ (''Player 0 values: books are worth '' @ show_nat (nat b0) @ '' points, hats are worth '' @ show_nat (nat h0)
        @ '' points, and balls are worth '' @ show_nat (nat l0) @ '' points.\<newline>'')
      @ (''Player 1 values: books are worth '' @ show_nat (nat b1) @ '' points, hats are worth '' @ show_nat (nat h1)
        @ '' points, and balls are worth '' @ show_nat (nat l1) @ '' points.\<newline>''))"
    unfolding parse_header using z m by (simp add: context_of_def plural_keys_def mk_items_def)
  then show ?thesis
    using t[unfolded ki hdr] first_lines_header
    by (simp add: full_txt_name index_name_length open_file_def)
qed

text \<open>C24: \<open>utils.calculate_dataset_ceiling_performance\<close> reads the result files that \<open>simulate_trials\<close> writes; their counts have the singular keys, which \<open>calculate_maximum_collective_score\<close> does not index, so on any listing that starts with one of them it raises \<open>KeyError\<close>.\<close>

theorem ceiling_on_trials_key_error:
  assumes "simulate_trials lines ris obj players first prompt tok n empty_dir = Inr (fs, o0, o1)"
    and "tf_results fs f \<noteq> None"
  shows "calculate_dataset_ceiling_performance (tf_results fs) (f # listing) obj' = Inl KeyError"
proof -
  from assms(2) obtain r where r: "tf_results fs f = Some r" by auto
  from simulate_trials_logs_match[OF assms(1), unfolded logs_match_def, rule_format, OF r]
  obtain b h l where "r_counts r = mk_items b h l" by blast
  with r show ?thesis
    by (simp add: calculate_dataset_ceiling_performance_def open_file_def max_collective_score_key_error)
qed

lemma scores_first_two:
  "calculateFinalScores ob c vals props = calculateFinalScores ob c [vals ! 0, vals ! 1] [props ! 0, props ! 1]"
  "isValidDeal c props = isValidDeal c [props ! 0, props ! 1]"
  unfolding calculateFinalScores_def isValidDeal_def ebind_def Let_def
  by (simp_all split: sum.split option.split objective.split)

lemma play_game_outcome:
  assumes "play_game agents first fmt tok g = Inr (g', out, flog)"
  shows "calculateFinalScores (objective g) (item_counts g) (player_values g) (proposals g') = Inr (p0_score out, p1_score out)
     \<and> isValidDeal (item_counts g) (proposals g') = Inr (is_valid_deal out)"
proof -
  from assms obtain st where loop: "play_loop agents (init_play_state g first fmt) = Inr st"
    and sc: "calculateFinalScores (objective (game st)) (item_counts (game st)) (player_values (game st)) (proposals (game st))
       = Inr (p0_score out, p1_score out)"
    and v: "isValidDeal (item_counts (game st)) (proposals (game st)) = Inr (is_valid_deal out)"
    and g': "proposals g' = proposals (game st)"
    by (auto simp: play_game_def ebind_eq_Inr Let_def split: prod.splits)
  from play_loop_keeps[OF loop] sc v g' show ?thesis by (simp add: init_play_state_def Let_def)
qed

lemma init_game_objective:
  "init_game c0 c1 c2 obj = Inr (g, hdr) \<Longrightarrow> objective_of_string obj = Inr (objective g)"
  by (auto simp: init_game_def ebind_eq_Inr Let_def)

lemma run_trial_consistent:
  assumes run: "run_trial lines ris obj players first prompt tok i fs = Inr (fs', s0, s1)"
    and inv: "results_consistent obj fs"
  shows "results_consistent obj fs'"
proof -
  from run obtain fs1 cnts c p0v v0 p1v v1 g hdr g' out flog where
    cl: "create_logs fs (index_name i) = Inr fs1"
    and ig: "init_game (Some c) (Some v0) (Some v1) obj = Inr (g, hdr)"
    and pg: "play_game (players i) (first i) (prompt (objective g)) tok g = Inr (g', out, flog)"
    and rs: "tf_results fs' = (tf_results fs1)(index_name i @ ''.json'' \<mapsto> summary g' out)"
    by (rule run_trial_summary)
  have keep: "tf_results fs1 = tf_results fs" using create_logs_keeps[OF cl] by auto
  have pv: "item_counts g = c" "player_values g = [v0, v1]" using init_game_Some[OF ig] by auto
  have kp: "item_counts g' = item_counts g" "player_values g' = player_values g"
    using play_game_keeps[OF pg] by auto
  have new: "\<exists>ob. objective_of_string obj = Inr ob
      \<and> calculateFinalScores ob (r_counts (summary g' out)) [r_p0_values (summary g' out), r_p1_values (summary g' out)]
          [r_p0_allocation (summary g' out), r_p1_allocation (summary g' out)]
        = Inr (r_p0_score (summary g' out), r_p1_score (summary g' out))
      \<and> isValidDeal (r_counts (summary g' out)) [r_p0_allocation (summary g' out), r_p1_allocation (summary g' out)]
        = Inr (r_valid (summary g' out))"
    using play_game_outcome[OF pg] init_game_objective[OF ig] pv kp
    by (simp add: summary_def scores_first_two(1)[of _ _ _ "proposals g'"] scores_first_two(2)[of _ "proposals g'"])
  show ?thesis unfolding results_consistent_def
  proof (intro allI impI)
    fix f r assume fr: "tf_results fs' f = Some r"
    show "\<exists>ob. objective_of_string obj = Inr ob
           \<and> calculateFinalScores ob (r_counts r) [r_p0_values r, r_p1_values r] [r_p0_allocation r, r_p1_allocation r]
               = Inr (r_p0_score r, r_p1_score r)
           \<and> isValidDeal (r_counts r) [r_p0_allocation r, r_p1_allocation r] = Inr (r_valid r)"
    proof (cases "f = index_name i @ ''.json''")
      case True
      with fr rs new show ?thesis by simp
    next
      case False
      with fr rs keep have "tf_results fs f = Some r" by simp
      with inv show ?thesis unfolding results_consistent_def by blast
    qed
  qed
qed

lemma trials_loop_consistent:
  "trials_loop lines ris obj players first prompt tok xs fs = Inr (fs', o0, o1) \<Longrightarrow>
   results_consistent obj fs \<Longrightarrow> results_consistent obj fs'"
proof (induction xs arbitrary: fs fs' o0 o1)
  case Nil
  then show ?case by simp
next
  case (Cons i xs)
  from Cons.prems(1) obtain fs1 s0 s1 o0' o1' where
    r: "run_trial lines ris obj players first prompt tok i fs = Inr (fs1, s0, s1)"
    and l: "trials_loop lines ris obj players first prompt tok xs fs1 = Inr (fs', o0', o1')"
    by (auto simp: ebind_eq_Inr split: prod.splits)
  from run_trial_consistent[OF r Cons.prems(2)] show ?case by (rule Cons.IH[OF l])
qed

text \<open>C17: Every results file that \<open>simulate_trials\<close> writes is consistent with itself, as the analysis scripts assume: its two scores are what \<open>calculateFinalScores\<close> gives for its counts, its two value dictionaries and its two recorded allocations under the run's objective, and its \<open>is_valid_deal\<close> flag is \<open>isValidDeal\<close> of the same counts and allocations.\<close>

theorem simulate_trials_results_consistent:
  assumes "simulate_trials lines ris obj players first prompt tok n empty_dir = Inr (fs, o0, o1)"
    and "tf_results fs f = Some r"
  shows "\<exists>ob. objective_of_string obj = Inr ob
     \<and> calculateFinalScores ob (r_counts r) [r_p0_values r, r_p1_values r] [r_p0_allocation r, r_p1_allocation r]
         = Inr (r_p0_score r, r_p1_score r)
     \<and> isValidDeal (r_counts r) [r_p0_allocation r, r_p1_allocation r] = Inr (r_valid r)"
proof -
  have "results_consistent obj fs"
    using assms(1) unfolding simulate_trials_def
    by (rule trials_loop_consistent) (simp add: results_consistent_def empty_dir_def)
  with assms(2) show ?thesis unfolding results_consistent_def by blast
qed

end
