(* ===== verification/Report.thy ===== *)
theory Report
  imports Trials
begin

text \<open>
  The two command-line entry points that consume a finished iteration:
  \<open>analysis.create_csv\<close>, which runs \<open>analyze\<close> on a fixed list of iteration
  directories chosen by the objective and writes one CSV row of rounded
  statistics per directory, and \<open>finetuning.main\<close> with
  \<open>utils.create_finetuning_job\<close>, which appends the selected games of
  \<open>utils.concatenate\<close> to \<open>game_data.jsonl\<close> and submits that file as a
  fine-tuning job. An iteration directory is the \<open>trial_files\<close> record that
  \<open>play.simulate_trials\<close> fills; \<open>os.listdir\<close> of its \<open>results\<close> folder is a
  parameter \<open>listdir\<close>, and \<open>round(x, 4)\<close> on floats is a parameter \<open>rnd\<close>.
  The CSV file is the list of its rows, header first; the JSONL files are
  lookups from paths to their lists of game logs, one per line.
\<close>

section \<open>create_csv\<close>

definition original_iterations :: "string list" where
  "original_iterations =
     [''data/original/gpt-4'', ''data/original/9DNgwMlN'', ''data/original/9PKMibHw'',
      ''data/original/9PMs4x7S'', ''data/original/9POn9NJZ'', ''data/original/9PaMUea6'',
      ''data/original/9PbPTeHK'']"

definition human_iterations :: "string list" where
  "human_iterations =
     [''data/human/9Oz63Fnh'', ''data/human/9P0ZKcST'', ''data/human/9P2L5ZJB'',
      ''data/human/9P4MWWOv'', ''data/human/9PaOW5rD'', ''data/human/9PbQfBu5'']"

definition coop_iterations :: "string list" where
  "coop_iterations =
     [''data/cooperative/gpt-4'', ''data/cooperative/9PvRpiad'', ''data/cooperative/9PxbGFd4'',
      ''data/cooperative/9Pz8kevY'', ''data/cooperative/9Q0sxpON'']"

definition human_coop_iterations :: "string list" where
  "human_coop_iterations =
     [''data/human_coop/9Oz63Fnh'', ''data/human_coop/9Q4UFafd'', ''data/human_coop/9Q6zHBm4'',
      ''data/human_coop/9Q8j5r5o'']"

text \<open>
  The \<open>if\<close>/\<open>elif\<close> chain on the objective; with no branch taken \<open>iterations\<close>
  is never bound and the loop raises \<open>UnboundLocalError\<close>.
\<close>

definition csv_iterations :: "string \<Rightarrow> string list result" where
  "csv_iterations obj =
     (if obj = ''orig'' then Inr original_iterations
      else if obj = ''coop'' then Inr coop_iterations
      else if obj = ''human'' then Inr human_iterations
      else if obj = ''human_coop'' then Inr human_coop_iterations
      else Inl UnboundLocalError)"

text \<open>A CSV cell: the model id, or a number (\<open>nan\<close> is \<open>None\<close>, and \<open>round\<close> keeps it).\<close>

datatype cell = Str string | Num "real option"

definition csv_field_names :: "string list" where
  "csv_field_names =
     [''model id'', ''total mean'', ''total median'', ''total avg length in tokens'',
      ''total avg length in msgs'', ''agreement proportion'', ''pareto-optimal proportion'',
      ''filtered mean'', ''filtered median'', ''filtered length in tokens'', ''proportion filtered'',
      ''filtered length in msgs'']"

text \<open>The dictionary appended to \<open>data\<close> for one iteration, in the code's key order.\<close>

definition csv_entry ::
  "(real \<Rightarrow> real) \<Rightarrow> string \<Rightarrow> total_stats \<Rightarrow> agreement_stats \<Rightarrow> above_avg_stats \<Rightarrow> (string \<times> cell) list" where
  "csv_entry rnd iteration_path t a b =
     [(''model id'', Str (last (py_split iteration_path ''/''))),
      (''total mean'', Num (map_option rnd (t_mean t))),
      (''total median'', Num (t_median t)),
      (''total avg length in tokens'', Num (map_option rnd (t_length_in_tkns t))),
      (''total avg length in msgs'', Num (map_option rnd (t_length_in_msgs t))),
      (''agreement proportion'', Num (Some (rnd (proportion_agreement a)))),
      (''pareto-optimal proportion'', Num (Some (rnd (proportion_pareto_opt a)))),
      (''filtered mean'', Num (map_option rnd (b_mean b))),
      (''filtered median'', Num (map_option rnd (b_median b))),
      (''filtered length in tokens'', Num (map_option rnd (b_length_in_tkns b))),
      (''filtered length in msgs'', Num (map_option rnd (b_length_in_msgs b))),
      (''proportion filtered'', Num (Some (rnd (proportion_above_avg b))))]"

text \<open>
  \<open>csv.DictWriter.writerow\<close>: a key outside the field names raises
  \<open>ValueError\<close>; a missing field is written as the empty string.
\<close>

definition dict_writer_row :: "string list \<Rightarrow> (string \<times> cell) list \<Rightarrow> cell list result" where
  "dict_writer_row fieldnames entry =
     (if list_all (\<lambda>(k, _). k \<in> set fieldnames) entry
      then Inr (map (\<lambda>f. case map_of entry f of None \<Rightarrow> Str [] | Some v \<Rightarrow> v) fieldnames)
      else Inl ValueError)"

text \<open>
  \<open>create_csv(objective, output_path)\<close>: \<open>analyze(iteration_path)\<close> is called
  with its default objective, then the header and one row per iteration are
  written.
\<close>

definition create_csv ::
  "(real \<Rightarrow> real) \<Rightarrow> (string \<Rightarrow> trial_files option) \<Rightarrow> (string \<Rightarrow> string list) \<Rightarrow> string
     \<Rightarrow> cell list list result" where
  "create_csv rnd dirs listdir obj =
     ebind (csv_iterations obj) (\<lambda>iterations.
     ebind (map_result (\<lambda>iteration_path.
              ebind (open_file dirs iteration_path) (\<lambda>d.
              ebind (analyze (tf_p0_scores d) (tf_p1_scores d) (tf_results d) (tf_text_logs d)
                             (listdir iteration_path) ''orig'') (\<lambda>(t, a, b).
                Inr (csv_entry rnd iteration_path t a b))))
            iterations) (\<lambda>data.
     ebind (map_result (dict_writer_row csv_field_names) data) (\<lambda>rows.
       Inr (map Str csv_field_names # rows))))"

section \<open>Fine-tuning\<close>

text \<open>
  The command-line arguments of \<open>finetuning.main\<close>. \<open>-u\<close> is declared with
  \<open>type=bool\<close>, so argparse applies \<open>bool\<close> to the argument string: every
  non-empty string, \<open>"False"\<close> included, is true.
\<close>

record ft_args =
  arg_dir :: string
  arg_objective :: string
  arg_filter :: string
  arg_model_id :: string
  arg_suffix :: string
  arg_human :: "string option"

definition argparse_bool :: "string option \<Rightarrow> bool" where
  "argparse_bool v = (case v of None \<Rightarrow> False | Some s \<Rightarrow> s \<noteq> [])"

text \<open>The request \<open>utils.create_finetuning_job\<close> sends: the uploaded file's game logs and the job's parameters.\<close>

record ft_job =
  job_model :: string
  job_training :: "chat list"
  job_suffix :: string
  job_n_epochs :: nat
  job_batch_size :: nat
  job_lr_multiplier :: nat

definition create_finetuning_job ::
  "(string \<Rightarrow> chat list option) \<Rightarrow> string \<Rightarrow> string \<Rightarrow> string \<Rightarrow> ft_job result" where
  "create_finetuning_job files model_suffix jsonl_path model_name =
     ebind (open_file files jsonl_path) (\<lambda>training_file.
       Inr \<lparr>job_model = model_name, job_training = training_file, job_suffix = model_suffix,
            job_n_epochs = 3, job_batch_size = 1, job_lr_multiplier = 8\<rparr>)"

text \<open>\<open>open(path, "a")\<close> followed by one \<open>json.dump\<close> line per appended log.\<close>

definition jsonl_append ::
  "(string \<Rightarrow> chat list option) \<Rightarrow> string \<Rightarrow> chat list \<Rightarrow> string \<Rightarrow> chat list option" where
  "jsonl_append files path new = files(path \<mapsto> (case files path of None \<Rightarrow> [] | Some old \<Rightarrow> old) @ new)"

text \<open>\<open>utils.concatenate\<close> with its output file \<open>{dir_path}/game_data.jsonl\<close>, opened for appending.\<close>

definition concatenate_file ::
  "(string \<Rightarrow> chat list option) \<Rightarrow> string \<Rightarrow> trial_files \<Rightarrow> string \<Rightarrow> bool
     \<Rightarrow> (string \<Rightarrow> chat list option) result" where
  "concatenate_file files dir_path d filt is_comp =
     ebind (concatenate (tf_p0_scores d) (tf_p1_scores d) (tf_results d) (tf_json_logs d) filt is_comp) (\<lambda>new.
       Inr (jsonl_append files (dir_path @ ''/game_data.jsonl'') new))"

definition human_data_path :: string where
  "human_data_path = ''data/human_init_data/human_data.jsonl''"

text \<open>\<open>finetuning.main\<close>: the human branch trains on a fixed file; otherwise the selected games of \<open>dir\<close> are appended to its \<open>game_data.jsonl\<close>, which is then submitted.\<close>

definition finetuning_main ::
  "(string \<Rightarrow> trial_files option) \<Rightarrow> (string \<Rightarrow> chat list option) \<Rightarrow> ft_args
     \<Rightarrow> ((string \<Rightarrow> chat list option) \<times> ft_job) result" where
  "finetuning_main dirs files args =
     (if argparse_bool (arg_human args) then
        ebind (create_finetuning_job files (arg_suffix args) human_data_path (arg_model_id args)) (\<lambda>job.
          Inr (files, job))
      else
        (let is_comp = (arg_objective args = ''comp'') in
         ebind (open_file dirs (arg_dir args)) (\<lambda>d.
         ebind (concatenate_file files (arg_dir args) d (arg_filter args) is_comp) (\<lambda>files'.
         ebind (create_finetuning_job files' (arg_suffix args) (arg_dir args @ ''/game_data.jsonl'')
                  (arg_model_id args)) (\<lambda>job.
           Inr (files', job))))))"

section \<open>Scenario\<close>

text \<open>An iteration directory with the two games of \<open>Analysis.demo_results\<close> and a JSON log per player.\<close>

definition demo_dir :: trial_files where
  "demo_dir = empty_dir\<lparr>tf_text_logs := demo_texts, tf_results := demo_results,
                          tf_p0_scores := [''1 '', ''0 ''], tf_p1_scores := [''8 '', ''0 ''],
                          tf_json_logs := (\<lambda>f. Some [(Assistant, f)])\<rparr>"

definition demo_args :: ft_args where
  "demo_args = \<lparr>arg_dir = ''data/iteration'', arg_objective = ''self'', arg_filter = ''above_avg'',
                arg_model_id = ''gpt-3.5-turbo-0125'', arg_suffix = ''iter1'', arg_human = None\<rparr>"

section \<open>Lemmas\<close>

lemma csv_entry_row:
  "\<exists>row. dict_writer_row csv_field_names (csv_entry rnd p t a b) = Inr row \<and> length row = 12
     \<and> row ! 6 = Num (Some (rnd (proportion_pareto_opt a)))"
  by (simp add: dict_writer_row_def csv_field_names_def csv_entry_def)

lemma create_csv_Inr:
  assumes "create_csv rnd dirs listdir obj = Inr rows"
  obtains its data rows' where "csv_iterations obj = Inr its"
    "list_all2 (\<lambda>p e. \<exists>d t a b. dirs p = Some d
        \<and> analyze (tf_p0_scores d) (tf_p1_scores d) (tf_results d) (tf_text_logs d) (listdir p) ''orig'' = Inr (t, a, b)
        \<and> e = csv_entry rnd p t a b) its data"
    "list_all2 (\<lambda>e r. dict_writer_row csv_field_names e = Inr r) data rows'"
    "rows = map Str csv_field_names # rows'"
proof -
  from assms obtain its data rows' where
    "csv_iterations obj = Inr its" and m: "map_result (\<lambda>iteration_path.
              ebind (open_file dirs iteration_path) (\<lambda>d.
              ebind (analyze (tf_p0_scores d) (tf_p1_scores d) (tf_results d) (tf_text_logs d)
                             (listdir iteration_path) ''orig'') (\<lambda>(t, a, b).
                Inr (csv_entry rnd iteration_path t a b)))) its = Inr data"
    and "map_result (dict_writer_row csv_field_names) data = Inr rows'"
    and "rows = map Str csv_field_names # rows'"
    by (auto simp: create_csv_def ebind_eq_Inr)
  moreover from m have "list_all2 (\<lambda>p e. \<exists>d t a b. dirs p = Some d
        \<and> analyze (tf_p0_scores d) (tf_p1_scores d) (tf_results d) (tf_text_logs d) (listdir p) ''orig'' = Inr (t, a, b)
        \<and> e = csv_entry rnd p t a b) its data"
    unfolding map_result_Inr_all2
    by (rule list_all2_mono) (auto simp: ebind_eq_Inr open_file_def split: option.splits prod.splits)
  ultimately show ?thesis using that by (simp add: map_result_Inr_all2)
qed

text \<open>C25: \<open>create_csv\<close> binds its list of iterations only for the objectives \<open>"orig"\<close>, \<open>"coop"\<close>, \<open>"human"\<close> and \<open>"human_coop"\<close>: for any other objective, \<open>"self"\<close> and \<open>"comp"\<close> included, it raises \<open>UnboundLocalError\<close> before reading any directory, whatever the directories hold.\<close>

lemma create_csv_unknown_objective:
  "obj \<notin> {''orig'', ''coop'', ''human'', ''human_coop''} \<Longrightarrow> create_csv rnd dirs listdir obj = Inl UnboundLocalError"
  by (simp add: create_csv_def csv_iterations_def)

lemma finetuning_main_dir:
  assumes "\<not> argparse_bool (arg_human args)" "dirs (arg_dir args) = Some d"
    and "concatenate (tf_p0_scores d) (tf_p1_scores d) (tf_results d) (tf_json_logs d) (arg_filter args)
           (arg_objective args = ''comp'') = Inr new"
  shows "finetuning_main dirs files args
     = Inr (jsonl_append files (arg_dir args @ ''/game_data.jsonl'') new,
            \<lparr>job_model = arg_model_id args,
             job_training = (case files (arg_dir args @ ''/game_data.jsonl'') of None \<Rightarrow> [] | Some old \<Rightarrow> old) @ new,
             job_suffix = arg_suffix args, job_n_epochs = 3, job_batch_size = 1, job_lr_multiplier = 8\<rparr>)"
  using assms
  by (simp add: finetuning_main_def concatenate_file_def create_finetuning_job_def open_file_def jsonl_append_def)

lemma finetuning_main_dir_Inr:
  assumes "finetuning_main dirs files args = Inr (files', job)" "\<not> argparse_bool (arg_human args)"
  obtains d new where "dirs (arg_dir args) = Some d"
    "concatenate (tf_p0_scores d) (tf_p1_scores d) (tf_results d) (tf_json_logs d) (arg_filter args)
       (arg_objective args = ''comp'') = Inr new"
  using assms
  by (auto simp: finetuning_main_def concatenate_file_def open_file_def ebind_eq_Inr split: option.splits)

lemma argparse_false_is_true: "argparse_bool (Some ''False'')"
  by (simp add: argparse_bool_def)

lemma finetuning_false_flag_uses_human_data:
  "finetuning_main dirs files (args\<lparr>arg_human := Some ''False''\<rparr>)
     = ebind (open_file files human_data_path) (\<lambda>training_file.
         Inr (files, \<lparr>job_model = arg_model_id args, job_training = training_file, job_suffix = arg_suffix args,
                      job_n_epochs = 3, job_batch_size = 1, job_lr_multiplier = 8\<rparr>))"
  by (simp add: finetuning_main_def argparse_false_is_true create_finetuning_job_def ebind_def split: sum.splits)

text \<open>C39: \<open>create_csv\<close> calls \<open>analyze\<close> without the objective, so \<open>analyze\<close> runs with its default \<open>"orig"\<close>, which \<open>utils.isParetoOptimal\<close> rejects: whenever it returns, for every objective and every iteration, the CSV written has the header first and in each row the column \<open>pareto-optimal proportion\<close> holds \<open>round(0, 4)\<close>.\<close>

theorem create_csv_pareto_column_zero:
  assumes "create_csv rnd dirs listdir obj = Inr rows"
  shows "csv_field_names ! 6 = ''pareto-optimal proportion'' \<and> hd rows = map Str csv_field_names
     \<and> list_all (\<lambda>row. length row = 12 \<and> row ! 6 = Num (Some (rnd 0))) (tl rows)"
proof -
  from assms obtain its data rows' where
    e: "list_all2 (\<lambda>p e. \<exists>d t a b. dirs p = Some d
        \<and> analyze (tf_p0_scores d) (tf_p1_scores d) (tf_results d) (tf_text_logs d) (listdir p) ''orig'' = Inr (t, a, b)
        \<and> e = csv_entry rnd p t a b) its data"
    and r: "list_all2 (\<lambda>e r. dict_writer_row csv_field_names e = Inr r) data rows'"
    and rows: "rows = map Str csv_field_names # rows'"
    by (rule create_csv_Inr)
  have "list_all (\<lambda>e. \<exists>p t a b. e = csv_entry rnd p t a b \<and> proportion_pareto_opt a = 0) data"
    using e by (rule list_all2_transfer_all[where R = "\<lambda>_. True"]) (auto simp: list_all_iff dest: analyze_orig_no_pareto)
  then have "list_all (\<lambda>row. length row = 12 \<and> row ! 6 = Num (Some (rnd 0))) rows'"
  proof (rule list_all2_transfer_all[OF r])
    fix e row
    assume w: "dict_writer_row csv_field_names e = Inr row"
      and "\<exists>p t a b. e = csv_entry rnd p t a b \<and> proportion_pareto_opt a = 0"
    then obtain p t a b where "e = csv_entry rnd p t a b" "proportion_pareto_opt a = 0" by blast
    with w csv_entry_row[of rnd p t a b] show "length row = 12 \<and> row ! 6 = Num (Some (rnd 0))" by auto
  qed
  then show ?thesis using rows by (simp add: csv_field_names_def)
qed

text \<open>C20: \<open>finetuning.main\<close> appends to \<open>game_data.jsonl\<close> instead of rewriting it: after a run that created the file, a second run with the same arguments returns and submits a training file holding every selected game twice.\<close>

theorem finetuning_rerun_duplicates:
  assumes run: "finetuning_main dirs files args = Inr (files1, job1)"
    and dir: "\<not> argparse_bool (arg_human args)"
    and fresh: "files (arg_dir args @ ''/game_data.jsonl'') = None"
  shows "\<exists>files2 job2. finetuning_main dirs files1 args = Inr (files2, job2)
           \<and> job_training job2 = job_training job1 @ job_training job1
           \<and> job_model job2 = arg_model_id args \<and> job_suffix job2 = arg_suffix args"
proof -
  from run dir obtain d new where d: "dirs (arg_dir args) = Some d"
    and c: "concatenate (tf_p0_scores d) (tf_p1_scores d) (tf_results d) (tf_json_logs d) (arg_filter args)
       (arg_objective args = ''comp'') = Inr new"
    by (rule finetuning_main_dir_Inr)
  from run finetuning_main_dir[where args = args and dirs = dirs and d = d and new = new and files = files, OF dir d c] fresh
  have "files1 = jsonl_append files (arg_dir args @ ''/game_data.jsonl'') new" "job_training job1 = new"
    by auto
  with finetuning_main_dir[where args = args and dirs = dirs and d = d and new = new and files = files1, OF dir d c] fresh show ?thesis
    by (simp add: jsonl_append_def)
qed

section \<open>Witnesses\<close>

theorem create_csv_pareto_column_zero_witness:
  "\<exists>rows. create_csv (\<lambda>x. x) (\<lambda>_. Some demo_dir) (\<lambda>_. [''000.json'', ''001.json'']) ''coop'' = Inr rows
     \<and> length rows = 6 \<and> csv_field_names ! 6 = ''pareto-optimal proportion'' \<and> hd rows = map Str csv_field_names
     \<and> list_all (\<lambda>row. length row = 12 \<and> row ! 6 = Num (Some 0)) (tl rows)"
proof -
  have "case create_csv (\<lambda>x. x) (\<lambda>_. Some demo_dir) (\<lambda>_. [''000.json'', ''001.json'']) ''coop'' of
          Inl _ \<Rightarrow> False | Inr rows \<Rightarrow> length rows = 6"
    unfolding demo_dir_def empty_dir_def by code_simp
  then obtain rows where r: "create_csv (\<lambda>x. x) (\<lambda>_. Some demo_dir) (\<lambda>_. [''000.json'', ''001.json'']) ''coop'' = Inr rows"
    and l: "length rows = 6"
    by (auto split: sum.splits)
  from create_csv_pareto_column_zero[OF r] r l show ?thesis by simp
qed

theorem finetuning_rerun_duplicates_witness:
  "\<exists>files1 job1. finetuning_main (\<lambda>_. Some demo_dir) Map.empty demo_args = Inr (files1, job1)
     \<and> length (job_training job1) = 1
     \<and> (\<exists>files2 job2. finetuning_main (\<lambda>_. Some demo_dir) files1 demo_args = Inr (files2, job2)
        \<and> job_training job2 = job_training job1 @ job_training job1)"
proof -
  have "case finetuning_main (\<lambda>_. Some demo_dir) Map.empty demo_args of
          Inl _ \<Rightarrow> False | Inr (files1, job1) \<Rightarrow> length (job_training job1) = 1"
    unfolding demo_dir_def demo_args_def empty_dir_def by code_simp
  then obtain files1 job1 where r: "finetuning_main (\<lambda>_. Some demo_dir) Map.empty demo_args = Inr (files1, job1)"
    and l: "length (job_training job1) = 1"
    by (auto split: sum.splits)
  have h: "\<not> argparse_bool (arg_human demo_args)" by (simp add: demo_args_def argparse_bool_def)
  from finetuning_rerun_duplicates[OF r h] r l show ?thesis by auto
qed

theorem create_csv_unknown_objective_witness:
  "''comp'' \<notin> {''orig'', ''coop'', ''human'', ''human_coop''}
   \<and> create_csv (\<lambda>x. x) (\<lambda>_. Some demo_dir) (\<lambda>_. [''000.json'']) ''comp'' = Inl UnboundLocalError"
  using create_csv_unknown_objective[of "''comp''" "\<lambda>x. x" "\<lambda>_. Some demo_dir" "\<lambda>_. [''000.json'']"] by simp

end
