(* ===== verification/Spec2Isabelle.thy ===== *)
theory Spec2Isabelle
  imports Report
begin

text \<open>
  \<^bold>\<open>A verified model of the negotiation game of lm-selfplay.\<close>

  The program (\<open>src/\<close>) lets two agents negotiate the split of books, hats and
  balls. \<open>play.py\<close> builds a \<open>NegotiationGame\<close> (\<open>games/negotiation.py\<close>) and
  two \<open>ClosedSourceChatPlayer\<close>s (\<open>players.py\<close>); \<open>play_game\<close> alternates
  turns, each player's \<open>respond\<close> retries until its validator accepts the model's
  output (at most five attempts, then \<open>"[ABORT]"\<close>), and the game records the
  proposals and scores them (\<open>calculateFinalScores\<close>). \<open>utils.py\<close> and
  \<open>analysis.py\<close> evaluate finished games offline, among others with the Pareto
  test \<open>utils.isParetoOptimal\<close>. \<open>web_interface/\<close> replays the protocol one
  request at a time between a human and one assistant
  (\<open>WebNegotiationGame.receive_and_respond\<close>), inside a Flask/SocketIO server
  (\<open>app.py\<close>) that keeps the sessions, the users and their bonus.

  \<^bold>\<open>Theories.\<close>
  \<^item> \<open>Prelude\<close>: Python values. A \<open>dict\<close> is an association list in insertion
    order (\<open>pydict\<close>), because \<open>calculateScore\<close> zips \<open>.values()\<close>;
    \<open>mk_items b h l\<close> is the literal \<open>{"book": b, "hat": h, "ball": l}\<close>.
    Exceptions are \<open>Inl\<close> of \<open>py_error\<close> and \<open>ebind\<close> propagates them. The
    string primitives \<open>strip\<close>, \<open>startswith\<close>, \<open>in\<close>, \<open>find\<close>,
    \<open>split\<close>, \<open>split()\<close>, \<open>re.findall(r"\d+")\<close>, \<open>int\<close>, \<open>str\<close> and
    indexing are executable functions over 8-bit characters (exact for ASCII
    text), with \<open>int(str(i)) = i\<close> proved. \<open>re.search\<close> and
    \<open>re.findall\<close> run through a matcher (\<open>rx\<close>) for the pattern shapes
    the code uses: literals, \<open>\d\<close>, \<open>\d+\<close>, \<open>.\<close> and greedy runs of a
    character class, each run followed by a literal outside its class, where
    greedy matching needs no backtracking.
  \<^item> \<open>Scoring\<close>: \<open>calculateScore\<close>, \<open>isValidDeal\<close>,
    \<open>calculateFinalScores\<close> (\<open>games/negotiation.py\<close>, copied in the web game),
    \<open>utils.calculateFinalScore\<close>, and the objective check of the constructor; the
    spec's keyed score (\<open>keyed_score\<close>) and score combination (\<open>spec_final\<close>)
    as reference definitions.
  \<^item> \<open>Pareto\<close>: the lattice loops (\<open>lattice\<close>), \<open>utils.isParetoOptimal\<close>,
    the method \<open>NegotiationGame.isParetoOptimal\<close> (copied in the web game),
    \<open>utils.calculate_maximum_collective_score\<close>, and the spec's test
    \<open>pareto_spec\<close>.
  \<^item> \<open>Validator\<close>: \<open>LLMPlayer.is_valid_message\<close>, \<open>is_valid_proposal\<close>,
    \<open>is_valid_output\<close>, the retry loop \<open>respond\<close> (a \<open>function\<close> whose
    termination measure is the five attempts left), the post-processing of
    \<open>ClosedSourceChatPlayer.generate_response\<close>, and \<open>parse_proposal\<close>.
  \<^item> \<open>Game\<close>: the game object as a record, \<open>__init__\<close> as \<open>init_game\<close>, the
    players as \<open>agent\<close> (an LLM player validates, a \<open>HumanPlayer\<close> does not),
    one iteration of the loop of \<open>play_game\<close> as \<open>play_turn\<close> on a record of
    the loop's locals, the loop as \<open>play_loop\<close> (a \<open>function\<close>; it terminates
    because each turn adds a message and the 50th ends the game), the whole method as
    \<open>play_game\<close>, and the reachable states as an inductive predicate.
  \<^item> \<open>Web\<close>: \<open>WebNegotiationGame.__init__\<close> (\<open>init_web_game\<close>) and
    \<open>receive_and_respond\<close>, split into the user's half
    (\<open>web_receive_user\<close>), the validated assistant's half (\<open>web_respond\<close>,
    \<open>web_apply_assistant\<close>) and the scoring, on the batch \<open>game\<close> record plus
    the assistant's histories (\<open>web_state\<close>); \<open>web_session\<close> is a sequence of
    requests as \<open>app.py\<close> issues them, and \<open>web_reachable\<close> the states they
    reach.
  \<^item> \<open>Session\<close>: \<open>app.py\<close>'s process-wide state (\<open>server\<close>: the global
    \<open>current_model\<close>, \<open>current_games\<close>, \<open>user_data\<close>, \<open>mturk_users\<close>),
    \<open>parse_context\<close>, \<open>new_game\<close>, every socket handler (\<open>handle_connect\<close>,
    \<open>handle_keep_playing\<close>, \<open>handle_initialize_game\<close>,
    \<open>handle_user_message\<close> with the bonus rule, \<open>handle_disconnect\<close>), and the
    states any interleaving of events from any clients reaches
    (\<open>server_reachable\<close>). A handler that raises keeps its earlier writes, so
    handlers return the state with the error.
  \<^item> \<open>Analysis\<close>: \<open>analysis.analyze\<close> over the parsed score lines, the results
    and log files (lookups by file name) and the directory listing, and the game
    file index \<open>("000" + str(i))[-3:]\<close>, \<open>calculate_avg_score\<close>, and
    \<open>parse_game_context\<close> and \<open>generate_game_contexts\<close>, which read a
    game's context back from the first three lines of its text log.
  \<^item> \<open>Utils\<close>: the log readers of \<open>utils.py\<close>:
    \<open>check_agreement_validity\<close> and \<open>extract_final_scores\<close> (their regular
    expressions through the matcher of \<open>Prelude\<close>), \<open>calculate_avg_score\<close>,
    \<open>calculate_dataset_ceiling_performance\<close> and the selection of
    \<open>concatenate\<close>.
  \<^item> \<open>Trials\<close>: \<open>play.simulate_trials\<close> on a record of its output directory
    (\<open>trial_files\<close>: files created with mode \<open>"x"\<close>, full text logs, JSON
    logs, results, the two score ledgers), one trial as \<open>run_trial\<close>, and the
    invariant \<open>logs_match\<close> tying each results file to its text log.
  \<^item> \<open>Report\<close>: \<open>analysis.create_csv\<close> over the iteration directories, and
    \<open>finetuning.main\<close> with \<open>utils.concatenate\<close> appending to
    \<open>game_data.jsonl\<close> and \<open>utils.create_finetuning_job\<close> as the request it
    sends.
  \<^item> this theory: the scenario games and players of the spec (the default game,
    a deal in four messages, a first player that never produces a tagged
    response) and the witnesses of the theorems of \<open>Game\<close>, \<open>Utils\<close> and
    \<open>Trials\<close> on runs of them.

  \<^bold>\<open>What is proved.\<close> The claims C1 to C40 are stated next to their definitions,
  each after a text naming it. The turn loop (C1 to C3, C13, C14, C26): with
  validating players the game closes only on two proposals, an abort or the
  50-message ceiling, by an invariant over the reachable states; every game ends
  within 50 messages, and the loop's fuel of 50 turns suffices from every reachable
  state; proposals on file are always well-typed; a first player whose every output
  is rejected ends any game at once with \<open>"[ABORT]"\<close> and zero scores. The
  validator (C5 to C10): a message is refused while a counter-proposal is owed, a
  proposal before any discussion, five rejections give \<open>"[ABORT]"\<close> with ten
  history entries, a validated single-marker proposal parses within the counts,
  while a response with two proposals is validated on the second and recorded as
  the first. Scoring and Pareto (C12, C15, C18, C23): valid deals follow the spec's
  combination, the positional score equals the keyed one exactly when both
  dictionaries share their key order, \<open>utils.isParetoOptimal\<close> equals the spec's
  test (stated without the code's dominance test), and the class method judges
  with player 0's values only. The web game (C16, C27 to C32): a user's proposal
  always ends the request with the game closed or a deal opened, an invariant of
  every reachable web state, the web step refines the batch step, and where the two
  variants differ (the assistant closes a game alone after any non-proposal reply,
  no message ceiling, the constructor's wrong test). The server (C33 to C37):
  contexts read back, every known worker has a user record and is routed back to
  it, a finished game is paid once, and the bonus follows the global
  \<open>current_model\<close>, so a negative score under the \<open>"original"\<close> label costs the
  user. The files between the components (C4, C11, C17, C19, C21, C22, C24, C30):
  the score ledgers, the final-score lines and the context lines read back (C4,
  C22, C21), except negative competitive scores (C19); every results file is
  consistent with its own scoring (C17); \<open>simulate_trials\<close> fails past 1000 runs
  (C11); the dataset ceiling raises \<open>KeyError\<close> on every results file the trials
  write (C24); \<open>concatenate\<close> selects exactly the above-average logs (C30). The
  analysis and its consumers (C20, C25, C38 to C40): the above-average lengths
  repeat the agreement lengths, \<open>create_csv\<close> raises on objectives outside its
  four lists and reports a Pareto column of 0 because it drops the objective, a
  rerun of the fine-tuning script doubles its training data, and the file index
  reads back below 1000 and repeats after it.

  \<^bold>\<open>Bounds.\<close> The model keeps the program's own bounds: \<open>max_messages = 50\<close>
  and five attempts per turn; both loops are \<open>function\<close>s with measures (the
  attempts left, the messages left), so they terminate by construction, and the
  fuel-driven \<open>play_turns\<close> is shown to need no more than the 50 messages. Python
  integers are \<open>int\<close>; counts and values are not bounded. The bonus and the
  statistics are computed in \<open>real\<close> (exact), where Python uses binary floating
  point; \<open>round(x, 4)\<close> is a parameter of \<open>create_csv\<close>.

  \<^bold>\<open>Not modelled.\<close> Console output and the byte format of the files (the
  model keeps file contents as lines, records and lists of game logs, and JSON
  encoding is the identity), socket emits and S3 logging, the OpenAI calls (a
  player's completion is an arbitrary function of its prompt history, which grows
  on every call, so any sequence of completions is one such function; a
  fine-tuning job is the request sent), the random choices (the first player, the
  sampled contexts, the model label, fresh user ids and the opening coin flip are
  parameters), the GPT-2 tokenizer (a parameter \<open>tok\<close>), the prompt templates (a
  parameter \<open>fmt\<close>), the timestamps of web history entries, the players' own
  text logs (\<open>NNN_p0.txt\<close>, written only for humans to read), and
  \<open>analysis.main\<close>, which only parses two arguments and prints what
  \<open>analyze\<close> returns. Command-line arguments are strings; an absent string
  argument (\<open>None\<close> in Python) is not modelled. When an exception interrupts
  \<open>receive_and_respond\<close> or \<open>concatenate\<close> midway, the model keeps the state as
  it was before the call, while Python keeps the writes made before the exception.
\<close>

section \<open>Scenarios\<close>

definition demo_game :: game where
  "demo_game =
     \<lparr>item_counts = mk_items 1 2 3, player_values = [mk_items 1 3 1, mk_items 2 1 2],
      proposals = [None, None], final_scores = None, deal_proposed = False,
      game_over = False, objective = Self\<rparr>"

text \<open>The context lines the constructor writes to the game log for the default game.\<close>

definition demo_header :: string where
  "demo_header =
     ''Item counts: there are 1 books, 2 hats, and 3 balls.\<newline>''
     @ ''Player 0 values: books are worth 1 points, hats are worth 3 points, and balls are worth 1 points.\<newline>''
     @ ''Player 1 values: books are worth 2 points, hats are worth 1 points, and balls are worth 2 points.\<newline>''
     @ ''\<newline>\<newline>''"

definition demo_fmt :: "pydict \<Rightarrow> pydict \<Rightarrow> string" where
  "demo_fmt counts values = ''You are negotiating over books, hats and balls.''"

text \<open>Player 0 asks for the book, player 1 for the rest, each after one message.\<close>

definition deal_players :: "agent list" where
  "deal_players =
     [LLM (\<lambda>json. if length json < 3 then ''[message] I would like the book.''
                 else ''[propose] (1 books, 0 hats, 0 balls)''),
      LLM (\<lambda>json. if length json < 3 then ''[message] Fine, I take the rest.''
                 else ''[propose] (0 books, 2 hats, 3 balls)'')]"

text \<open>Two lines of \<open>data/selfplay.txt\<close> (count, value pairs) that give the default game.\<close>

definition demo_lines :: "string list" where
  "demo_lines = [''1 1 2 3 3 1'', ''1 2 2 1 3 2'']"

text \<open>Player 0's model never produces a tagged response.\<close>

definition abort_players :: "agent list" where
  "abort_players = [LLM (\<lambda>json. ''Let us split evenly.''), LLM (\<lambda>json. ''[message] ok'')]"

section \<open>Witnesses of the game theorems\<close>

lemma deal_players_llm: "llm_agents deal_players"
  by (auto simp: llm_agents_def deal_players_def)

lemma demo_game_fresh: "fresh_game demo_game"
  by (simp add: fresh_game_def demo_game_def)

theorem game_closes_witness:
  "llm_agents deal_players \<and> fresh_game demo_game \<and> (0::nat) < 2
   \<and> (\<exists>st. play_loop deal_players (init_play_state demo_game 0 demo_fmt) = Inr st
          \<and> game_over (game st)
          \<and> (both_proposed (game st) \<or> abort_marker \<in> set (messages st)
             \<or> length (messages st) = max_messages))"
proof -
  have "case play_loop deal_players (init_play_state demo_game 0 demo_fmt) of Inl e \<Rightarrow> False | Inr st \<Rightarrow> True"
    unfolding deal_players_def demo_game_def demo_fmt_def by code_simp
  then obtain st where st: "play_loop deal_players (init_play_state demo_game 0 demo_fmt) = Inr st"
    by (auto split: sum.splits)
  from game_closes_by_deal_abort_or_limit[OF deal_players_llm demo_game_fresh _ st]
  show ?thesis using deal_players_llm demo_game_fresh st by auto
qed

theorem reachable_proto_inv_witness:
  "llm_agents deal_players \<and> reachable deal_players (init_play_state demo_game 1 demo_fmt)
   \<and> proto_inv (init_play_state demo_game 1 demo_fmt)"
proof -
  have r: "reachable deal_players (init_play_state demo_game 1 demo_fmt)"
    by (rule reachable.start) (simp_all add: demo_game_fresh)
  from reachable_proto_inv[OF deal_players_llm r] r deal_players_llm show ?thesis by blast
qed

theorem play_game_message_bound_witness:
  "fresh_game demo_game \<and> (0::nat) < 2
   \<and> (\<exists>g' out flog. play_game abort_players 0 demo_fmt length demo_game = Inr (g', out, flog)
        \<and> game_over g' \<and> msg_cnt out \<le> max_messages)"
proof -
  have "case play_game abort_players 0 demo_fmt length demo_game of Inl e \<Rightarrow> False | Inr r \<Rightarrow> True"
    unfolding abort_players_def demo_game_def demo_fmt_def by code_simp
  then obtain g' out flog where run: "play_game abort_players 0 demo_fmt length demo_game = Inr (g', out, flog)"
    by (auto split: sum.splits)
  from play_game_message_bound[OF demo_game_fresh _ run] run demo_game_fresh show ?thesis by auto
qed

theorem second_proposal_closes_witness:
  "deal_proposed (demo_game\<lparr>deal_proposed := True, proposals := [Some (mk_items 1 0 0), None]\<rparr>)
   \<and> startswith (py_strip ''[propose] (1 books, 2 hats, 3 balls)'') ''[propose]''
   \<and> parse_proposal ''[propose] (1 books, 2 hats, 3 balls)'' = Inr (mk_items 1 2 3)
   \<and> apply_response 1 ''[propose] (1 books, 2 hats, 3 balls)''
        (demo_game\<lparr>deal_proposed := True, proposals := [Some (mk_items 1 0 0), None]\<rparr>)
     = Inr (demo_game\<lparr>deal_proposed := True, proposals := [Some (mk_items 1 0 0), Some (mk_items 1 2 3)],
                       game_over := True\<rparr>,
            ''[propose] (1 books, 2 hats, 3 balls)'', proposal_notice)"
proof -
  let ?g = "demo_game\<lparr>deal_proposed := True, proposals := [Some (mk_items 1 0 0), None]\<rparr>"
  let ?r = "''[propose] (1 books, 2 hats, 3 balls)''"
  have d: "deal_proposed ?g" by simp
  have t: "startswith (py_strip ?r) ''[propose]''" by code_simp
  have p: "parse_proposal ?r = Inr (mk_items 1 2 3)" by code_simp
  have s: "py_strip ?r = ?r" by code_simp
  from second_proposal_closes[OF d t p, of 1] d t p s show ?thesis by simp
qed


theorem reachable_proposals_typed_witness:
  "\<exists>st. play_loop deal_players (init_play_state demo_game 0 demo_fmt) = Inr st
        \<and> reachable deal_players st \<and> proposals_typed (game st)"
proof -
  have "case play_loop deal_players (init_play_state demo_game 0 demo_fmt) of Inl e \<Rightarrow> False | Inr st \<Rightarrow> True"
    unfolding deal_players_def demo_game_def demo_fmt_def by code_simp
  then obtain st where st: "play_loop deal_players (init_play_state demo_game 0 demo_fmt) = Inr st"
    by (auto split: sum.splits)
  have "reachable deal_players (init_play_state demo_game 0 demo_fmt)"
    by (rule reachable.start) (simp_all add: demo_game_fresh)
  with st have r: "reachable deal_players st" using play_loop_reachable by blast
  from reachable_proposals_typed[OF r] r st show ?thesis by blast
qed

theorem play_loop_within_budget_witness:
  "reachable deal_players (init_play_state demo_game 0 demo_fmt)
   \<and> play_turns 50 deal_players (init_play_state demo_game 0 demo_fmt)
       = Some (play_loop deal_players (init_play_state demo_game 0 demo_fmt))"
proof -
  have r: "reachable deal_players (init_play_state demo_game 0 demo_fmt)"
    by (rule reachable.start) (simp_all add: demo_game_fresh)
  from play_loop_within_budget[OF r] r show ?thesis
    by (simp add: init_play_state_def max_messages_def Let_def)
qed


lemma demo_init_game:
  "init_game (Some (mk_items 1 2 3)) (Some (mk_items 1 3 1)) (Some (mk_items 2 1 2)) ''self''
     = Inr (demo_game, demo_header)"
  unfolding demo_game_def demo_header_def by code_simp

theorem game_log_scores_roundtrip_witness:
  "\<exists>g' out flog. play_game deal_players 0 demo_fmt length demo_game = Inr (g', out, flog)
     \<and> p0_score out = 1 \<and> p1_score out = 8
     \<and> extract_final_scores (demo_header @ flog) = Inr (1, 8)"
proof -
  have "case play_game deal_players 0 demo_fmt length demo_game of
          Inl e \<Rightarrow> False | Inr (g', out, flog) \<Rightarrow> p0_score out = 1 \<and> p1_score out = 8"
    unfolding deal_players_def demo_game_def demo_fmt_def by code_simp
  then obtain g' out flog where run: "play_game deal_players 0 demo_fmt length demo_game = Inr (g', out, flog)"
    and sc: "p0_score out = 1" "p1_score out = 8"
    by (auto split: sum.splits)
  from game_log_scores_roundtrip[OF demo_init_game _ run] sc run show ?thesis by auto
qed

theorem comp_scores_unreadable_witness:
  "\<exists>g' out flog. play_game deal_players 0 demo_fmt length (demo_game\<lparr>objective := Comp\<rparr>) = Inr (g', out, flog)
     \<and> objective (demo_game\<lparr>objective := Comp\<rparr>) = Comp
     \<and> p0_score out = -7 \<and> p1_score out = 7
     \<and> extract_final_scores (demo_header @ flog) \<noteq> Inr (-7, 7)
     \<and> extract_final_scores (demo_header @ flog) = Inl KeyError"
proof -
  have "case play_game deal_players 0 demo_fmt length (demo_game\<lparr>objective := Comp\<rparr>) of
          Inl e \<Rightarrow> False
        | Inr (g', out, flog) \<Rightarrow> p0_score out = -7 \<and> p1_score out = 7
            \<and> extract_final_scores (demo_header @ flog) = Inl KeyError"
    unfolding deal_players_def demo_game_def demo_fmt_def demo_header_def by code_simp
  then obtain g' out flog where
    run: "play_game deal_players 0 demo_fmt length (demo_game\<lparr>objective := Comp\<rparr>) = Inr (g', out, flog)"
    and sc: "p0_score out = -7" "p1_score out = 7"
    and ke: "extract_final_scores (demo_header @ flog) = Inl KeyError"
    by (auto split: sum.splits)
  have "objective (demo_game\<lparr>objective := Comp\<rparr>) = Comp" by simp
  from comp_scores_unreadable[OF run this, of demo_header] sc run ke show ?thesis by auto
qed


theorem ledger_roundtrip_witness:
  "\<exists>fs o0 o1. simulate_trials demo_lines [0] ''self'' (\<lambda>_. deal_players) (\<lambda>_. 0) (\<lambda>_. demo_fmt) length 1 empty_dir
       = Inr (fs, o0, o1)
     \<and> o0 = [1] \<and> o1 = [8]
     \<and> map_result py_int_str (tf_p0_scores fs) = Inr o0 \<and> map_result py_int_str (tf_p1_scores fs) = Inr o1
     \<and> calculate_avg_score (tf_p0_scores fs) = Inr (py_mean o0)"
proof -
  have "case simulate_trials demo_lines [0] ''self'' (\<lambda>_. deal_players) (\<lambda>_. 0) (\<lambda>_. demo_fmt) length 1 empty_dir of
          Inl _ \<Rightarrow> False | Inr (fs, o0, o1) \<Rightarrow> o0 = [1] \<and> o1 = [8]"
    unfolding demo_lines_def deal_players_def demo_fmt_def by code_simp
  then obtain fs o0 o1 where
    run: "simulate_trials demo_lines [0] ''self'' (\<lambda>_. deal_players) (\<lambda>_. 0) (\<lambda>_. demo_fmt) length 1 empty_dir
       = Inr (fs, o0, o1)" and o: "o0 = [1]" "o1 = [8]"
    by (auto split: sum.splits)
  from ledger_roundtrip[OF run] run o show ?thesis by blast
qed

theorem simulate_trials_at_most_1000_witness:
  "\<exists>r. simulate_trials demo_lines [0] ''self'' (\<lambda>_. deal_players) (\<lambda>_. 0) (\<lambda>_. demo_fmt) length 1 empty_dir = Inr r
     \<and> (1::nat) \<le> 1000"
proof -
  have "case simulate_trials demo_lines [0] ''self'' (\<lambda>_. deal_players) (\<lambda>_. 0) (\<lambda>_. demo_fmt) length 1 empty_dir of
          Inl _ \<Rightarrow> False | Inr _ \<Rightarrow> True"
    unfolding demo_lines_def deal_players_def demo_fmt_def by code_simp
  then obtain r where
    run: "simulate_trials demo_lines [0] ''self'' (\<lambda>_. deal_players) (\<lambda>_. 0) (\<lambda>_. demo_fmt) length 1 empty_dir = Inr r"
    by (auto split: sum.splits)
  from simulate_trials_at_most_1000[OF run] run show ?thesis by blast
qed

theorem concatenate_selects_above_avg_witness:
  "\<exists>fs o0 o1. simulate_trials demo_lines [0, 0] ''self'' (\<lambda>_. deal_players) (\<lambda>_. 0) (\<lambda>_. demo_fmt) length 2 empty_dir
       = Inr (fs, o0, o1)
     \<and> o0 = [1, 1] \<and> o1 = [8, 8]
     \<and> concatenate (tf_p0_scores fs) (tf_p1_scores fs) (tf_results fs) (tf_json_logs fs) ''above_avg'' False
       = Inr (map (\<lambda>i. the (tf_json_logs fs (index_name i @ ''_p0.json'')))
                  (filter (\<lambda>i. above (o0 ! i) (py_mean (o0 @ o1))) [0..<2])
            @ map (\<lambda>i. the (tf_json_logs fs (index_name i @ ''_p1.json'')))
                  (filter (\<lambda>i. above (o1 ! i) (py_mean (o0 @ o1))) [0..<2]))"
proof -
  have "case simulate_trials demo_lines [0, 0] ''self'' (\<lambda>_. deal_players) (\<lambda>_. 0) (\<lambda>_. demo_fmt) length 2 empty_dir of
          Inl _ \<Rightarrow> False | Inr (fs, o0, o1) \<Rightarrow> o0 = [1, 1] \<and> o1 = [8, 8]"
    unfolding demo_lines_def deal_players_def demo_fmt_def by code_simp
  then obtain fs o0 o1 where
    run: "simulate_trials demo_lines [0, 0] ''self'' (\<lambda>_. deal_players) (\<lambda>_. 0) (\<lambda>_. demo_fmt) length 2 empty_dir
       = Inr (fs, o0, o1)" and o: "o0 = [1, 1]" "o1 = [8, 8]"
    by (auto split: sum.splits)
  from concatenate_selects_above_avg[OF run] run o show ?thesis by blast
qed

theorem game_context_roundtrip_witness:
  "\<exists>fs o0 o1 r. simulate_trials demo_lines [0] ''self'' (\<lambda>_. deal_players) (\<lambda>_. 0) (\<lambda>_. demo_fmt) length 1 empty_dir
       = Inr (fs, o0, o1)
     \<and> tf_results fs (index_name 0 @ ''.json'') = Some r
     \<and> list_all (\<lambda>(k, v). 0 \<le> v) (r_counts r @ r_p0_values r @ r_p1_values r)
     \<and> generate_game_contexts (tf_text_logs fs) [index_name 0 @ ''_full.txt''] Map.empty
         = Inr [index_name 0 @ ''.json'' \<mapsto>
                \<lparr>ctx_counts = Some [(''books'', 1), (''hats'', 2), (''balls'', 3)],
                 ctx_p0_values = Some [(''books'', 1), (''hats'', 3), (''balls'', 1)],
                 ctx_p1_values = Some [(''books'', 2), (''hats'', 1), (''balls'', 2)]\<rparr>]"
proof -
  have "case simulate_trials demo_lines [0] ''self'' (\<lambda>_. deal_players) (\<lambda>_. 0) (\<lambda>_. demo_fmt) length 1 empty_dir of
          Inl _ \<Rightarrow> False
        | Inr (fs, o0, o1) \<Rightarrow> (case tf_results fs (index_name 0 @ ''.json'') of None \<Rightarrow> False
            | Some r \<Rightarrow> r_counts r = mk_items 1 2 3 \<and> r_p0_values r = mk_items 1 3 1 \<and> r_p1_values r = mk_items 2 1 2)"
    unfolding demo_lines_def deal_players_def demo_fmt_def by code_simp
  then obtain fs o0 o1 r where
    run: "simulate_trials demo_lines [0] ''self'' (\<lambda>_. deal_players) (\<lambda>_. 0) (\<lambda>_. demo_fmt) length 1 empty_dir
       = Inr (fs, o0, o1)" and res: "tf_results fs (index_name 0 @ ''.json'') = Some r"
    and m: "r_counts r = mk_items 1 2 3" "r_p0_values r = mk_items 1 3 1" "r_p1_values r = mk_items 2 1 2"
    by (auto split: sum.splits option.splits)
  have nn: "list_all (\<lambda>(k, v). 0 \<le> v) (r_counts r @ r_p0_values r @ r_p1_values r)"
    using m by (simp add: mk_items_def)
  from game_context_roundtrip[OF run res nn, of Map.empty] run res nn m show ?thesis
    by (auto simp: context_of_def plural_keys_def mk_items_def)
qed

theorem ceiling_on_trials_key_error_witness:
  "\<exists>fs o0 o1. simulate_trials demo_lines [0] ''self'' (\<lambda>_. deal_players) (\<lambda>_. 0) (\<lambda>_. demo_fmt) length 1 empty_dir
       = Inr (fs, o0, o1)
     \<and> tf_results fs (index_name 0 @ ''.json'') \<noteq> None
     \<and> calculate_dataset_ceiling_performance (tf_results fs) [index_name 0 @ ''.json''] ''coop'' = Inl KeyError"
proof -
  have "case simulate_trials demo_lines [0] ''self'' (\<lambda>_. deal_players) (\<lambda>_. 0) (\<lambda>_. demo_fmt) length 1 empty_dir of
          Inl _ \<Rightarrow> False
        | Inr (fs, o0, o1) \<Rightarrow> tf_results fs (index_name 0 @ ''.json'') \<noteq> None"
    unfolding demo_lines_def deal_players_def demo_fmt_def by code_simp
  then obtain fs o0 o1 where
    run: "simulate_trials demo_lines [0] ''self'' (\<lambda>_. deal_players) (\<lambda>_. 0) (\<lambda>_. demo_fmt) length 1 empty_dir
       = Inr (fs, o0, o1)" and res: "tf_results fs (index_name 0 @ ''.json'') \<noteq> None"
    by (auto split: sum.splits)
  from ceiling_on_trials_key_error[OF run res, of "[]" "''coop''"] run res show ?thesis by blast
qed

theorem first_player_abort_witness:
  "fresh_game demo_game \<and> (0::nat) < 2 \<and> abort_players ! 0 = LLM (\<lambda>json. ''Let us split evenly.'')
   \<and> (\<exists>g' out. play_game abort_players 0 demo_fmt length demo_game
          = Inr (g', out, turn_line 0 abort_marker @ final_score_lines 0 0)
        \<and> game_over g' \<and> \<not> is_valid_deal out \<and> msg_cnt out = 1 \<and> p0_score out = 0 \<and> p1_score out = 0)"
proof -
  have a: "abort_players ! 0 = LLM (\<lambda>json. ''Let us split evenly.'')" by (simp add: abort_players_def)
  have rej: "\<forall>json. \<exists>fb. is_valid_output (item_counts demo_game) False 1
                (generate_response (\<lambda>json. ''Let us split evenly.'') json) = Inr (Reject fb)"
  proof
    fix json
    have "is_valid_output (item_counts demo_game) False 1 (generate_response (\<lambda>json. ''Let us split evenly.'') json)
        = Inr (Reject OutputPrefix)"
      unfolding demo_game_def by code_simp
    then show "\<exists>fb. is_valid_output (item_counts demo_game) False 1
                (generate_response (\<lambda>json. ''Let us split evenly.'') json) = Inr (Reject fb)" by blast
  qed
  from first_player_abort[OF demo_game_fresh _ a rej, of demo_fmt length] a demo_game_fresh
  show ?thesis by auto
qed

theorem simulate_trials_results_consistent_witness:
  "\<exists>fs o0 o1 r. simulate_trials demo_lines [0] ''self'' (\<lambda>_. deal_players) (\<lambda>_. 0) (\<lambda>_. demo_fmt) length 1 empty_dir
       = Inr (fs, o0, o1)
     \<and> tf_results fs (index_name 0 @ ''.json'') = Some r \<and> r_valid r
     \<and> calculateFinalScores Self (r_counts r) [r_p0_values r, r_p1_values r] [r_p0_allocation r, r_p1_allocation r]
         = Inr (r_p0_score r, r_p1_score r)"
proof -
  have "case simulate_trials demo_lines [0] ''self'' (\<lambda>_. deal_players) (\<lambda>_. 0) (\<lambda>_. demo_fmt) length 1 empty_dir of
          Inl _ \<Rightarrow> False
        | Inr (fs, o0, o1) \<Rightarrow> (case tf_results fs (index_name 0 @ ''.json'') of None \<Rightarrow> False | Some r \<Rightarrow> r_valid r)"
    unfolding demo_lines_def deal_players_def demo_fmt_def by code_simp
  then obtain fs o0 o1 r where
    run: "simulate_trials demo_lines [0] ''self'' (\<lambda>_. deal_players) (\<lambda>_. 0) (\<lambda>_. demo_fmt) length 1 empty_dir
       = Inr (fs, o0, o1)" and res: "tf_results fs (index_name 0 @ ''.json'') = Some r" and v: "r_valid r"
    by (auto split: sum.splits option.splits)
  have ob: "objective_of_string ''self'' = Inr Self" by (simp add: objective_of_string_def)
  from simulate_trials_results_consistent[OF run res] ob run res v show ?thesis by auto
qed

end
